theory Spec2Isabelle
  imports Complex_Main "HOL-Library.Sublist" "HOL-Library.Log_Nat"
begin
section \<open>The parameter table of the configuration UI\<close>

text \<open>
  The UI component \<^verbatim>\<open>App\<close> (in TypeScript, and its JavaScript twin \<^verbatim>\<open>src/App.js\<close>, which
  has the same table and the same handlers without the type annotations) declares
  \<^verbatim>\<open>interface WorldModelParameter { id; label; min; max; step; unit }\<close> and the constant table
  \<^verbatim>\<open>worldModelParameters\<close> of 25 entries. The fields \<^verbatim>\<open>id\<close>, \<^verbatim>\<open>min\<close>, \<^verbatim>\<open>max\<close> and
  \<^verbatim>\<open>unit\<close> carry the suffix \<open>_p\<close> here, the plain names being taken in HOL.
\<close>

record WorldModelParameter =
  id_p :: string
  label :: string
  min_p :: int
  max_p :: int
  step :: int
  unit_p :: string

definition mk_param :: "string \<Rightarrow> string \<Rightarrow> int \<Rightarrow> int \<Rightarrow> int \<Rightarrow> string \<Rightarrow> WorldModelParameter" where
  "mk_param i l lo hi s u = \<lparr>id_p = i, label = l, min_p = lo, max_p = hi, step = s, unit_p = u\<rparr>"

definition worldModelParameters :: "WorldModelParameter list" where
  "worldModelParameters =
   [ mk_param ''population'' ''Population'' 0 15000000000 1000000 ''people'',
     mk_param ''economy'' ''Economic Growth'' 0 100 1 ''%'',
     mk_param ''environment'' ''Environmental Quality'' 0 100 1 ''%'',
     mk_param ''technology'' ''Technology Level'' 0 100 1 ''%'',
     mk_param ''health'' ''Health Index'' 0 100 1 ''%'',
     mk_param ''education'' ''Education Level'' 0 100 1 ''%'',
     mk_param ''governance'' ''Governance Quality'' 0 100 1 ''%'',
     mk_param ''climate_stability'' ''Climate Stability'' 0 100 1 ''%'',
     mk_param ''resource_scarcity'' ''Resource Scarcity'' 0 100 1 ''%'',
     mk_param ''social_cohesion'' ''Social Cohesion'' 0 100 1 ''%'',
     mk_param ''political_stability'' ''Political Stability'' 0 100 1 ''%'',
     mk_param ''innovation_rate'' ''Innovation Rate'' 0 100 1 ''%'',
     mk_param ''energy_efficiency'' ''Energy Efficiency'' 0 100 1 ''%'',
     mk_param ''biodiversity'' ''Biodiversity Index'' 0 100 1 ''%'',
     mk_param ''urbanization'' ''Urbanization Level'' 0 100 1 ''%'',
     mk_param ''inequality'' ''Income Inequality'' 0 100 1 ''%'',
     mk_param ''trade_openness'' ''Trade Openness'' 0 100 1 ''%'',
     mk_param ''corruption_level'' ''Corruption Level'' 0 100 1 ''%'',
     mk_param ''military_spending'' ''Military Spending'' 0 100 1 ''% of GDP'',
     mk_param ''renewable_energy'' ''Renewable Energy'' 0 100 1 ''%'',
     mk_param ''water_security'' ''Water Security'' 0 100 1 ''%'',
     mk_param ''food_security'' ''Food Security'' 0 100 1 ''%'',
     mk_param ''cyber_security'' ''Cyber Security'' 0 100 1 ''%'',
     mk_param ''demographic_dividend'' ''Demographic Dividend'' 0 100 1 ''%'',
     mk_param ''global_connectivity'' ''Global Connectivity'' 0 100 1 ''%'' ]"

text \<open>
  \<^verbatim>\<open>getParameterInfo = (parameterId) => worldModelParameters.find(p => p.id === parameterId)
     || worldModelParameters[0]\<close>.
  \<^verbatim>\<open>Array.prototype.find\<close> yields the first matching element or \<^verbatim>\<open>undefined\<close>; an object is
  truthy, so \<^verbatim>\<open>||\<close> takes its right operand exactly when nothing matched; index 0 of an
  empty array is \<^verbatim>\<open>undefined\<close>. \<open>None\<close> stands for \<^verbatim>\<open>undefined\<close>. The table is a parameter of
  \<open>getParameterInfo_in\<close> so that the precondition on it can be stated.
\<close>

definition getParameterInfo_in :: "WorldModelParameter list \<Rightarrow> string \<Rightarrow> WorldModelParameter option" where
  "getParameterInfo_in ps parameterId =
     (case find (\<lambda>p. id_p p = parameterId) ps of
        Some p \<Rightarrow> Some p
      | None \<Rightarrow> (case ps of [] \<Rightarrow> None | p0 # _ \<Rightarrow> Some p0))"

definition getParameterInfo :: "string \<Rightarrow> WorldModelParameter option" where
  "getParameterInfo = getParameterInfo_in worldModelParameters"

text \<open>
  \<^verbatim>\<open>formatParameterValue(value, parameterId)\<close> first binds \<^verbatim>\<open>param\<close>, then returns
  \<^verbatim>\<open>`${(value / 1000000000).toFixed(1)}B`\<close> for the id \<^verbatim>\<open>'population'\<close> and
  \<^verbatim>\<open>`${value}${param.unit}`\<close> otherwise. Reading \<^verbatim>\<open>.unit\<close> of \<^verbatim>\<open>undefined\<close> throws a
  \<^verbatim>\<open>TypeError\<close>. The two renderings of a JavaScript number (division by \<open>10\<^sup>9\<close> followed by
  \<^verbatim>\<open>toFixed(1)\<close>, and the default conversion to a string) are built-ins working on floating
  point; they are parameters \<open>toFixed1\<close> and \<open>toStr\<close> of the model.
\<close>

datatype js_error = TypeError

definition formatParameterValue_in ::
  "WorldModelParameter list \<Rightarrow> ('n \<Rightarrow> string) \<Rightarrow> ('n \<Rightarrow> string) \<Rightarrow> 'n \<Rightarrow> string \<Rightarrow> js_error + string" where
  "formatParameterValue_in ps toFixed1 toStr v parameterId =
     (let param = getParameterInfo_in ps parameterId in
      if parameterId = ''population'' then Inr (toFixed1 v @ ''B'')
      else (case param of None \<Rightarrow> Inl TypeError | Some p \<Rightarrow> Inr (toStr v @ unit_p p)))"

definition formatParameterValue :: "('n \<Rightarrow> string) \<Rightarrow> ('n \<Rightarrow> string) \<Rightarrow> 'n \<Rightarrow> string \<Rightarrow> js_error + string" where
  "formatParameterValue = formatParameterValue_in worldModelParameters"

section \<open>Parameter cards of the configuration UI\<close>

text \<open>
  \<^verbatim>\<open>interface ParameterCard { id: number; parameterId: ParameterId; value: number; order: number }\<close>.
  The component keeps two pieces of state, \<^verbatim>\<open>parameterCards\<close> (initially \<^verbatim>\<open>[]\<close>) and
  \<^verbatim>\<open>nextCardId\<close> (initially \<^verbatim>\<open>1\<close>). Card ids and the counter are JavaScript numbers that
  only ever hold the integers \<open>1, 2, 3, \<dots>\<close>; they are natural numbers here (a JavaScript
  number is exact on integers below \<open>2\<^sup>5\<^sup>3\<close>, which no sequence of clicks reaches). The type
  cast \<^verbatim>\<open>parameterId as ParameterId\<close> does nothing at run time, so \<open>parameterId\<close> is a string.
  The fields \<^verbatim>\<open>id\<close>, \<^verbatim>\<open>value\<close> and \<^verbatim>\<open>order\<close> carry the suffix \<open>_c\<close>.

  A handler is a closure of the render that created it. \<^verbatim>\<open>handleAddParameterCard\<close> reads
  \<^verbatim>\<open>nextCardId\<close> and \<^verbatim>\<open>parameterCards.length\<close> from that render and posts two functional
  updates, \<^verbatim>\<open>prev => [...prev, newCard]\<close> and \<^verbatim>\<open>prev => prev + 1\<close>, which React applies to
  the state as it is when they run. So this handler takes two states: the state of its
  render, and the state the updates are applied to. The other three handlers read nothing
  from the render: their updates depend on their arguments and on \<^verbatim>\<open>prev\<close> only.
\<close>

record ParameterCard =
  id_c :: nat
  parameterId :: string
  value_c :: int
  order_c :: nat

record card_state =
  parameterCards :: "ParameterCard list"
  nextCardId :: nat

definition initial_card_state :: card_state where
  "initial_card_state = \<lparr>parameterCards = [], nextCardId = 1\<rparr>"

definition handleCardSliderChange :: "nat \<Rightarrow> int \<Rightarrow> card_state \<Rightarrow> card_state" where
  "handleCardSliderChange cardId v s =
     s\<lparr>parameterCards :=
         map (\<lambda>card. if id_c card = cardId then card\<lparr>value_c := v\<rparr> else card) (parameterCards s)\<rparr>"

definition handleAddParameterCard :: "card_state \<Rightarrow> card_state \<Rightarrow> card_state" where
  "handleAddParameterCard render s =
     (let newCard = \<lparr>id_c = nextCardId render, parameterId = ''population'', value_c = 50,
                      order_c = length (parameterCards render)\<rparr>
      in s\<lparr>parameterCards := parameterCards s @ [newCard], nextCardId := nextCardId s + 1\<rparr>)"

definition handleRemoveParameterCard :: "nat \<Rightarrow> card_state \<Rightarrow> card_state" where
  "handleRemoveParameterCard cardId s =
     s\<lparr>parameterCards := filter (\<lambda>card. id_c card \<noteq> cardId) (parameterCards s)\<rparr>"

definition handleParameterCardChange :: "nat \<Rightarrow> string \<Rightarrow> card_state \<Rightarrow> card_state" where
  "handleParameterCardChange cardId pid s =
     s\<lparr>parameterCards :=
         map (\<lambda>card. if id_c card = cardId then card\<lparr>parameterId := pid, value_c := 50\<rparr> else card)
             (parameterCards s)\<rparr>"

text \<open>
  The four card operations as events. An event is handled by the handler of some render,
  on the current state.
\<close>

datatype card_event =
    AddParameterCard
  | RemoveParameterCard nat
  | ParameterCardChange nat string
  | CardSliderChange nat int

fun handle :: "card_state \<Rightarrow> card_event \<Rightarrow> card_state \<Rightarrow> card_state" where
  "handle render AddParameterCard s = handleAddParameterCard render s"
| "handle render (RemoveParameterCard cardId) s = handleRemoveParameterCard cardId s"
| "handle render (ParameterCardChange cardId pid) s = handleParameterCardChange cardId pid s"
| "handle render (CardSliderChange cardId v) s = handleCardSliderChange cardId v s"

text \<open>
  A session in which the component renders again after every event, as React does between
  two clicks: each event is handled by the handler of the render of the current state.
\<close>

fun run_events :: "card_event list \<Rightarrow> card_state \<Rightarrow> card_state" where
  "run_events [] s = s"
| "run_events (e # es) s = run_events es (handle s e s)"

text \<open>Several events handled by the handlers of one and the same render.\<close>

fun run_batch :: "card_state \<Rightarrow> card_event list \<Rightarrow> card_state \<Rightarrow> card_state" where
  "run_batch render [] s = s"
| "run_batch render (e # es) s = run_batch render es (handle render e s)"

text \<open>
  The ids given to new cards in the course of a session, in the order of their issue:
  after each \<^verbatim>\<open>handleAddParameterCard\<close>, the id of the card it has appended, read from the
  list it leaves.
\<close>

fun appended_id :: "card_event \<Rightarrow> card_state \<Rightarrow> nat list" where
  "appended_id AddParameterCard s' = [id_c (last (parameterCards s'))]"
| "appended_id e s' = []"

fun issued_ids :: "card_event list \<Rightarrow> card_state \<Rightarrow> nat list" where
  "issued_ids [] s = []"
| "issued_ids (e # es) s = appended_id e (handle s e s) @ issued_ids es (handle s e s)"

text \<open>The state invariant: ids pairwise distinct and below the counter.\<close>

definition cards_inv :: "card_state \<Rightarrow> bool" where
  "cards_inv s \<longleftrightarrow>
     distinct (map id_c (parameterCards s)) \<and> (\<forall>c \<in> set (parameterCards s). id_c c < nextCardId s)"

section \<open>JSON documents\<close>

text \<open>
  The persisted level artifacts are JSON documents. An object is the list of its members
  in the order of the file; a number written without a decimal point is \<open>JInt\<close>, one
  written with a decimal point is \<open>JReal\<close> and holds the value of the decimal literal.
\<close>

datatype json =
    JNull
  | JBool bool
  | JInt int
  | JReal rat
  | JStr string
  | JArr "json list"
  | JObj "(string \<times> json) list"

fun member :: "string \<Rightarrow> json \<Rightarrow> json option" where
  "member k (JObj kvs) = map_of kvs k"
| "member k _ = None"

fun keys :: "json \<Rightarrow> string list" where
  "keys (JObj kvs) = map fst kvs"
| "keys _ = []"

fun elements :: "json \<Rightarrow> json list" where
  "elements (JArr xs) = xs"
| "elements _ = []"

text \<open>Following a path of keys from the top of a document.\<close>

fun at_path :: "string list \<Rightarrow> json \<Rightarrow> json option" where
  "at_path [] j = Some j"
| "at_path (k # ks) j = (case member k j of None \<Rightarrow> None | Some v \<Rightarrow> at_path ks v)"

text \<open>The array found under a key, empty when the key is absent or holds no array.\<close>

definition array_at :: "string \<Rightarrow> json \<Rightarrow> json list" where
  "array_at k j = (case member k j of Some v \<Rightarrow> elements v | None \<Rightarrow> [])"

lemma size_map_of: "map_of kvs k = Some v \<Longrightarrow> size v < size (JObj kvs)"
  by (induction kvs) (auto split: if_splits)

lemma size_member: "member k j = Some v \<Longrightarrow> size v < size j"
  by (cases j) (auto dest: size_map_of)

lemma size_elements: "x \<in> set (elements j) \<Longrightarrow> size x < size j"
proof (cases j)
  case (JArr xs)
  assume "x \<in> set (elements j)"
  with JArr have "x \<in> set xs" by simp
  then have "size x < Suc (size_list size xs)"
    by (induction xs) auto
  with JArr show ?thesis by simp
qed auto

lemma size_array_at: "x \<in> set (array_at k j) \<Longrightarrow> size x < size j"
proof -
  assume x: "x \<in> set (array_at k j)"
  then obtain v where v: "member k j = Some v" and xv: "x \<in> set (elements v)"
    by (cases "member k j") (auto simp: array_at_def)
  from xv have "size x < size v" by (rule size_elements)
  also from v have "size v < size j" by (rule size_member)
  finally show ?thesis .
qed

text \<open>
  An actor record together with all the actor records nested below it under the key
  \<open>ck\<close>, each with its nesting depth, the record itself being at nesting depth \<open>d\<close>.
\<close>

function nested :: "string \<Rightarrow> nat \<Rightarrow> json \<Rightarrow> (nat \<times> json) list" where
  "nested ck d a = (d, a) # concat (map (nested ck (Suc d)) (array_at ck a))"
  by pat_completeness auto
termination
  by (relation "measure (\<lambda>(ck, d, a). size a)") (auto dest: size_array_at)

declare nested.simps [simp del]

section \<open>The two persisted artifacts\<close>

text \<open>
  The sources hold two level artifacts written by the generation scripts. Both are
  transcribed here member by member, in the order of the file. A string of more than 100
  characters is a constant of its own, named after its place in the document, as are the
  metadata blocks and the actor records; \<open>level2_actors_0_sub_actors_1\<close> is element 1 of
  the \<^verbatim>\<open>sub_actors\<close> of element 0 of the \<^verbatim>\<open>actors\<close> of the level-2 artifact. No object of
  either file has a key twice.
\<close>

text \<open>The level-0 artifact \<^verbatim>\<open>backend/init_logs/run_2025-07-16_18/Features_level_0_with_params1.json\<close>.\<close>

definition level0_metadata_cost_tracking :: json where
  "level0_metadata_cost_tracking =
     JObj
      [(''total_cost'', JReal (76159999999999995 / 10000000000000000000)),
       (''api_calls'', JInt 1),
       (''providers'', JObj
        [(''anthropic'', JObj
          [(''cost'', JReal (76159999999999995 / 10000000000000000000)),
           (''calls'', JInt 1),
           (''models'', JObj
            [(''claude-3-5-sonnet-latest'', JObj
              [(''cost'', JReal (76159999999999995 / 10000000000000000000)),
               (''calls'', JInt 1),
               (''tokens'', JObj
                [(''input'', JInt 448),
                 (''output'', JInt 168),
                 (''total'', JInt 616)])])]),
           (''tokens'', JObj
            [(''input'', JInt 448),
             (''output'', JInt 168),
             (''total'', JInt 616)])])]),
       (''session_start'', JStr ''2025-07-16T15:53:28.267418''),
       (''tokens_used'', JObj
        [(''input_tokens'', JInt 448),
         (''output_tokens'', JInt 168),
         (''total_tokens'', JInt 616)]),
       (''session_duration_seconds'', JReal (5051455 / 1000000)),
       (''session_duration_str'', JStr ''0:00:05.051455''),
       (''average_cost_per_call'', JReal (76159999999999995 / 10000000000000000000)),
       (''cost_per_1k_tokens'', JReal (12363636363636363 / 1000000000000000000))]"

definition level0_metadata :: json where
  "level0_metadata =
     JObj
      [(''timestamp'', JStr ''2025-07-16T15:53:33.318878''),
       (''run_folder'', JStr ''run_2025-07-16_18''),
       (''model_provider'', JStr ''anthropic''),
       (''model_name'', JStr ''claude-3-5-sonnet-latest''),
       (''num_actors_requested'', JInt 2),
       (''num_actors_generated'', JInt 2),
       (''script_version'', JStr ''2.0.0''),
       (''generation_method'', JStr ''LLM-based''),
       (''level'', JInt 0),
       (''cost_tracking'', level0_metadata_cost_tracking)]"

definition level0_actors_0_description :: string where
  "level0_actors_0_description =
     ''Global superpower with unmatched military capabilities, largest economy by GDP, '' @
     ''dominant financial system (USD), technological leadership, and extensive diploma'' @
     ''tic influence across all continents. Controls key international institutions and'' @
     '' maintains significant cultural soft power.''"

definition level0_actors_0_parameters :: json where
  "level0_actors_0_parameters =
     JArr
      [JObj
        [(''code_name'', JStr ''gdp_nominal''),
         (''name'', JStr ''Nominal GDP''),
         (''description'', JStr ''Total annual Gross Domestic Product in current US dollars.''),
         (''type'', JStr ''float''),
         (''expected_value'', JStr ''20-25 trillion USD'')],
       JObj
        [(''code_name'', JStr ''military_budget''),
         (''name'', JStr ''Military Budget''),
         (''description'', JStr ''Annual defense spending including all military branches and operations.''),
         (''type'', JStr ''float''),
         (''expected_value'', JStr ''700-800 billion USD'')],
       JObj
        [(''code_name'', JStr ''population''),
         (''name'', JStr ''Total Population''),
         (''description'', JStr ''Current total number of residents and citizens.''),
         (''type'', JStr ''integer''),
         (''expected_value'', JStr ''330-340 million'')],
       JObj
        [(''code_name'', JStr ''nuclear_warheads''),
         (''name'', JStr ''Nuclear Warhead Count''),
         (''description'', JStr ''Total number of operational nuclear weapons in arsenal.''),
         (''type'', JStr ''integer''),
         (''expected_value'', JStr ''5000-6000'')],
       JObj
        [(''code_name'', JStr ''veto_power_un''),
         (''name'', JStr ''UN Security Council Veto Power''),
         (''description'', JStr ''Permanent member status with veto power in UN Security Council.''),
         (''type'', JStr ''boolean''),
         (''expected_value'', JStr ''true'')],
       JObj
        [(''code_name'', JStr ''global_reserve_currency_share''),
         (''name'', JStr ''Global Reserve Currency Share''),
         (''description'', JStr ''Percentage of global foreign exchange reserves held in USD.''),
         (''type'', JStr ''float''),
         (''expected_value'', JStr ''55-65%'')],
       JObj
        [(''code_name'', JStr ''diplomatic_missions''),
         (''name'', JStr ''Diplomatic Mission Count''),
         (''description'', JStr ''Number of embassies, consulates, and diplomatic offices worldwide.''),
         (''type'', JStr ''integer''),
         (''expected_value'', JStr ''250-300'')],
       JObj
        [(''code_name'', JStr ''tech_companies_market_cap''),
         (''name'', JStr ''Tech Companies Market Cap''),
         (''description'', JStr ''Combined market capitalization of top tech companies.''),
         (''type'', JStr ''float''),
         (''expected_value'', JStr ''8-12 trillion USD'')],
       JObj
        [(''code_name'', JStr ''higher_education_rank''),
         (''name'', JStr ''Higher Education Ranking''),
         (''description'', JStr ''Global ranking in higher education system quality and research output.''),
         (''type'', JStr ''integer''),
         (''expected_value'', JStr ''1-3'')],
       JObj
        [(''code_name'', JStr ''aircraft_carriers''),
         (''name'', JStr ''Aircraft Carrier Count''),
         (''description'', JStr ''Number of operational aircraft carriers in naval fleet.''),
         (''type'', JStr ''integer''),
         (''expected_value'', JStr ''11-12'')],
       JObj
        [(''code_name'', JStr ''nato_contribution''),
         (''name'', JStr ''NATO Defense Contribution''),
         (''description'', JStr ''Percentage of total NATO defense spending.''),
         (''type'', JStr ''float''),
         (''expected_value'', JStr ''65-75%'')],
       JObj
        [(''code_name'', JStr ''patents_filed''),
         (''name'', JStr ''Annual Patents Filed''),
         (''description'', JStr ''Number of patents filed annually within the country.''),
         (''type'', JStr ''integer''),
         (''expected_value'', JStr ''500000-600000'')],
       JObj
        [(''code_name'', JStr ''trade_volume''),
         (''name'', JStr ''International Trade Volume''),
         (''description'', JStr ''Total annual import and export value.''),
         (''type'', JStr ''float''),
         (''expected_value'', JStr ''4-5 trillion USD'')],
       JObj
        [(''code_name'', JStr ''foreign_aid_budget''),
         (''name'', JStr ''Foreign Aid Budget''),
         (''description'', JStr ''Annual foreign assistance and development aid spending.''),
         (''type'', JStr ''float''),
         (''expected_value'', JStr ''35-45 billion USD'')],
       JObj
        [(''code_name'', JStr ''gdp_per_capita''),
         (''name'', JStr ''GDP per Capita''),
         (''description'', JStr ''Average GDP per person in current US dollars.''),
         (''type'', JStr ''float''),
         (''expected_value'', JStr ''60000-70000 USD'')],
       JObj
        [(''code_name'', JStr ''internet_penetration''),
         (''name'', JStr ''Internet Penetration Rate''),
         (''description'', JStr ''Percentage of population with internet access.''),
         (''type'', JStr ''float''),
         (''expected_value'', JStr ''85-95%'')],
       JObj
        [(''code_name'', JStr ''r_and_d_spending''),
         (''name'', JStr ''R&D Spending''),
         (''description'', JStr ''Annual research and development expenditure as percentage of GDP.''),
         (''type'', JStr ''float''),
         (''expected_value'', JStr ''2.5-3.5%'')],
       JObj
        [(''code_name'', JStr ''soft_power_index''),
         (''name'', JStr ''Soft Power Index''),
         (''description'', JStr ''Measure of non-coercive international influence through culture, values, and policies.''),
         (''type'', JStr ''float''),
         (''expected_value'', JStr ''0.8-1.0'')],
       JObj
        [(''code_name'', JStr ''military_personnel''),
         (''name'', JStr ''Active Military Personnel''),
         (''description'', JStr ''Total number of active duty military personnel.''),
         (''type'', JStr ''integer''),
         (''expected_value'', JStr ''1.3-1.4 million'')],
       JObj
        [(''code_name'', JStr ''debt_to_gdp''),
         (''name'', JStr ''Debt to GDP Ratio''),
         (''description'', JStr ''National debt as a percentage of GDP.''),
         (''type'', JStr ''float''),
         (''expected_value'', JStr ''120-140%'')]]"

definition level0_actors_0 :: json where
  "level0_actors_0 =
     JObj
      [(''name'', JStr ''United States of America''),
       (''description'', JStr level0_actors_0_description),
       (''type'', JStr ''country''),
       (''depth'', JInt 1),
       (''parameters'', level0_actors_0_parameters)]"

definition level0_actors_1_description :: string where
  "level0_actors_1_description =
     ''Second largest economy, rising military power, largest population, dominant manu'' @
     ''facturing base, growing technological capabilities, massive infrastructure inves'' @
     ''tments (Belt and Road), and increasing diplomatic influence, especially in devel'' @
     ''oping nations.''"

definition level0_actors_1_parameters :: json where
  "level0_actors_1_parameters =
     JArr
      [JObj
        [(''code_name'', JStr ''gdp_nominal''),
         (''name'', JStr ''GDP (Nominal)''),
         (''description'', JStr ''Total annual Gross Domestic Product in current USD.''),
         (''type'', JStr ''float''),
         (''expected_value'', JStr ''12-18 trillion USD'')],
       JObj
        [(''code_name'', JStr ''population''),
         (''name'', JStr ''Total Population''),
         (''description'', JStr ''Total number of permanent residents in the country.''),
         (''type'', JStr ''integer''),
         (''expected_value'', JStr ''1.3-1.4 billion'')],
       JObj
        [(''code_name'', JStr ''military_spending''),
         (''name'', JStr ''Military Expenditure''),
         (''description'', JStr ''Annual defense budget and military-related spending.''),
         (''type'', JStr ''float''),
         (''expected_value'', JStr ''200-300 billion USD'')],
       JObj
        [(''code_name'', JStr ''manufacturing_output''),
         (''name'', JStr ''Manufacturing Output''),
         (''description'', JStr ''Annual total manufacturing production value.''),
         (''type'', JStr ''float''),
         (''expected_value'', JStr ''3-5 trillion USD'')],
       JObj
        [(''code_name'', JStr ''foreign_reserves''),
         (''name'', JStr ''Foreign Exchange Reserves''),
         (''description'', JStr ''Total value of foreign currency reserves held by central bank.''),
         (''type'', JStr ''float''),
         (''expected_value'', JStr ''3-4 trillion USD'')],
       JObj
        [(''code_name'', JStr ''belt_road_investment''),
         (''name'', JStr ''Belt and Road Investment''),
         (''description'', JStr ''Cumulative investment in Belt and Road Initiative projects.''),
         (''type'', JStr ''float''),
         (''expected_value'', JStr ''500-1000 billion USD'')],
       JObj
        [(''code_name'', JStr ''rd_spending''),
         (''name'', JStr ''R&D Spending''),
         (''description'', JStr ''Annual spending on research and development across all sectors.''),
         (''type'', JStr ''float''),
         (''expected_value'', JStr ''300-500 billion USD'')],
       JObj
        [(''code_name'', JStr ''urbanization_rate''),
         (''name'', JStr ''Urbanization Rate''),
         (''description'', JStr ''Percentage of population living in urban areas.''),
         (''type'', JStr ''float''),
         (''expected_value'', JStr ''60-65%'')],
       JObj
        [(''code_name'', JStr ''energy_consumption''),
         (''name'', JStr ''Energy Consumption''),
         (''description'', JStr ''Total annual energy consumption in million tonnes of oil equivalent.''),
         (''type'', JStr ''float''),
         (''expected_value'', JStr ''3000-3500 MTOE'')],
       JObj
        [(''code_name'', JStr ''export_value''),
         (''name'', JStr ''Export Value''),
         (''description'', JStr ''Total annual value of exports.''),
         (''type'', JStr ''float''),
         (''expected_value'', JStr ''2.5-3 trillion USD'')],
       JObj
        [(''code_name'', JStr ''tech_patents''),
         (''name'', JStr ''Technology Patents''),
         (''description'', JStr ''Number of technology patents filed annually.''),
         (''type'', JStr ''integer''),
         (''expected_value'', JStr ''1.3-1.6 million'')],
       JObj
        [(''code_name'', JStr ''diplomatic_missions''),
         (''name'', JStr ''Diplomatic Missions''),
         (''description'', JStr ''Number of diplomatic missions and consulates worldwide.''),
         (''type'', JStr ''integer''),
         (''expected_value'', JStr ''160-180'')],
       JObj
        [(''code_name'', JStr ''internet_users''),
         (''name'', JStr ''Internet Users''),
         (''description'', JStr ''Number of active internet users in the country.''),
         (''type'', JStr ''integer''),
         (''expected_value'', JStr ''800-900 million'')],
       JObj
        [(''code_name'', JStr ''co2_emissions''),
         (''name'', JStr ''CO2 Emissions''),
         (''description'', JStr ''Annual carbon dioxide emissions in metric tons.''),
         (''type'', JStr ''float''),
         (''expected_value'', JStr ''9-11 billion metric tons'')],
       JObj
        [(''code_name'', JStr ''high_speed_rail''),
         (''name'', JStr ''High-Speed Rail Network''),
         (''description'', JStr ''Total length of high-speed rail network in kilometers.''),
         (''type'', JStr ''float''),
         (''expected_value'', JStr ''35000-40000 km'')],
       JObj
        [(''code_name'', JStr ''university_count''),
         (''name'', JStr ''Universities''),
         (''description'', JStr ''Number of higher education institutions.''),
         (''type'', JStr ''integer''),
         (''expected_value'', JStr ''2800-3000'')],
       JObj
        [(''code_name'', JStr ''military_personnel''),
         (''name'', JStr ''Active Military Personnel''),
         (''description'', JStr ''Number of active duty military personnel.''),
         (''type'', JStr ''integer''),
         (''expected_value'', JStr ''2-2.2 million'')],
       JObj
        [(''code_name'', JStr ''trade_partners''),
         (''name'', JStr ''Major Trade Partners''),
         (''description'', JStr ''Number of countries with significant bilateral trade relationships.''),
         (''type'', JStr ''integer''),
         (''expected_value'', JStr ''120-140'')],
       JObj
        [(''code_name'', JStr ''debt_to_gdp''),
         (''name'', JStr ''Debt to GDP Ratio''),
         (''description'', JStr ''Total government debt as percentage of GDP.''),
         (''type'', JStr ''float''),
         (''expected_value'', JStr ''250-300%'')],
       JObj
        [(''code_name'', JStr ''soft_power_index''),
         (''name'', JStr ''Soft Power Index''),
         (''description'', JStr ''Composite score measuring cultural, diplomatic, and economic influence globally.''),
         (''type'', JStr ''float''),
         (''expected_value'', JStr ''60-80 out of 100'')]]"

definition level0_actors_1 :: json where
  "level0_actors_1 =
     JObj
      [(''name'', JStr ''People's Republic of China''),
       (''description'', JStr level0_actors_1_description),
       (''type'', JStr ''country''),
       (''depth'', JInt 1),
       (''parameters'', level0_actors_1_parameters)]"

definition level0_artifact :: json where
  "level0_artifact =
     JObj
      [(''metadata'', level0_metadata),
       (''actors'', JArr
        [level0_actors_0,
         level0_actors_1]),
       (''total_count'', JInt 2)]"

text \<open>The level-2 artifact of run \<^verbatim>\<open>run_2025-07-16_16\<close> (the file of the generation script after two level-down rounds).\<close>

definition level2_metadata_original_metadata :: json where
  "level2_metadata_original_metadata =
     JObj
      [(''timestamp'', JStr ''2025-07-16T14:22:48.533055''),
       (''run_folder'', JStr ''run_2025-07-16_16''),
       (''model_provider'', JStr ''anthropic''),
       (''model_name'', JStr ''claude-3-5-sonnet-latest''),
       (''num_actors_requested'', JInt 2),
       (''num_actors_generated'', JInt 2),
       (''script_version'', JStr ''2.0.0''),
       (''generation_method'', JStr ''LLM-based''),
       (''level'', JInt 0),
       (''cost_tracking'', JObj
        [(''total_cost'', JReal (7568 / 1000000)),
         (''api_calls'', JInt 1),
         (''providers'', JObj
          [(''anthropic'', JObj
            [(''cost'', JReal (7568 / 1000000)),
             (''calls'', JInt 1),
             (''models'', JObj
              [(''claude-3-5-sonnet-latest'', JObj
                [(''cost'', JReal (7568 / 1000000)),
                 (''calls'', JInt 1),
                 (''tokens'', JObj
                  [(''input'', JInt 448),
                   (''output'', JInt 166),
                   (''total'', JInt 614)])])]),
             (''tokens'', JObj
              [(''input'', JInt 448),
               (''output'', JInt 166),
               (''total'', JInt 614)])])]),
         (''session_start'', JStr ''2025-07-16T14:22:42.498918''),
         (''tokens_used'', JObj
          [(''input_tokens'', JInt 448),
           (''output_tokens'', JInt 166),
           (''total_tokens'', JInt 614)]),
         (''session_duration_seconds'', JReal (6034127 / 1000000)),
         (''session_duration_str'', JStr ''0:00:06.034127''),
         (''average_cost_per_call'', JReal (7568 / 1000000)),
         (''cost_per_1k_tokens'', JReal (12325732899022801 / 1000000000000000000))])]"

definition level2_metadata_generation_stats :: json where
  "level2_metadata_generation_stats =
     JObj
      [(''total_main_actors'', JInt 2),
       (''total_subactors'', JInt 12),
       (''actors_with_subactors'', JInt 2),
       (''avg_subactors_per_actor'', JReal 6),
       (''successful_actors'', JInt 4),
       (''failed_actors'', JInt 0)]"

definition level2_metadata_cost_tracking :: json where
  "level2_metadata_cost_tracking =
     JObj
      [(''total_cost'', JReal (6801600000000001 / 100000000000000000)),
       (''api_calls'', JInt 7),
       (''providers'', JObj
        [(''anthropic'', JObj
          [(''cost'', JReal (6801600000000001 / 100000000000000000)),
           (''calls'', JInt 7),
           (''models'', JObj
            [(''claude-3-5-sonnet-latest'', JObj
              [(''cost'', JReal (6801600000000001 / 100000000000000000)),
               (''calls'', JInt 7),
               (''tokens'', JObj
                [(''input'', JInt 3078),
                 (''output'', JInt 1808),
                 (''total'', JInt 4886)])])]),
           (''tokens'', JObj
            [(''input'', JInt 3078),
             (''output'', JInt 1808),
             (''total'', JInt 4886)])])]),
       (''session_start'', JStr ''2025-07-16T14:22:42.498918''),
       (''tokens_used'', JObj
        [(''input_tokens'', JInt 3078),
         (''output_tokens'', JInt 1808),
         (''total_tokens'', JInt 4886)]),
       (''session_duration_seconds'', JReal (20613796 / 1000000)),
       (''session_duration_str'', JStr ''0:00:20.613796''),
       (''average_cost_per_call'', JReal (971657142857143 / 100000000000000000)),
       (''cost_per_1k_tokens'', JReal (13920589439214082 / 1000000000000000000))]"

definition level2_metadata :: json where
  "level2_metadata =
     JObj
      [(''timestamp'', JStr ''2025-07-16T14:23:03.112728''),
       (''run_folder'', JStr ''run_2025-07-16_16''),
       (''model_provider'', JStr ''anthropic''),
       (''model_name'', JStr ''claude-3-5-sonnet-latest''),
       (''script_version'', JStr ''2.0.0''),
       (''level'', JInt 2),
       (''parent_file'', JStr ''Features_level_1.json''),
       (''original_metadata'', level2_metadata_original_metadata),
       (''parallelization'', JObj
        [(''enabled'', JBool True),
         (''max_concurrent_threads'', JInt 5),
         (''total_parallel_tasks'', JInt 4)]),
       (''generation_stats'', level2_metadata_generation_stats),
       (''cost_tracking'', level2_metadata_cost_tracking)]"

definition level2_actors_0_description :: string where
  "level2_actors_0_description =
     ''Global superpower with unmatched military strength, largest economy by GDP, domi'' @
     ''nant financial system (USD), technological leadership, and extensive diplomatic '' @
     ''influence. Controls key international institutions and maintains significant cul'' @
     ''tural soft power through media and entertainment.''"

definition level2_actors_0_sub_actors_0_description :: string where
  "level2_actors_0_sub_actors_0_description =
     ''Core executive branch leadership headed by the President, wielding extensive exe'' @
     ''cutive authority over federal policy, national security, foreign relations, and '' @
     ''military command. Controls federal agencies, issues executive orders, and shapes'' @
     '' national agenda through veto power and administrative actions.''"

definition level2_actors_0_sub_actors_0_sub_actors_0_description :: string where
  "level2_actors_0_sub_actors_0_sub_actors_0_description =
     ''Leading defense contractor and aerospace company with extensive government contr'' @
     ''acts, particularly in military aircraft, missiles, and advanced technology syste'' @
     ''ms. Major supplier to Department of Defense and intelligence agencies, wielding '' @
     ''significant influence in defense policy and procurement decisions.''"

definition level2_actors_0_sub_actors_0_sub_actors_0 :: json where
  "level2_actors_0_sub_actors_0_sub_actors_0 =
     JObj
      [(''name'', JStr ''Lockheed Martin Corporation''),
       (''description'', JStr level2_actors_0_sub_actors_0_sub_actors_0_description),
       (''type'', JStr ''corporation''),
       (''parent_actor'', JStr ''Executive Office of the President''),
       (''sub_actors'', JArr []),
       (''sub_actors_count'', JInt 0)]"

definition level2_actors_0_sub_actors_0_sub_actors_1_description :: string where
  "level2_actors_0_sub_actors_0_sub_actors_1_description =
     ''Primary cloud computing provider for numerous federal agencies, including CIA an'' @
     ''d Department of Defense through JEDI and C2E contracts. Critical infrastructure '' @
     ''provider for government operations and classified data management systems.''"

definition level2_actors_0_sub_actors_0_sub_actors_1 :: json where
  "level2_actors_0_sub_actors_0_sub_actors_1 =
     JObj
      [(''name'', JStr ''Amazon Web Services (AWS)''),
       (''description'', JStr level2_actors_0_sub_actors_0_sub_actors_1_description),
       (''type'', JStr ''corporation''),
       (''parent_actor'', JStr ''Executive Office of the President''),
       (''sub_actors'', JArr []),
       (''sub_actors_count'', JInt 0)]"

definition level2_actors_0_sub_actors_0_sub_actors_2_description :: string where
  "level2_actors_0_sub_actors_0_sub_actors_2_description =
     ''Data analytics and software company with deep ties to federal intelligence and d'' @
     ''efense agencies. Provides critical data integration and analysis platforms for n'' @
     ''ational security, immigration enforcement, and federal decision-making processes'' @
     ''.''"

definition level2_actors_0_sub_actors_0_sub_actors_2 :: json where
  "level2_actors_0_sub_actors_0_sub_actors_2 =
     JObj
      [(''name'', JStr ''Palantir Technologies''),
       (''description'', JStr level2_actors_0_sub_actors_0_sub_actors_2_description),
       (''type'', JStr ''corporation''),
       (''parent_actor'', JStr ''Executive Office of the President''),
       (''sub_actors'', JArr []),
       (''sub_actors_count'', JInt 0)]"

definition level2_actors_0_sub_actors_0 :: json where
  "level2_actors_0_sub_actors_0 =
     JObj
      [(''name'', JStr ''Executive Office of the President''),
       (''description'', JStr level2_actors_0_sub_actors_0_description),
       (''type'', JStr ''government''),
       (''parent_actor'', JStr ''United States of America''),
       (''sub_actors'', JArr
        [level2_actors_0_sub_actors_0_sub_actors_0,
         level2_actors_0_sub_actors_0_sub_actors_1,
         level2_actors_0_sub_actors_0_sub_actors_2]),
       (''sub_actors_count'', JInt 3)]"

definition level2_actors_0_sub_actors_1_description :: string where
  "level2_actors_0_sub_actors_1_description =
     ''Central bank of the United States that controls monetary policy, regulates banki'' @
     ''ng system, and manages currency stability. Immense influence over global financi'' @
     ''al markets through interest rate decisions and dollar policy, directly impacting'' @
     '' US and world economies.''"

definition level2_actors_0_sub_actors_1_sub_actors_0_description :: string where
  "level2_actors_0_sub_actors_1_sub_actors_0_description =
     ''Largest U.S. bank by assets, primary dealer of U.S. Treasury securities, and maj'' @
     ''or participant in Federal Reserve operations. Critical role in implementing Fed '' @
     ''monetary policy through market operations and serving as a key intermediary in t'' @
     ''he federal funds market.''"

definition level2_actors_0_sub_actors_1_sub_actors_0 :: json where
  "level2_actors_0_sub_actors_1_sub_actors_0 =
     JObj
      [(''name'', JStr ''JPMorgan Chase & Co.''),
       (''description'', JStr level2_actors_0_sub_actors_1_sub_actors_0_description),
       (''type'', JStr ''corporation''),
       (''parent_actor'', JStr ''Federal Reserve System''),
       (''sub_actors'', JArr []),
       (''sub_actors_count'', JInt 0)]"

definition level2_actors_0_sub_actors_1_sub_actors_1_description :: string where
  "level2_actors_0_sub_actors_1_sub_actors_1_description =
     ''World's largest asset manager, serves as key advisor to the Federal Reserve for '' @
     ''bond-buying programs and market operations. Significant influence in Fed's emerg'' @
     ''ency lending facilities and implementation of monetary policy through market ope'' @
     ''rations.''"

definition level2_actors_0_sub_actors_1_sub_actors_1 :: json where
  "level2_actors_0_sub_actors_1_sub_actors_1 =
     JObj
      [(''name'', JStr ''BlackRock, Inc.''),
       (''description'', JStr level2_actors_0_sub_actors_1_sub_actors_1_description),
       (''type'', JStr ''corporation''),
       (''parent_actor'', JStr ''Federal Reserve System''),
       (''sub_actors'', JArr []),
       (''sub_actors_count'', JInt 0)]"

definition level2_actors_0_sub_actors_1_sub_actors_2_description :: string where
  "level2_actors_0_sub_actors_1_sub_actors_2_description =
     ''Leading global investment bank and primary dealer, crucial participant in Fed's '' @
     ''market operations and monetary policy implementation. Major influence in financi'' @
     ''al markets and Fed's regulatory framework through executive appointments and pol'' @
     ''icy advisory roles.''"

definition level2_actors_0_sub_actors_1_sub_actors_2 :: json where
  "level2_actors_0_sub_actors_1_sub_actors_2 =
     JObj
      [(''name'', JStr ''Goldman Sachs Group''),
       (''description'', JStr level2_actors_0_sub_actors_1_sub_actors_2_description),
       (''type'', JStr ''corporation''),
       (''parent_actor'', JStr ''Federal Reserve System''),
       (''sub_actors'', JArr []),
       (''sub_actors_count'', JInt 0)]"

definition level2_actors_0_sub_actors_1 :: json where
  "level2_actors_0_sub_actors_1 =
     JObj
      [(''name'', JStr ''Federal Reserve System''),
       (''description'', JStr level2_actors_0_sub_actors_1_description),
       (''type'', JStr ''institution''),
       (''parent_actor'', JStr ''United States of America''),
       (''sub_actors'', JArr
        [level2_actors_0_sub_actors_1_sub_actors_0,
         level2_actors_0_sub_actors_1_sub_actors_1,
         level2_actors_0_sub_actors_1_sub_actors_2]),
       (''sub_actors_count'', JInt 3)]"

definition level2_actors_0 :: json where
  "level2_actors_0 =
     JObj
      [(''name'', JStr ''United States of America''),
       (''description'', JStr level2_actors_0_description),
       (''type'', JStr ''country''),
       (''sub_actors'', JArr
        [level2_actors_0_sub_actors_0,
         level2_actors_0_sub_actors_1]),
       (''sub_actors_count'', JInt 2)]"

definition level2_actors_1_description :: string where
  "level2_actors_1_description =
     ''Second largest economy, rising military power, largest population, dominant manu'' @
     ''facturing base, increasing technological capabilities, major infrastructure inve'' @
     ''stments (Belt and Road), and growing diplomatic influence across Asia, Africa, a'' @
     ''nd beyond.''"

definition level2_actors_1_sub_actors_0_description :: string where
  "level2_actors_1_sub_actors_0_description =
     ''The ruling political party and ultimate power center of China, controlling all a'' @
     ''spects of governance, military, economy and society through its Politburo Standi'' @
     ''ng Committee and extensive party apparatus. Sets national policy direction and s'' @
     ''trategy at all levels.''"

definition level2_actors_1_sub_actors_0_sub_actors_0_description :: string where
  "level2_actors_1_sub_actors_0_sub_actors_0_description =
     ''State-owned petroleum and petrochemical enterprise group, China's largest oil re'' @
     ''fining company and second-largest oil and gas producer. Critical to China's ener'' @
     ''gy security and economic development with extensive international operations.''"

definition level2_actors_1_sub_actors_0_sub_actors_0 :: json where
  "level2_actors_1_sub_actors_0_sub_actors_0 =
     JObj
      [(''name'', JStr ''Sinopec Group''),
       (''description'', JStr level2_actors_1_sub_actors_0_sub_actors_0_description),
       (''type'', JStr ''corporation''),
       (''parent_actor'', JStr ''Chinese Communist Party (CCP)''),
       (''sub_actors'', JArr []),
       (''sub_actors_count'', JInt 0)]"

definition level2_actors_1_sub_actors_0_sub_actors_1_description :: string where
  "level2_actors_1_sub_actors_0_sub_actors_1_description =
     ''World's largest construction company and real estate conglomerate, responsible f'' @
     ''or major infrastructure projects both domestically and internationally as part o'' @
     ''f Belt and Road Initiative. Key executor of CCP's infrastructure development str'' @
     ''ategy.''"

definition level2_actors_1_sub_actors_0_sub_actors_1 :: json where
  "level2_actors_1_sub_actors_0_sub_actors_1 =
     JObj
      [(''name'', JStr ''China State Construction Engineering Corporation''),
       (''description'', JStr level2_actors_1_sub_actors_0_sub_actors_1_description),
       (''type'', JStr ''corporation''),
       (''parent_actor'', JStr ''Chinese Communist Party (CCP)''),
       (''sub_actors'', JArr []),
       (''sub_actors_count'', JInt 0)]"

definition level2_actors_1_sub_actors_0_sub_actors_2_description :: string where
  "level2_actors_1_sub_actors_0_sub_actors_2_description =
     ''World's largest bank by total assets, providing critical financial services and '' @
     ''implementing CCP's monetary policies. Essential for China's economic control and'' @
     '' international financial influence.''"

definition level2_actors_1_sub_actors_0_sub_actors_2 :: json where
  "level2_actors_1_sub_actors_0_sub_actors_2 =
     JObj
      [(''name'', JStr ''Industrial and Commercial Bank of China''),
       (''description'', JStr level2_actors_1_sub_actors_0_sub_actors_2_description),
       (''type'', JStr ''corporation''),
       (''parent_actor'', JStr ''Chinese Communist Party (CCP)''),
       (''sub_actors'', JArr []),
       (''sub_actors_count'', JInt 0)]"

definition level2_actors_1_sub_actors_0 :: json where
  "level2_actors_1_sub_actors_0 =
     JObj
      [(''name'', JStr ''Chinese Communist Party (CCP)''),
       (''description'', JStr level2_actors_1_sub_actors_0_description),
       (''type'', JStr ''party''),
       (''parent_actor'', JStr ''China''),
       (''sub_actors'', JArr
        [level2_actors_1_sub_actors_0_sub_actors_0,
         level2_actors_1_sub_actors_0_sub_actors_1,
         level2_actors_1_sub_actors_0_sub_actors_2]),
       (''sub_actors_count'', JInt 3)]"

definition level2_actors_1_sub_actors_1_description :: string where
  "level2_actors_1_sub_actors_1_description =
     ''China's chief administrative authority and highest executive organ of state powe'' @
     ''r, responsible for implementing CCP policies, managing the economy, overseeing s'' @
     ''tate bureaucracy, and coordinating between ministries and provinces.''"

definition level2_actors_1_sub_actors_1_sub_actors_0_description :: string where
  "level2_actors_1_sub_actors_1_sub_actors_0_description =
     ''State-owned petroleum and petrochemical enterprise group, China's largest oil re'' @
     ''fining company and second-largest oil and gas producer. Major driver of national'' @
     '' energy security and economic development with extensive international operation'' @
     ''s.''"

definition level2_actors_1_sub_actors_1_sub_actors_0 :: json where
  "level2_actors_1_sub_actors_1_sub_actors_0 =
     JObj
      [(''name'', JStr ''Sinopec Group''),
       (''description'', JStr level2_actors_1_sub_actors_1_sub_actors_0_description),
       (''type'', JStr ''corporation''),
       (''parent_actor'', JStr ''State Council of the People's Republic of China''),
       (''sub_actors'', JArr []),
       (''sub_actors_count'', JInt 0)]"

definition level2_actors_1_sub_actors_1_sub_actors_1_description :: string where
  "level2_actors_1_sub_actors_1_sub_actors_1_description =
     ''World's largest utility company operating China's national power grid. Controls '' @
     ''electricity transmission and distribution across 26 provinces, serving over 1.1 '' @
     ''billion people and critical to national infrastructure.''"

definition level2_actors_1_sub_actors_1_sub_actors_1 :: json where
  "level2_actors_1_sub_actors_1_sub_actors_1 =
     JObj
      [(''name'', JStr ''State Grid Corporation of China''),
       (''description'', JStr level2_actors_1_sub_actors_1_sub_actors_1_description),
       (''type'', JStr ''corporation''),
       (''parent_actor'', JStr ''State Council of the People's Republic of China''),
       (''sub_actors'', JArr []),
       (''sub_actors_count'', JInt 0)]"

definition level2_actors_1_sub_actors_1_sub_actors_2_description :: string where
  "level2_actors_1_sub_actors_1_sub_actors_2_description =
     ''State-owned oil and gas corporation, largest integrated energy company in China.'' @
     '' Controls majority of China's oil and gas production and supply, with significan'' @
     ''t international presence and strategic importance to national energy security.''"

definition level2_actors_1_sub_actors_1_sub_actors_2 :: json where
  "level2_actors_1_sub_actors_1_sub_actors_2 =
     JObj
      [(''name'', JStr ''China National Petroleum Corporation''),
       (''description'', JStr level2_actors_1_sub_actors_1_sub_actors_2_description),
       (''type'', JStr ''corporation''),
       (''parent_actor'', JStr ''State Council of the People's Republic of China''),
       (''sub_actors'', JArr []),
       (''sub_actors_count'', JInt 0)]"

definition level2_actors_1_sub_actors_1 :: json where
  "level2_actors_1_sub_actors_1 =
     JObj
      [(''name'', JStr ''State Council of the People's Republic of China''),
       (''description'', JStr level2_actors_1_sub_actors_1_description),
       (''type'', JStr ''government''),
       (''parent_actor'', JStr ''China''),
       (''sub_actors'', JArr
        [level2_actors_1_sub_actors_1_sub_actors_0,
         level2_actors_1_sub_actors_1_sub_actors_1,
         level2_actors_1_sub_actors_1_sub_actors_2]),
       (''sub_actors_count'', JInt 3)]"

definition level2_actors_1 :: json where
  "level2_actors_1 =
     JObj
      [(''name'', JStr ''China''),
       (''description'', JStr level2_actors_1_description),
       (''type'', JStr ''country''),
       (''sub_actors'', JArr
        [level2_actors_1_sub_actors_0,
         level2_actors_1_sub_actors_1]),
       (''sub_actors_count'', JInt 2)]"

definition level2_artifact :: json where
  "level2_artifact =
     JObj
      [(''metadata'', level2_metadata),
       (''actors'', JArr
        [level2_actors_0,
         level2_actors_1]),
       (''total_main_actors'', JInt 2),
       (''total_subactors'', JInt 12),
       (''level'', JInt 2)]"

section \<open>Reading the persisted artifacts\<close>

text \<open>
  The actor records of a document: the elements of its \<^verbatim>\<open>actors\<close> array, each with every
  record nested below it under the key \<open>ck\<close> (\<^verbatim>\<open>children\<close> in the interface description,
  \<^verbatim>\<open>sub_actors\<close> in the files written by the level-down script), paired with its nesting
  depth below the top-level actor.
\<close>

definition actor_records :: "string \<Rightarrow> json \<Rightarrow> (nat \<times> json) list" where
  "actor_records ck doc = concat (map (nested ck 0) (array_at ''actors'' doc))"

definition has_fields :: "string list \<Rightarrow> json \<Rightarrow> bool" where
  "has_fields ks j = list_all (\<lambda>k. member k j \<noteq> None) ks"

definition is_int :: "json option \<Rightarrow> bool" where
  "is_int v = (case v of Some (JInt _) \<Rightarrow> True | _ \<Rightarrow> False)"

definition is_array :: "json option \<Rightarrow> bool" where
  "is_array v = (case v of Some (JArr _) \<Rightarrow> True | _ \<Rightarrow> False)"

text \<open>
  The depth relation of the data model read on a document: with the top-level actors at
  depth \<open>d0\<close>, the record at nesting depth \<open>d\<close> carries the integer \<^verbatim>\<open>depth\<close> field
  \<open>d0 + d\<close>. This says that every record has the field, that a top-level actor has depth
  \<open>d0\<close>, and that a child's depth is its parent's depth plus one.
\<close>

definition carries_depths :: "string \<Rightarrow> nat \<Rightarrow> json \<Rightarrow> bool" where
  "carries_depths ck d0 doc =
     list_all (\<lambda>(d, a). member ''depth'' a = Some (JInt (int (d0 + d)))) (actor_records ck doc)"

text \<open>
  The layout of a persisted level artifact as the interface description gives it: every
  serialized actor has the six fields, \<^verbatim>\<open>children\<close> being an array of actors again; the
  document has an integer \<^verbatim>\<open>total_count\<close>; and \<^verbatim>\<open>metadata.generation_stats\<close> has exactly
  the six keys.
\<close>

definition section6_actor_fields :: "string list" where
  "section6_actor_fields =
     [''name'', ''description'', ''type'', ''depth'', ''parameters'', ''children'']"

definition section6_stats_keys :: "string list" where
  "section6_stats_keys =
     [''total_actors'', ''total_children'', ''actors_with_children'', ''avg_children_per_actor'',
      ''successful'', ''failed'']"

definition serialized_actor_ok :: "json \<Rightarrow> bool" where
  "serialized_actor_ok a \<longleftrightarrow> has_fields section6_actor_fields a \<and> is_array (member ''children'' a)"

definition stats_keys_ok :: "json \<Rightarrow> bool" where
  "stats_keys_ok doc =
     (case at_path [''metadata'', ''generation_stats''] doc of
        None \<Rightarrow> False
      | Some gs \<Rightarrow> distinct (keys gs) \<and> set (keys gs) = set section6_stats_keys)"

definition conforms_section6 :: "json \<Rightarrow> bool" where
  "conforms_section6 doc \<longleftrightarrow>
     list_all (\<lambda>(d, a). serialized_actor_ok a) (actor_records ''children'' doc)
     \<and> is_int (member ''total_count'' doc)
     \<and> stats_keys_ok doc"

section \<open>The generation subsystem, modelled from its specification\<close>

text \<open>
  Of the generation backend the sources hold the UI that configures it, two artifacts it
  wrote and the development log, but not the Python scripts (\<^verbatim>\<open>actors_init.py\<close>,
  \<^verbatim>\<open>actors_leveldown.py\<close>, \<^verbatim>\<open>actors_complete.py\<close>, \<^verbatim>\<open>llm.py\<close>). The definitions of this
  section follow the specification of the subsystem, component by component; each says
  what it stands in for.
\<close>

subsection \<open>Actors\<close>

text \<open>
  Modelled from the spec: the \<^verbatim>\<open>Parameter\<close> of the data model, with its
  \<^verbatim>\<open>value_type\<close> out of \<^verbatim>\<open>{float,int,bool,string}\<close> (missing: the pydantic models of the
  scripts).
\<close>

datatype value_type = VFloat | VInt | VBool | VString

record Parameter =
  code_name :: string
  display_name :: string
  description_of :: string
  value_type_of :: value_type
  expected_value_range :: string

text \<open>
  Modelled from the spec: the \<^verbatim>\<open>Actor\<close> of the data model (missing: the classes \<^verbatim>\<open>Actor\<close>,
  \<^verbatim>\<open>SubActor\<close> and \<^verbatim>\<open>EnhancedActor\<close> of the scripts). An actor has a name, a description, a
  type, a depth, an ordered list of parameters, an ordered list of children it owns, and
  the error flag attached to a node whose expansion failed and was skipped.
\<close>

datatype actor =
  Actor (name: string) (description: string) (type_of: string) (depth: nat)
        (parameters: "Parameter list") (children: "actor list") (error_flag: bool)

text \<open>All nodes of a tree, the root first; the nodes at a given nesting depth below the root.\<close>

fun nodes :: "actor \<Rightarrow> actor list" where
  "nodes (Actor n d t dp ps cs ef) = Actor n d t dp ps cs ef # concat (map nodes cs)"

fun nodes_at :: "nat \<Rightarrow> actor \<Rightarrow> actor list" where
  "nodes_at 0 a = [a]"
| "nodes_at (Suc k) a = concat (map (nodes_at k) (children a))"

text \<open>The parent/child edges of a tree, as pairs of names with their depths.\<close>

fun edges :: "actor \<Rightarrow> ((string \<times> nat) \<times> (string \<times> nat)) list" where
  "edges (Actor n d t dp ps cs ef) =
     map (\<lambda>c. ((n, dp), (name c, depth c))) cs @ concat (map edges cs)"

text \<open>The depth invariant of the data model: \<open>depth(child) = depth(parent) + 1\<close>, at every node.\<close>

fun depths_ok :: "actor \<Rightarrow> bool" where
  "depths_ok (Actor n d t dp ps cs ef) = list_all (\<lambda>c. depth c = dp + 1 \<and> depths_ok c) cs"

subsection \<open>RetryController\<close>

text \<open>
  Modelled from the spec: the provider call boundary, with its error kinds, and the result
  of one attempt (missing: \<^verbatim>\<open>call_llm_api\<close> of \<^verbatim>\<open>llm.py\<close> and the parsing of the
  response in the scripts). One attempt is a call of the ProviderClient followed by the
  ResponseValidator; a provider stub gives the classified result of that pair for each
  attempt: the drafted children, a truncated response, a schema violation, or an error of
  the provider.
\<close>

datatype error_kind = AUTH | RATE_LIMIT | CONNECTION | MODEL_NOT_FOUND | UNKNOWN

record ActorDraft =
  draft_name :: string
  draft_description :: string
  draft_type :: string

datatype attempt_result =
    Drafts "ActorDraft list"
  | TruncatedResponseError
  | SchemaValidationError
  | ProviderError error_kind

record attempt =
  at_provider :: string
  at_model :: string
  breadth :: nat
  reinforced :: bool

record retry_policy =
  attempt_budget :: nat
  fallback :: "(string \<times> string) option"

datatype node_result =
    Expanded "ActorDraft list"
  | NodeExhaustedError
  | Fatal error_kind

definition reduced :: "attempt \<Rightarrow> attempt" where
  "reduced a = a\<lparr>breadth := max 1 (breadth a div 2)\<rparr>"

definition on_fallback :: "retry_policy \<Rightarrow> attempt \<Rightarrow> attempt" where
  "on_fallback pol a =
     (case fallback pol of None \<Rightarrow> a | Some (p, m) \<Rightarrow> a\<lparr>at_provider := p, at_model := m\<rparr>)"

definition after :: "attempt \<Rightarrow> attempt list \<times> node_result \<Rightarrow> attempt list \<times> node_result" where
  "after a r = (a # fst r, snd r)"

text \<open>
  Modelled from the spec: the state machine of the RetryController (missing: the retry
  logic of the scripts, which the development log describes as retrying with fewer actors
  and other models),
  \<^verbatim>\<open>ATTEMPT(provider, model, breadth) -> SUCCESS | TRUNCATED -> ATTEMPT(same provider, breadth/2)
   | SCHEMA_FAIL -> ATTEMPT(same provider, breadth, reinforced prompt)
   | TRANSIENT_FAIL -> ATTEMPT(fallback provider, breadth) | EXHAUSTED -> FAILURE\<close>,
  bounded by a fixed attempt budget, with the error taxonomy: an authentication error is
  fatal; a rate limit is retried on the same provider; a connection error (or an unknown
  one) goes to the fallback provider when one is configured; a truncated response is
  retried with a reduced breadth, half the breadth with floor 1; a schema violation is
  retried once with a reinforced prompt and is a node failure when it happens again; a
  model that is not found goes to the fallback provider if configured and is fatal
  otherwise. The retry after a truncated response is one with a smaller breadth (the
  validator signals a retry with a smaller requested breadth) that is never 0: where no
  such breadth exists, because a single child (or none) was asked for, there is no retry
  and the node is exhausted; this is also what the testable property of strictly
  decreasing breadths asks. The controller returns the attempts it made, in
  order, and the result for the node; the budget is the number of attempts left.
\<close>

fun RetryController ::
  "(attempt \<Rightarrow> attempt_result) \<Rightarrow> retry_policy \<Rightarrow> nat \<Rightarrow> attempt \<Rightarrow> attempt list \<times> node_result" where
  "RetryController call pol 0 a = ([], NodeExhaustedError)"
| "RetryController call pol (Suc budget) a =
     (case call a of
        Drafts ds \<Rightarrow> ([a], Expanded ds)
      | TruncatedResponseError \<Rightarrow>
          (if breadth a \<le> 1 then ([a], NodeExhaustedError)
           else after a (RetryController call pol budget (reduced a)))
      | SchemaValidationError \<Rightarrow>
          (if reinforced a then ([a], NodeExhaustedError)
           else after a (RetryController call pol budget (a\<lparr>reinforced := True\<rparr>)))
      | ProviderError k \<Rightarrow>
          (case k of
             AUTH \<Rightarrow> ([a], Fatal AUTH)
           | RATE_LIMIT \<Rightarrow> after a (RetryController call pol budget a)
           | MODEL_NOT_FOUND \<Rightarrow>
               (case fallback pol of
                  None \<Rightarrow> ([a], Fatal MODEL_NOT_FOUND)
                | Some _ \<Rightarrow> after a (RetryController call pol budget (on_fallback pol a)))
           | CONNECTION \<Rightarrow> after a (RetryController call pol budget (on_fallback pol a))
           | UNKNOWN \<Rightarrow> after a (RetryController call pol budget (on_fallback pol a))))"



text \<open>
  Halving with floor 1, repeated until 1 is reached: the breadths of at most \<open>n\<close> attempts
  that start at \<open>b\<close>.
\<close>

fun halvings :: "nat \<Rightarrow> nat \<Rightarrow> nat list" where
  "halvings 0 b = []"
| "halvings (Suc n) b = b # (if b \<le> 1 then [] else halvings n (max 1 (b div 2)))"

subsection \<open>CostLedger\<close>

text \<open>
  Modelled from the spec: the CostSession of the data model (missing: the cost session of
  \<^verbatim>\<open>llm.py\<close> behind \<^verbatim>\<open>get_cost_session\<close> and \<^verbatim>\<open>reset_cost_session\<close>). The session holds
  \<^verbatim>\<open>total_cost\<close>, \<^verbatim>\<open>api_calls\<close>, \<^verbatim>\<open>tokens_used{input,output,total}\<close> and
  \<^verbatim>\<open>providers[provider][model] -> {cost, calls, tokens}\<close>, a provider entry carrying its own
  cost and calls as in the persisted \<^verbatim>\<open>cost_tracking\<close>. A dollar amount is the rational
  number that the floating-point value stands for.
\<close>

record token_count =
  tk_input :: nat
  tk_output :: nat
  tk_total :: nat

record model_usage =
  m_cost :: rat
  m_calls :: nat
  m_tokens :: token_count

record provider_usage =
  p_cost :: rat
  p_calls :: nat
  p_models :: "(string \<times> model_usage) list"

record CostSession =
  total_cost :: rat
  api_calls :: nat
  tokens_used :: token_count
  providers :: "(string \<times> provider_usage) list"

record call_record =
  call_provider :: string
  call_model :: string
  inputTokens :: nat
  outputTokens :: nat
  dollarCost :: rat

definition no_tokens :: token_count where
  "no_tokens = \<lparr>tk_input = 0, tk_output = 0, tk_total = 0\<rparr>"

definition add_tokens :: "nat \<Rightarrow> nat \<Rightarrow> token_count \<Rightarrow> token_count" where
  "add_tokens i out t =
     \<lparr>tk_input = tk_input t + i, tk_output = tk_output t + out, tk_total = tk_total t + (i + out)\<rparr>"

definition empty_ledger :: CostSession where
  "empty_ledger = \<lparr>total_cost = 0, api_calls = 0, tokens_used = no_tokens, providers = []\<rparr>"

text \<open>
  The entry of key \<open>k\<close> in a dictionary kept as a list of pairs is changed by \<open>f\<close>; a key
  that is not there yet is appended with \<open>f\<close> applied to the fresh entry \<open>d\<close>.
\<close>

fun upd_entry :: "'k \<Rightarrow> ('v \<Rightarrow> 'v) \<Rightarrow> 'v \<Rightarrow> ('k \<times> 'v) list \<Rightarrow> ('k \<times> 'v) list" where
  "upd_entry k f d [] = [(k, f d)]"
| "upd_entry k f d ((k', v) # kvs) =
     (if k = k' then (k', f v) # kvs else (k', v) # upd_entry k f d kvs)"

text \<open>
  Modelled from the spec: \<^verbatim>\<open>Record(provider, model, inputTokens, outputTokens, dollarCost)\<close> of
  the CostLedger (missing: the accounting inside \<^verbatim>\<open>call_llm_api\<close>). The call is added to the
  totals of the session, to its provider and to its model under that provider. The ledger
  is created empty at the start of a run and every billed call is recorded once. Dollar
  amounts are floating-point numbers and their addition rounds; the addition is the
  parameter \<open>add\<close>, which is \<open>double_add\<close> below for the ledger of a run and \<open>(+)\<close> for the
  exact sums it is compared with. Calls and tokens are integers and are added exactly.
\<close>

definition bill_model :: "(rat \<Rightarrow> rat \<Rightarrow> rat) \<Rightarrow> call_record \<Rightarrow> model_usage \<Rightarrow> model_usage" where
  "bill_model add c m =
     \<lparr>m_cost = add (m_cost m) (dollarCost c), m_calls = m_calls m + 1,
      m_tokens = add_tokens (inputTokens c) (outputTokens c) (m_tokens m)\<rparr>"

definition bill_provider :: "(rat \<Rightarrow> rat \<Rightarrow> rat) \<Rightarrow> call_record \<Rightarrow> provider_usage \<Rightarrow> provider_usage" where
  "bill_provider add c p =
     \<lparr>p_cost = add (p_cost p) (dollarCost c), p_calls = p_calls p + 1,
      p_models = upd_entry (call_model c) (bill_model add c)
                   \<lparr>m_cost = 0, m_calls = 0, m_tokens = no_tokens\<rparr> (p_models p)\<rparr>"

definition Record :: "(rat \<Rightarrow> rat \<Rightarrow> rat) \<Rightarrow> call_record \<Rightarrow> CostSession \<Rightarrow> CostSession" where
  "Record add c s =
     \<lparr>total_cost = add (total_cost s) (dollarCost c),
      api_calls = api_calls s + 1,
      tokens_used = add_tokens (inputTokens c) (outputTokens c) (tokens_used s),
      providers = upd_entry (call_provider c) (bill_provider add c)
                    \<lparr>p_cost = 0, p_calls = 0, p_models = []\<rparr> (providers s)\<rparr>"

text \<open>The ledger of a run: the calls recorded one after the other, starting empty.\<close>

definition ledger_of :: "(rat \<Rightarrow> rat \<Rightarrow> rat) \<Rightarrow> call_record list \<Rightarrow> CostSession" where
  "ledger_of add calls = foldl (\<lambda>s c. Record add c s) empty_ledger calls"

text \<open>
  Modelled from the spec: the floating-point arithmetic of the ledger, which the additive
  invariant of the testable properties refers to (missing: the additions of the cost
  session in \<^verbatim>\<open>llm.py\<close>, which are additions of Python floats, that is of IEEE doubles).
  The addition of two doubles, on the rational numbers they stand for: the exact sum is
  rounded to the nearest number with a significand of 53 bits, a tie going to the even
  significand. \<open>double_exponent x\<close> is the exponent \<open>e\<close> with \<open>2\<^sup>5\<^sup>2 \<le> x / 2\<^sup>e < 2\<^sup>5\<^sup>3\<close>, found
  from the bit lengths of the numerator and the denominator of \<open>x\<close>. The range of the
  exponent is not bounded: a sum of doubles below the normal range is a double and is
  returned as it is, and dollar amounts are far from the overflow of the format. Amounts are
  not negative, and \<open>to_double\<close> maps every number that is not positive to 0.
\<close>

definition round_half_even :: "rat \<Rightarrow> int" where
  "round_half_even m =
     (let f = \<lfloor>m\<rfloor>; r = m - of_int f
      in if r < 1 / 2 then f else if 1 / 2 < r then f + 1 else if even f then f else f + 1)"

definition double_exponent :: "rat \<Rightarrow> int" where
  "double_exponent x =
     (let (p, q) = quotient_of x; e = bitlen p - bitlen q - 53
      in if x / 2 powi e < 2 ^ 53 then e else e + 1)"

definition to_double :: "rat \<Rightarrow> rat" where
  "to_double x =
     (if x \<le> 0 then 0
      else of_int (round_half_even (x / 2 powi double_exponent x)) * 2 powi double_exponent x)"

definition double_add :: "rat \<Rightarrow> rat \<Rightarrow> rat" where
  "double_add x y = to_double (x + y)"

text \<open>
  What the consistency of the ledger needs of the addition: the sum of two non-negative
  amounts is returned with a relative error of at most \<open>u\<close>. For \<open>double_add\<close> this holds
  with the unit roundoff \<open>2\<^sup>-\<^sup>5\<^sup>3\<close>; exact addition is the case \<open>u = 0\<close>.
\<close>

definition rounds_within :: "rat \<Rightarrow> (rat \<Rightarrow> rat \<Rightarrow> rat) \<Rightarrow> bool" where
  "rounds_within u add \<longleftrightarrow>
     0 \<le> u \<and> u \<le> 1
     \<and> (\<forall>x y. 0 \<le> x \<and> 0 \<le> y \<longrightarrow> (1 - u) * (x + y) \<le> add x y \<and> add x y \<le> (1 + u) * (x + y))"

text \<open>
  The floating-point tolerance of a ledger of \<open>n\<close> calls whose amounts add up to \<open>X\<close>: a
  value reached by at most \<open>n\<close> rounded additions of non-negative amounts that add up to
  \<open>X\<close> lies between \<open>(1 - u)\<^sup>n X\<close> and \<open>(1 + u)\<^sup>n X\<close>, so two such values are no further
  apart than \<open>((1 + u)\<^sup>n - (1 - u)\<^sup>n) X\<close>, which is about \<open>2 n u X\<close>.
\<close>

definition within_factor :: "rat \<Rightarrow> nat \<Rightarrow> rat \<Rightarrow> rat \<Rightarrow> bool" where
  "within_factor u n X v \<longleftrightarrow> (1 - u) ^ n * X \<le> v \<and> v \<le> (1 + u) ^ n * X"

definition tolerance :: "rat \<Rightarrow> nat \<Rightarrow> rat \<Rightarrow> rat" where
  "tolerance u n X = ((1 + u) ^ n - (1 - u) ^ n) * X"

text \<open>
  Modelled from the spec: the \<^verbatim>\<open>cost_tracking\<close> block of the interface description, the JSON
  form of a \<^verbatim>\<open>Snapshot()\<close> of the session (missing: the code that embeds the session in the
  metadata of a level). The duration of the session comes from the clock and is an
  argument. A dollar amount is written as the number its double stands for: the decimal
  literal that the JSON library prints for a double reads back as the same double.
\<close>

definition tokens_json :: "token_count \<Rightarrow> json" where
  "tokens_json t =
     JObj [(''input'', JInt (int (tk_input t))), (''output'', JInt (int (tk_output t))),
           (''total'', JInt (int (tk_total t)))]"

definition model_json :: "model_usage \<Rightarrow> json" where
  "model_json m =
     JObj [(''cost'', JReal (m_cost m)), (''calls'', JInt (int (m_calls m))),
           (''tokens'', tokens_json (m_tokens m))]"

definition provider_json :: "provider_usage \<Rightarrow> json" where
  "provider_json p =
     JObj [(''cost'', JReal (p_cost p)), (''calls'', JInt (int (p_calls p))),
           (''models'', JObj (map (\<lambda>km. (fst km, model_json (snd km))) (p_models p)))]"

definition cost_tracking_json :: "rat \<Rightarrow> CostSession \<Rightarrow> json" where
  "cost_tracking_json duration s =
     JObj [(''total_cost'', JReal (total_cost s)),
           (''api_calls'', JInt (int (api_calls s))),
           (''tokens_used'',
              JObj [(''input_tokens'', JInt (int (tk_input (tokens_used s)))),
                    (''output_tokens'', JInt (int (tk_output (tokens_used s)))),
                    (''total_tokens'', JInt (int (tk_total (tokens_used s))))]),
           (''session_duration_seconds'', JReal duration),
           (''providers'', JObj (map (\<lambda>kp. (fst kp, provider_json (snd kp))) (providers s)))]"

text \<open>
  Additive consistency within a tolerance, read on a \<^verbatim>\<open>cost_tracking\<close> block:
  \<^verbatim>\<open>total_cost\<close> is, up to the tolerance, the sum of the providers' costs, and each
  provider's cost is, up to the tolerance, the sum of its models' costs; \<^verbatim>\<open>api_calls\<close> is
  the sum of the providers' calls and each provider's calls the sum of its models' calls;
  and \<^verbatim>\<open>total_tokens\<close> is \<^verbatim>\<open>input_tokens + output_tokens\<close>. The sums of the dollar amounts
  are the exact sums of the numbers in the block. A number that is missing makes the
  block inconsistent. With the tolerance 0 the block is consistent exactly.
\<close>

fun number :: "json \<Rightarrow> rat option" where
  "number (JInt i) = Some (of_int i)"
| "number (JReal r) = Some r"
| "number _ = None"

definition field_num :: "string \<Rightarrow> json \<Rightarrow> rat option" where
  "field_num k j = (case member k j of None \<Rightarrow> None | Some v \<Rightarrow> number v)"

definition entries :: "string \<Rightarrow> json \<Rightarrow> json list" where
  "entries k j = (case member k j of Some (JObj kvs) \<Rightarrow> map snd kvs | _ \<Rightarrow> [])"

definition sum_field :: "string \<Rightarrow> json list \<Rightarrow> rat option" where
  "sum_field k js = map_option sum_list (those (map (field_num k) js))"

definition is_sum_of :: "rat option \<Rightarrow> rat option \<Rightarrow> bool" where
  "is_sum_of x s = (case x of None \<Rightarrow> False | Some v \<Rightarrow> s = Some v)"

definition is_within :: "rat \<Rightarrow> rat option \<Rightarrow> rat option \<Rightarrow> bool" where
  "is_within tol x s =
     (case x of None \<Rightarrow> False
      | Some v \<Rightarrow> (case s of None \<Rightarrow> False | Some w \<Rightarrow> \<bar>v - w\<bar> \<le> tol))"

definition opt_add :: "rat option \<Rightarrow> rat option \<Rightarrow> rat option" where
  "opt_add a b = (case a of None \<Rightarrow> None | Some x \<Rightarrow> (case b of None \<Rightarrow> None | Some y \<Rightarrow> Some (x + y)))"

definition provider_within :: "rat \<Rightarrow> json \<Rightarrow> bool" where
  "provider_within tol p \<longleftrightarrow>
     is_within tol (field_num ''cost'' p) (sum_field ''cost'' (entries ''models'' p))
     \<and> is_sum_of (field_num ''calls'' p) (sum_field ''calls'' (entries ''models'' p))"

definition tokens_consistent :: "json \<Rightarrow> bool" where
  "tokens_consistent ct =
     (case member ''tokens_used'' ct of
        None \<Rightarrow> False
      | Some t \<Rightarrow> is_sum_of (field_num ''total_tokens'' t)
                    (opt_add (field_num ''input_tokens'' t) (field_num ''output_tokens'' t)))"

definition cost_tracking_within :: "rat \<Rightarrow> json \<Rightarrow> bool" where
  "cost_tracking_within tol ct \<longleftrightarrow>
     is_within tol (field_num ''total_cost'' ct) (sum_field ''cost'' (entries ''providers'' ct))
     \<and> is_sum_of (field_num ''api_calls'' ct) (sum_field ''calls'' (entries ''providers'' ct))
     \<and> list_all (provider_within tol) (entries ''providers'' ct)
     \<and> tokens_consistent ct"

text \<open>The same consistency on the session itself.\<close>

definition usage_within :: "rat \<Rightarrow> provider_usage \<Rightarrow> bool" where
  "usage_within tol p \<longleftrightarrow>
     \<bar>p_cost p - sum_list (map (\<lambda>km. m_cost (snd km)) (p_models p))\<bar> \<le> tol
     \<and> p_calls p = sum_list (map (\<lambda>km. m_calls (snd km)) (p_models p))"

definition ledger_within :: "rat \<Rightarrow> CostSession \<Rightarrow> bool" where
  "ledger_within tol s \<longleftrightarrow>
     \<bar>total_cost s - sum_list (map (\<lambda>kp. p_cost (snd kp)) (providers s))\<bar> \<le> tol
     \<and> api_calls s = sum_list (map (\<lambda>kp. p_calls (snd kp)) (providers s))
     \<and> list_all (\<lambda>kp. usage_within tol (snd kp)) (providers s)
     \<and> tk_total (tokens_used s) = tk_input (tokens_used s) + tk_output (tokens_used s)"

text \<open>
  The ledger kept with rounded additions next to the ledger kept with exact additions on
  the same calls: the same keys in the same order, the same calls and tokens, and each
  rounded amount between \<open>(1 - u)\<^sup>n\<close> and \<open>(1 + u)\<^sup>n\<close> times the exact, non-negative one.
\<close>

definition model_close ::
  "rat \<Rightarrow> nat \<Rightarrow> string \<times> model_usage \<Rightarrow> string \<times> model_usage \<Rightarrow> bool" where
  "model_close u n rounded exact \<longleftrightarrow>
     fst rounded = fst exact
     \<and> within_factor u n (m_cost (snd exact)) (m_cost (snd rounded))
     \<and> 0 \<le> m_cost (snd exact)
     \<and> m_calls (snd rounded) = m_calls (snd exact)
     \<and> m_tokens (snd rounded) = m_tokens (snd exact)"

definition provider_close ::
  "rat \<Rightarrow> nat \<Rightarrow> string \<times> provider_usage \<Rightarrow> string \<times> provider_usage \<Rightarrow> bool" where
  "provider_close u n rounded exact \<longleftrightarrow>
     fst rounded = fst exact
     \<and> within_factor u n (p_cost (snd exact)) (p_cost (snd rounded))
     \<and> 0 \<le> p_cost (snd exact)
     \<and> p_calls (snd rounded) = p_calls (snd exact)
     \<and> list_all2 (model_close u n) (p_models (snd rounded)) (p_models (snd exact))"

definition ledger_close :: "rat \<Rightarrow> nat \<Rightarrow> CostSession \<Rightarrow> CostSession \<Rightarrow> bool" where
  "ledger_close u n rounded exact \<longleftrightarrow>
     within_factor u n (total_cost exact) (total_cost rounded)
     \<and> 0 \<le> total_cost exact
     \<and> api_calls rounded = api_calls exact
     \<and> tokens_used rounded = tokens_used exact
     \<and> list_all2 (provider_close u n) (providers rounded) (providers exact)"

text \<open>
  A run of three calls over two providers, billed 0.1, 0.2 and 0.3 dollars as doubles.
\<close>

definition three_calls :: "call_record list" where
  "three_calls =
     [\<lparr>call_provider = ''anthropic'', call_model = ''claude-3-5-sonnet-latest'',
       inputTokens = 448, outputTokens = 168, dollarCost = to_double (1 / 10)\<rparr>,
      \<lparr>call_provider = ''openai'', call_model = ''gpt-4o'',
       inputTokens = 100, outputTokens = 50, dollarCost = to_double (2 / 10)\<rparr>,
      \<lparr>call_provider = ''anthropic'', call_model = ''claude-3-5-sonnet-latest'',
       inputTokens = 52, outputTokens = 32, dollarCost = to_double (3 / 10)\<rparr>]"

subsection \<open>RunStore\<close>

text \<open>
  The run-folder naming contract is \<^verbatim>\<open>run_<YYYY-MM-DD>_<N>\<close>; the development log gives the
  same format, and the two artifacts carry the run folders \<^verbatim>\<open>run_2025-07-16_18\<close> and
  \<^verbatim>\<open>run_2025-07-16_16\<close>. The number is written in decimal.
\<close>

definition digit_char :: "nat \<Rightarrow> char" where
  "digit_char d = ''0123456789'' ! d"

function show_nat :: "nat \<Rightarrow> string" where
  "show_nat n = (if n < 10 then [digit_char n] else show_nat (n div 10) @ [digit_char (n mod 10)])"
  by pat_completeness auto
termination
  by (relation "measure (\<lambda>n. n)") auto

declare show_nat.simps [simp del]

text \<open>Reading a decimal numeral back: the value of a digit, and of a string of digits.\<close>

definition digit_val :: "char \<Rightarrow> nat" where
  "digit_val c = of_char c - 48"

definition read_nat :: "string \<Rightarrow> nat" where
  "read_nat s = foldl (\<lambda>acc c. 10 * acc + digit_val c) 0 s"

definition pad :: "nat \<Rightarrow> string \<Rightarrow> string" where
  "pad w s = replicate (w - length s) CHR ''0'' @ s"

text \<open>
  Modelled from the spec: the name of a run folder, \<^verbatim>\<open>run_<YYYY-MM-DD>_<N>\<close> (missing: the
  part of \<^verbatim>\<open>save_actors_to_json\<close> that builds the folder name). Year, month and day are
  padded with zeros to four, two and two digits.
\<close>

record date =
  year :: nat
  month :: nat
  day :: nat

definition iso_date :: "date \<Rightarrow> string" where
  "iso_date d =
     pad 4 (show_nat (year d)) @ ''-'' @ pad 2 (show_nat (month d)) @ ''-'' @ pad 2 (show_nat (day d))"

definition run_folder_name :: "date \<Rightarrow> nat \<Rightarrow> string" where
  "run_folder_name d n = ''run_'' @ iso_date d @ ''_'' @ show_nat n"

text \<open>
  Modelled from the spec: the RunStore and \<^verbatim>\<open>AllocateRunFolder(date) -> runFolder\<close>, which
  increments a per-day counter (missing: the part of \<^verbatim>\<open>save_actors_to_json\<close> that picks the
  next run number of the day). The store holds, for each date, the number of the last run
  folder allocated on it (0 when there is none), and the level artifacts written so far,
  by run folder and level index.
\<close>

record run_store =
  last_run :: "date \<Rightarrow> nat"
  files :: "string \<times> nat \<Rightarrow> json option"

definition empty_store :: run_store where
  "empty_store = \<lparr>last_run = (\<lambda>d. 0), files = (\<lambda>k. None)\<rparr>"

text \<open>
  Modelled from the spec: \<^verbatim>\<open>AllocateRunFolder(date) -> runFolder\<close> (missing: the creation of
  the run folder in \<^verbatim>\<open>save_actors_to_json\<close>). The counter of the date goes up by one and its
  new value names the folder.
\<close>

definition AllocateRunFolder :: "date \<Rightarrow> run_store \<Rightarrow> string \<times> run_store" where
  "AllocateRunFolder d st =
     (run_folder_name d (last_run st d + 1),
      st\<lparr>last_run := (last_run st)(d := last_run st d + 1)\<rparr>)"

text \<open>\<open>n\<close> calls of \<^verbatim>\<open>AllocateRunFolder\<close> on the same date, one after the other.\<close>

fun allocate_times :: "nat \<Rightarrow> date \<Rightarrow> run_store \<Rightarrow> string list \<times> run_store" where
  "allocate_times 0 d st = ([], st)"
| "allocate_times (Suc n) d st =
     (let (folder, st') = AllocateRunFolder d st;
          (folders, st'') = allocate_times n d st'
      in (folder # folders, st''))"

subsection \<open>Level artifacts: SaveLevel and LoadLevel\<close>

text \<open>
  Modelled from the spec: the JSON form of a parameter and of its value type in the
  persisted level artifact (missing: the serialization of the pydantic models by
  \<^verbatim>\<open>model_dump\<close>), and its reading.
\<close>

definition value_type_name :: "value_type \<Rightarrow> string" where
  "value_type_name v =
     (case v of VFloat \<Rightarrow> ''float'' | VInt \<Rightarrow> ''int'' | VBool \<Rightarrow> ''bool'' | VString \<Rightarrow> ''string'')"

definition value_type_named :: "string \<Rightarrow> value_type option" where
  "value_type_named s =
     (if s = ''float'' then Some VFloat else if s = ''int'' then Some VInt
      else if s = ''bool'' then Some VBool else if s = ''string'' then Some VString else None)"

definition string_at :: "string \<Rightarrow> json \<Rightarrow> string option" where
  "string_at k j = (case member k j of Some (JStr s) \<Rightarrow> Some s | _ \<Rightarrow> None)"

definition nat_at :: "string \<Rightarrow> json \<Rightarrow> nat option" where
  "nat_at k j = (case member k j of Some (JInt i) \<Rightarrow> (if 0 \<le> i then Some (nat i) else None) | _ \<Rightarrow> None)"

definition parameter_to_json :: "Parameter \<Rightarrow> json" where
  "parameter_to_json p =
     JObj [(''code_name'', JStr (code_name p)),
           (''display_name'', JStr (display_name p)),
           (''description'', JStr (description_of p)),
           (''value_type'', JStr (value_type_name (value_type_of p))),
           (''expected_value_range'', JStr (expected_value_range p))]"

definition parameter_of_json :: "json \<Rightarrow> Parameter option" where
  "parameter_of_json j =
     (case string_at ''code_name'' j of None \<Rightarrow> None | Some c \<Rightarrow>
      case string_at ''display_name'' j of None \<Rightarrow> None | Some n \<Rightarrow>
      case string_at ''description'' j of None \<Rightarrow> None | Some d \<Rightarrow>
      case string_at ''value_type'' j of None \<Rightarrow> None | Some vs \<Rightarrow>
      case value_type_named vs of None \<Rightarrow> None | Some v \<Rightarrow>
      case string_at ''expected_value_range'' j of None \<Rightarrow> None | Some r \<Rightarrow>
        Some \<lparr>code_name = c, display_name = n, description_of = d, value_type_of = v,
              expected_value_range = r\<rparr>)"

text \<open>
  Modelled from the spec: the serialized actor of the interface description,
  \<^verbatim>\<open>{"name","description","type","depth","parameters":[...],"children":[...recursive...]}\<close>
  (missing: \<^verbatim>\<open>save_enhanced_actors_to_json\<close>). The error flag of a skipped node is attached
  as the member \<^verbatim>\<open>error_flag\<close>, present only when set.
\<close>

fun actor_to_json :: "actor \<Rightarrow> json" where
  "actor_to_json (Actor n d t dp ps cs ef) =
     JObj ([(''name'', JStr n),
            (''description'', JStr d),
            (''type'', JStr t),
            (''depth'', JInt (int dp)),
            (''parameters'', JArr (map parameter_to_json ps)),
            (''children'', JArr (map actor_to_json cs))]
           @ (if ef then [(''error_flag'', JBool True)] else []))"

text \<open>
  Modelled from the spec: reading a serialized actor back, as \<^verbatim>\<open>LoadLevel\<close> does for each
  element of \<^verbatim>\<open>actors\<close> (missing: \<^verbatim>\<open>load_features_level_0\<close> and its successors). A record
  that lacks a field, or has one of another type, is not an actor.
\<close>

function actor_of_json :: "json \<Rightarrow> actor option" where
  "actor_of_json j =
     (case string_at ''name'' j of None \<Rightarrow> None | Some n \<Rightarrow>
      case string_at ''description'' j of None \<Rightarrow> None | Some d \<Rightarrow>
      case string_at ''type'' j of None \<Rightarrow> None | Some t \<Rightarrow>
      case nat_at ''depth'' j of None \<Rightarrow> None | Some dp \<Rightarrow>
      case those (map parameter_of_json (array_at ''parameters'' j)) of None \<Rightarrow> None | Some ps \<Rightarrow>
      if \<not> is_array (member ''children'' j) then None else
      case those (map actor_of_json (array_at ''children'' j)) of None \<Rightarrow> None | Some cs \<Rightarrow>
        Some (Actor n d t dp ps cs (member ''error_flag'' j = Some (JBool True))))"
  by pat_completeness auto
termination
  by (relation "measure size") (auto dest: size_array_at)

declare actor_of_json.simps [simp del]

text \<open>
  Modelled from the spec: the persisted level artifact of the interface description,
  \<^verbatim>\<open>{"metadata": {...}, "actors": [...], "total_count": <int>}\<close>, and the RunStore operations
  \<^verbatim>\<open>SaveLevel(runFolder, levelIndex, actors, metadata) -> error\<close> and
  \<^verbatim>\<open>LoadLevel(runFolder, levelIndex) -> actors\<close> (missing: the functions of the scripts that
  write and load \<^verbatim>\<open>Features_level_N.json\<close>). A document is the parsed JSON value; writing it
  as text and parsing the text back is the work of the JSON library and is not modelled.
  A level artifact is written once: saving to a run folder and level that has an artifact
  is an error.
\<close>

definition level_artifact :: "json \<Rightarrow> actor list \<Rightarrow> json" where
  "level_artifact metadata actors =
     JObj [(''metadata'', metadata),
           (''actors'', JArr (map actor_to_json actors)),
           (''total_count'', JInt (int (length actors)))]"

datatype store_error = AlreadyWritten | NotFound | Malformed

text \<open>
  Modelled from the spec: \<^verbatim>\<open>SaveLevel(runFolder, levelIndex, actors, metadata) -> error\<close>
  (missing: \<^verbatim>\<open>save_enhanced_actors_to_json\<close>). Files are append-only: the artifact is written
  where there is none, and the save fails where there is one.
\<close>

definition SaveLevel :: "string \<Rightarrow> nat \<Rightarrow> actor list \<Rightarrow> json \<Rightarrow> run_store \<Rightarrow> store_error + run_store" where
  "SaveLevel runFolder levelIndex actors metadata st =
     (case files st (runFolder, levelIndex) of
        Some _ \<Rightarrow> Inl AlreadyWritten
      | None \<Rightarrow>
          Inr (st\<lparr>files := (files st)((runFolder, levelIndex) \<mapsto> level_artifact metadata actors)\<rparr>))"

text \<open>
  Modelled from the spec: \<^verbatim>\<open>LoadLevel(runFolder, levelIndex) -> actors\<close> (missing:
  \<^verbatim>\<open>load_features_level_0\<close> and its successors). It fails where no artifact has been
  written, and where the artifact has no \<^verbatim>\<open>actors\<close> array or an element of it is no actor.
\<close>

definition LoadLevel :: "string \<Rightarrow> nat \<Rightarrow> run_store \<Rightarrow> store_error + actor list" where
  "LoadLevel runFolder levelIndex st =
     (case files st (runFolder, levelIndex) of
        None \<Rightarrow> Inl NotFound
      | Some doc \<Rightarrow>
          (if \<not> is_array (member ''actors'' doc) then Inl Malformed
           else case those (map actor_of_json (array_at ''actors'' doc)) of
                  None \<Rightarrow> Inl Malformed
                | Some actors \<Rightarrow> Inr actors))"

text \<open>What the round trip is to keep: node count, names, depths and parent/child edges.\<close>

definition node_count :: "actor list \<Rightarrow> nat" where
  "node_count actors = length (concat (map nodes actors))"

definition node_names :: "actor list \<Rightarrow> string list" where
  "node_names actors = map name (concat (map nodes actors))"

definition node_depths :: "actor list \<Rightarrow> nat list" where
  "node_depths actors = map depth (concat (map nodes actors))"

definition tree_edges :: "actor list \<Rightarrow> ((string \<times> nat) \<times> (string \<times> nat)) list" where
  "tree_edges actors = concat (map edges actors)"

subsection \<open>TreeOrchestrator\<close>

text \<open>
  Modelled from the spec: the configuration of a run, the status of a run and the
  \<^verbatim>\<open>generation_stats\<close> of a level (missing: the command-line arguments and the statistics of
  \<^verbatim>\<open>actors_complete.py\<close>; the UI declares the same configuration fields in its
  \<^verbatim>\<open>GenerationConfig\<close> and the same four status values).
\<close>

record config =
  provider :: string
  model :: string
  num_actors :: nat
  num_subactors :: nat
  target_depth :: nat
  skip_on_error :: bool

datatype abort = NodeExhausted | FatalError error_kind

datatype status = Idle | Running | Completed | Failed

record generation_stats =
  total_actors :: nat
  total_children :: nat
  actors_with_children :: nat
  avg_children_per_actor :: rat
  successful :: nat
  failed :: nat

text \<open>
  Modelled from the spec: the expansion of one node by the TreeOrchestrator (missing:
  \<^verbatim>\<open>generate_level_n_actors\<close>). The first attempt asks the configured provider and model for
  \<^verbatim>\<open>num_subactors\<close> children. A child is created from its parent: it takes the draft's name,
  description and type and the parent's depth plus one. A node whose expansion is
  exhausted becomes a leaf with the error flag when \<^verbatim>\<open>skip_on_error\<close> is set and aborts the
  run otherwise; a fatal error aborts the run. The provider stub sees the parent whose
  prompt it answers.
\<close>

definition first_attempt :: "config \<Rightarrow> attempt" where
  "first_attempt cfg =
     \<lparr>at_provider = provider cfg, at_model = model cfg, breadth = num_subactors cfg,
      reinforced = False\<rparr>"

definition child_of :: "actor \<Rightarrow> ActorDraft \<Rightarrow> actor" where
  "child_of parent d =
     Actor (draft_name d) (draft_description d) (draft_type d) (depth parent + 1) [] [] False"

definition with_children :: "actor \<Rightarrow> actor list \<Rightarrow> actor" where
  "with_children a cs = Actor (name a) (description a) (type_of a) (depth a) (parameters a) cs (error_flag a)"

definition skipped :: "actor \<Rightarrow> actor" where
  "skipped a = Actor (name a) (description a) (type_of a) (depth a) (parameters a) [] True"

text \<open>
  Modelled from the spec: one expansion request of the TreeOrchestrator, through the
  RetryController with the attempt budget of the policy, and the skip-on-error policy
  applied to its result (missing: the per-actor body of \<^verbatim>\<open>generate_level_n_actors\<close>).
\<close>

definition expand_node ::
  "(actor \<Rightarrow> attempt \<Rightarrow> attempt_result) \<Rightarrow> retry_policy \<Rightarrow> config \<Rightarrow> actor \<Rightarrow> abort + actor" where
  "expand_node call pol cfg a =
     (case snd (RetryController (call a) pol (attempt_budget pol) (first_attempt cfg)) of
        Expanded ds \<Rightarrow> Inr (with_children a (map (child_of a) ds))
      | NodeExhaustedError \<Rightarrow> (if skip_on_error cfg then Inr (skipped a) else Inl NodeExhausted)
      | Fatal k \<Rightarrow> Inl (FatalError k))"

text \<open>
  Modelled from the spec: \<^verbatim>\<open>GenerateLevel(previousLevelActors, levelIndex, config) ->
  (newLevelActors, stats)\<close> (missing: \<^verbatim>\<open>generate_level_n_actors\<close> and the loop over the actors
  of the previous level). The trees of the previous level are given with their roots;
  level \<open>levelIndex \<ge> 1\<close> expands the nodes that lie \<open>levelIndex - 1\<close> below a root, each by
  one request through the RetryController. The nodes of a level are expanded independently
  of each other and the output keeps their order, so the order of completion does not show
  in the result; the first abort, in that order, is the error of the level. What is
  persisted of a level that aborts is not modelled.
\<close>

fun all_or_abort :: "(abort + 'node) list \<Rightarrow> abort + 'node list" where
  "all_or_abort [] = Inr []"
| "all_or_abort (result # results) =
     (case result of
        Inl e \<Rightarrow> Inl e
      | Inr v \<Rightarrow> (case all_or_abort results of Inl e \<Rightarrow> Inl e | Inr vs \<Rightarrow> Inr (v # vs)))"

fun expand_at ::
  "(actor \<Rightarrow> attempt \<Rightarrow> attempt_result) \<Rightarrow> retry_policy \<Rightarrow> config \<Rightarrow> nat \<Rightarrow> actor \<Rightarrow> abort + actor" where
  "expand_at call pol cfg 0 a = expand_node call pol cfg a"
| "expand_at call pol cfg (Suc k) a =
     (case all_or_abort (map (expand_at call pol cfg k) (children a)) of
        Inl e \<Rightarrow> Inl e
      | Inr cs \<Rightarrow> Inr (with_children a cs))"

text \<open>
  Modelled from the spec: the statistics of a level (missing: the counting in
  \<^verbatim>\<open>generate_level_n_actors\<close>), taken over the nodes that were expanded in it: how many
  there are, how many children they have, how many of them have children, the average
  number of children, how many succeeded and how many failed and were skipped.
\<close>

definition level_stats :: "nat \<Rightarrow> actor list \<Rightarrow> generation_stats" where
  "level_stats k trees =
     (let expanded = concat (map (nodes_at k) trees);
          kids = sum_list (map (\<lambda>a. length (children a)) expanded)
      in \<lparr>total_actors = length expanded,
          total_children = kids,
          actors_with_children = length (filter (\<lambda>a. children a \<noteq> []) expanded),
          avg_children_per_actor =
            (if expanded = [] then 0 else of_nat kids / of_nat (length expanded)),
          successful = length (filter (\<lambda>a. \<not> error_flag a) expanded),
          failed = length (filter error_flag expanded)\<rparr>)"

text \<open>
  Modelled from the spec: \<^verbatim>\<open>GenerateLevel\<close> itself (missing: \<^verbatim>\<open>generate_level_n_actors\<close>): every
  tree of the previous level is expanded at the nodes \<open>levelIndex - 1\<close> below its root, and
  the statistics are taken once all of them are done.
\<close>

definition GenerateLevel ::
  "(actor \<Rightarrow> attempt \<Rightarrow> attempt_result) \<Rightarrow> retry_policy \<Rightarrow> config \<Rightarrow> actor list \<Rightarrow> nat
     \<Rightarrow> abort + (actor list \<times> generation_stats)" where
  "GenerateLevel call pol cfg previousLevelActors levelIndex =
     (case all_or_abort (map (expand_at call pol cfg (levelIndex - 1)) previousLevelActors) of
        Inl e \<Rightarrow> Inl e
      | Inr newLevelActors \<Rightarrow> Inr (newLevelActors, level_stats (levelIndex - 1) newLevelActors))"

text \<open>
  Modelled from the spec: a generation run, \<^verbatim>\<open>StartGeneration(config)\<close> (missing:
  \<^verbatim>\<open>generate_complete_world_model\<close>): the levels \<open>1, \<dots>, target_depth\<close> one after the other,
  each from the trees of the level before and only after that level is complete; the run
  is completed when the target depth is reached and failed when a level aborts. The
  record keeps the levels that were completed. The root set is given.
\<close>

record run_record =
  run_status :: status
  levels :: "(actor list \<times> generation_stats) list"

fun run_levels ::
  "(actor \<Rightarrow> attempt \<Rightarrow> attempt_result) \<Rightarrow> retry_policy \<Rightarrow> config \<Rightarrow> nat \<Rightarrow> nat \<Rightarrow> actor list
     \<Rightarrow> (actor list \<times> generation_stats) list \<Rightarrow> run_record" where
  "run_levels call pol cfg levelIndex 0 previous completed =
     \<lparr>run_status = Completed, levels = completed\<rparr>"
| "run_levels call pol cfg levelIndex (Suc remaining) previous completed =
     (case GenerateLevel call pol cfg previous levelIndex of
        Inl e \<Rightarrow> \<lparr>run_status = Failed, levels = completed\<rparr>
      | Inr (new, stats) \<Rightarrow>
          run_levels call pol cfg (Suc levelIndex) remaining new (completed @ [(new, stats)]))"

text \<open>
  Modelled from the spec: \<^verbatim>\<open>StartGeneration(config)\<close> (missing:
  \<^verbatim>\<open>generate_complete_world_model\<close>), from the given roots: the levels 1 to
  \<^verbatim>\<open>target_depth\<close>.
\<close>

definition StartGeneration ::
  "(actor \<Rightarrow> attempt \<Rightarrow> attempt_result) \<Rightarrow> retry_policy \<Rightarrow> config \<Rightarrow> actor list \<Rightarrow> run_record" where
  "StartGeneration call pol cfg roots = run_levels call pol cfg 1 (target_depth cfg) roots []"


text \<open>A root of the given name, at depth \<open>d0\<close>; provider stubs for the two scenarios.\<close>

definition root_actor :: "nat \<Rightarrow> string \<Rightarrow> actor" where
  "root_actor d0 n = Actor n [] [] d0 [] [] False"


definition numbered_draft :: "string \<Rightarrow> nat \<Rightarrow> ActorDraft" where
  "numbered_draft parent i =
     \<lparr>draft_name = parent @ ''.'' @ show_nat i, draft_description = [], draft_type = ''institution''\<rparr>"

definition exactly_as_requested :: "actor \<Rightarrow> attempt \<Rightarrow> attempt_result" where
  "exactly_as_requested parent a = Drafts (map (numbered_draft (name parent)) [1 ..< Suc (breadth a)])"

text \<open>
  The configuration of the two scenarios: root actors \<^verbatim>\<open>["A","B"]\<close>, \<^verbatim>\<open>num_subactors=3\<close>,
  \<^verbatim>\<open>target_depth=1\<close>.
\<close>

definition scenario_config :: "bool \<Rightarrow> config" where
  "scenario_config skip =
     \<lparr>provider = ''stub'', model = ''stub'', num_actors = 2, num_subactors = 3, target_depth = 1,
      skip_on_error = skip\<rparr>"

definition scenario_roots :: "actor list" where
  "scenario_roots = [root_actor 0 ''A'', root_actor 0 ''B'']"
section \<open>Lookup in the parameter table\<close>

lemma worldModelParameters_nonempty: "worldModelParameters \<noteq> []"
  by (simp add: worldModelParameters_def)

lemma worldModelParameters_hd:
  "hd worldModelParameters = mk_param ''population'' ''Population'' 0 15000000000 1000000 ''people''"
  by (simp add: worldModelParameters_def)

lemma getParameterInfo_in_found:
  "find (\<lambda>p. id_p p = pid) ps = Some q \<Longrightarrow> getParameterInfo_in ps pid = Some q"
  by (simp add: getParameterInfo_in_def)

lemma getParameterInfo_in_fallback:
  "ps \<noteq> [] \<Longrightarrow> find (\<lambda>p. id_p p = pid) ps = None \<Longrightarrow> getParameterInfo_in ps pid = Some (hd ps)"
  by (cases ps) (simp_all add: getParameterInfo_in_def)

lemma getParameterInfo_in_defined:
  "ps \<noteq> [] \<Longrightarrow> \<exists>p. getParameterInfo_in ps pid = Some p"
  by (cases "find (\<lambda>p. id_p p = pid) ps")
     (auto simp: getParameterInfo_in_found getParameterInfo_in_fallback)

lemma formatParameterValue_in_total:
  "ps \<noteq> [] \<Longrightarrow> \<exists>s. formatParameterValue_in ps tf ts v pid = Inr s"
  using getParameterInfo_in_defined [of ps pid]
  by (auto simp: formatParameterValue_in_def Let_def)

text \<open>
  Claim C8. For every string \<open>parameterId\<close>, also one that is no id of the table,
  \<^verbatim>\<open>getParameterInfo\<close> returns a defined record: the first entry whose id matches when there is
  one, and entry 0 of the table otherwise; so \<^verbatim>\<open>formatParameterValue\<close> returns a string for
  every value and every id and never reads a field of \<^verbatim>\<open>undefined\<close>. The precondition is
  that the table is not empty; the table of the source is not, and its entry 0 is the
  \<^verbatim>\<open>'population'\<close> entry.
\<close>

theorem getParameterInfo_total:
  assumes "ps \<noteq> []"
  shows "(\<exists>p. getParameterInfo_in ps pid = Some p
            \<and> (if \<exists>q \<in> set ps. id_p q = pid
               then find (\<lambda>q. id_p q = pid) ps = Some p \<and> id_p p = pid \<and> p \<in> set ps
               else p = hd ps))
       \<and> (\<exists>s. formatParameterValue_in ps toFixed1 toStr v pid = Inr s)
       \<and> worldModelParameters \<noteq> []
       \<and> id_p (hd worldModelParameters) = ''population''"
proof -
  have A: "\<exists>p. getParameterInfo_in ps pid = Some p
            \<and> (if \<exists>q \<in> set ps. id_p q = pid
               then find (\<lambda>q. id_p q = pid) ps = Some p \<and> id_p p = pid \<and> p \<in> set ps
               else p = hd ps)"
  proof (cases "find (\<lambda>q. id_p q = pid) ps")
    case None
    then have "\<not> (\<exists>q \<in> set ps. id_p q = pid)"
      by (simp add: find_None_iff)
    with None assms show ?thesis
      by (simp add: getParameterInfo_in_fallback)
  next
    case (Some p)
    then have "id_p p = pid" "p \<in> set ps"
      by (auto simp: find_Some_iff)
    with Some show ?thesis
      by (auto simp: getParameterInfo_in_found)
  qed
  have B: "\<exists>s. formatParameterValue_in ps toFixed1 toStr v pid = Inr s"
    using assms by (rule formatParameterValue_in_total)
  have C: "id_p (hd worldModelParameters) = ''population''"
    by (simp add: worldModelParameters_hd mk_param_def)
  from A B C worldModelParameters_nonempty show ?thesis by blast
qed

theorem getParameterInfo_total_witness:
  "getParameterInfo ''no_such_parameter''
     = Some (mk_param ''population'' ''Population'' 0 15000000000 1000000 ''people'')
   \<and> getParameterInfo ''military_spending''
     = Some (mk_param ''military_spending'' ''Military Spending'' 0 100 1 ''% of GDP'')
   \<and> formatParameterValue (\<lambda>n::int. ''0.0'') (\<lambda>n::int. ''50'') 50 ''no_such_parameter''
     = Inr ''50people''"
  using getParameterInfo_total [OF worldModelParameters_nonempty, of "''no_such_parameter''"
      "\<lambda>n::int. ''0.0''" "\<lambda>n::int. ''50''" 50]
  by (simp add: getParameterInfo_def formatParameterValue_def formatParameterValue_in_def
      getParameterInfo_in_def worldModelParameters_def mk_param_def)

section \<open>The card operations\<close>

lemma ids_slider [simp]:
  "map id_c (parameterCards (handleCardSliderChange cardId v s)) = map id_c (parameterCards s)"
  by (simp add: handleCardSliderChange_def comp_def if_distrib [of id_c] cong: if_cong)

lemma ids_change [simp]:
  "map id_c (parameterCards (handleParameterCardChange cardId pid s)) = map id_c (parameterCards s)"
  by (simp add: handleParameterCardChange_def comp_def if_distrib [of id_c] cong: if_cong)

lemma ids_add [simp]:
  "map id_c (parameterCards (handleAddParameterCard render s))
     = map id_c (parameterCards s) @ [nextCardId render]"
  by (simp add: handleAddParameterCard_def Let_def)

lemma ids_remove [simp]:
  "map id_c (parameterCards (handleRemoveParameterCard cardId s))
     = filter (\<lambda>i. i \<noteq> cardId) (map id_c (parameterCards s))"
  by (simp add: handleRemoveParameterCard_def filter_map comp_def)

lemma next_slider [simp]: "nextCardId (handleCardSliderChange cardId v s) = nextCardId s"
  by (simp add: handleCardSliderChange_def)

lemma next_change [simp]: "nextCardId (handleParameterCardChange cardId pid s) = nextCardId s"
  by (simp add: handleParameterCardChange_def)

lemma next_remove [simp]: "nextCardId (handleRemoveParameterCard cardId s) = nextCardId s"
  by (simp add: handleRemoveParameterCard_def)

lemma next_add [simp]: "nextCardId (handleAddParameterCard render s) = nextCardId s + 1"
  by (simp add: handleAddParameterCard_def Let_def)

lemma cards_inv_ids:
  "cards_inv s \<longleftrightarrow> distinct (map id_c (parameterCards s)) \<and> (\<forall>i \<in> set (map id_c (parameterCards s)). i < nextCardId s)"
  by (auto simp: cards_inv_def)

lemma inv_slider: "cards_inv s \<Longrightarrow> cards_inv (handleCardSliderChange cardId v s)"
  unfolding cards_inv_ids by simp

lemma inv_change: "cards_inv s \<Longrightarrow> cards_inv (handleParameterCardChange cardId pid s)"
  unfolding cards_inv_ids by simp

lemma inv_remove: "cards_inv s \<Longrightarrow> cards_inv (handleRemoveParameterCard cardId s)"
  unfolding cards_inv_ids by auto

lemma inv_add:
  "cards_inv s \<Longrightarrow> nextCardId render = nextCardId s \<Longrightarrow> cards_inv (handleAddParameterCard render s)"
  unfolding cards_inv_ids by fastforce

lemma inv_handle: "cards_inv s \<Longrightarrow> cards_inv (handle s e s)"
  by (cases e) (simp_all add: inv_slider inv_change inv_remove inv_add)

lemma next_handle: "nextCardId s \<le> nextCardId (handle render e s)"
  by (cases e) simp_all

lemma inv_run: "cards_inv s \<Longrightarrow> cards_inv (run_events es s)"
  by (induction es arbitrary: s) (simp_all add: inv_handle)

lemma next_run: "nextCardId s \<le> nextCardId (run_events es s)"
proof (induction es arbitrary: s)
  case Nil
  show ?case by simp
next
  case (Cons e es)
  have "nextCardId s \<le> nextCardId (handle s e s)" by (rule next_handle)
  also have "\<dots> \<le> nextCardId (run_events es (handle s e s))" by (rule Cons.IH)
  finally show ?case by simp
qed

lemma appended_lower: "i \<in> set (appended_id e (handle s e s)) \<Longrightarrow> i = nextCardId s \<and> e = AddParameterCard"
  by (cases e) (simp_all add: handleAddParameterCard_def Let_def)

lemma issued_lower: "i \<in> set (issued_ids es s) \<Longrightarrow> nextCardId s \<le> i"
proof (induction es arbitrary: s)
  case Nil
  then show ?case by simp
next
  case (Cons e es)
  from Cons.prems consider "i \<in> set (appended_id e (handle s e s))"
    | "i \<in> set (issued_ids es (handle s e s))" by auto
  then show ?case
  proof cases
    case 1
    then show ?thesis using appended_lower by fastforce
  next
    case 2
    then have "nextCardId (handle s e s) \<le> i" by (rule Cons.IH)
    with next_handle [of s s e] show ?thesis by simp
  qed
qed

lemma issued_distinct: "distinct (issued_ids es s)"
proof (induction es arbitrary: s)
  case Nil
  show ?case by simp
next
  case (Cons e es)
  show ?case
  proof (cases e)
    case AddParameterCard
    have "nextCardId s \<notin> set (issued_ids es (handleAddParameterCard s s))"
      using issued_lower [of "nextCardId s" es "handleAddParameterCard s s"] by auto
    with AddParameterCard Cons.IH [of "handleAddParameterCard s s"] show ?thesis
      by (simp add: handleAddParameterCard_def Let_def)
  next
    case (RemoveParameterCard c)
    with Cons.IH show ?thesis by simp
  next
    case (ParameterCardChange c p)
    with Cons.IH show ?thesis by simp
  next
    case (CardSliderChange c v)
    with Cons.IH show ?thesis by simp
  qed
qed

lemma ids_handle:
  "set (map id_c (parameterCards (handle s e s)))
     \<subseteq> set (map id_c (parameterCards s)) \<union> set (appended_id e (handle s e s))"
  by (cases e) (auto simp: handleAddParameterCard_def Let_def)

lemma ids_run:
  "set (map id_c (parameterCards (run_events es s)))
     \<subseteq> set (map id_c (parameterCards s)) \<union> set (issued_ids es s)"
proof (induction es arbitrary: s)
  case Nil
  show ?case by simp
next
  case (Cons e es)
  from Cons.IH [of "handle s e s"] ids_handle [of s e] show ?case
    by (simp only: run_events.simps issued_ids.simps set_append) blast
qed

lemma initial_inv: "cards_inv initial_card_state"
  by (simp add: cards_inv_def initial_card_state_def)

text \<open>
  Claim C9, as stated, fails for \<^verbatim>\<open>handleAddParameterCard\<close>: two calls of the handler of one
  render, here the first render, append two cards with the id 1 while the counter goes to
  3. The first call keeps the invariant, the second breaks it.
\<close>

theorem add_twice_from_one_render:
  "cards_inv initial_card_state
   \<and> cards_inv (handleAddParameterCard initial_card_state initial_card_state)
   \<and> map id_c (parameterCards
        (run_batch initial_card_state [AddParameterCard, AddParameterCard] initial_card_state))
       = [1, 1]
   \<and> nextCardId
        (run_batch initial_card_state [AddParameterCard, AddParameterCard] initial_card_state) = 3
   \<and> \<not> cards_inv
        (run_batch initial_card_state [AddParameterCard, AddParameterCard] initial_card_state)"
  by (simp add: cards_inv_ids initial_card_state_def)

text \<open>
  Claim C9, amended. \<^verbatim>\<open>handleRemoveParameterCard\<close>, \<^verbatim>\<open>handleParameterCardChange\<close> and
  \<^verbatim>\<open>handleCardSliderChange\<close> preserve, from every state, the invariant that the ids of the
  cards in the list are pairwise distinct and strictly below \<^verbatim>\<open>nextCardId\<close>, and leave
  \<^verbatim>\<open>nextCardId\<close> as it is. \<^verbatim>\<open>handleAddParameterCard\<close> preserves the invariant when the
  \<^verbatim>\<open>nextCardId\<close> of the render it comes from is the current one, and raises \<^verbatim>\<open>nextCardId\<close> by
  one whatever the render. In a session in which the component renders again after every
  event, started in a state that satisfies the invariant: the invariant holds at the end,
  \<^verbatim>\<open>nextCardId\<close> has not decreased, the ids of the appended cards are pairwise distinct, none
  of them is below the counter of the starting state, hence none is the id of a card that
  existed before, removed or not, and every id in the final list is one of the starting
  list or one of the appended cards. The initial state satisfies the invariant.
\<close>

theorem card_ids_invariant:
  assumes "cards_inv s" and "nextCardId render = nextCardId s"
  shows "cards_inv (handleAddParameterCard render s)
       \<and> cards_inv (handleRemoveParameterCard cardId s)
       \<and> cards_inv (handleParameterCardChange cardId pid s)
       \<and> cards_inv (handleCardSliderChange cardId v s)
       \<and> nextCardId (handleAddParameterCard render' s) = nextCardId s + 1
       \<and> nextCardId (handleRemoveParameterCard cardId s) = nextCardId s
       \<and> nextCardId (handleParameterCardChange cardId pid s) = nextCardId s
       \<and> nextCardId (handleCardSliderChange cardId v s) = nextCardId s
       \<and> cards_inv (run_events es s)
       \<and> nextCardId s \<le> nextCardId (run_events es s)
       \<and> distinct (issued_ids es s)
       \<and> set (issued_ids es s) \<inter> set (map id_c (parameterCards s)) = {}
       \<and> (\<forall>i \<in> set (issued_ids es s). nextCardId s \<le> i)
       \<and> set (map id_c (parameterCards (run_events es s)))
           \<subseteq> set (map id_c (parameterCards s)) \<union> set (issued_ids es s)
       \<and> cards_inv initial_card_state"
proof -
  have disj: "set (issued_ids es s) \<inter> set (map id_c (parameterCards s)) = {}"
  proof -
    have "\<And>i. i \<in> set (issued_ids es s) \<Longrightarrow> i \<notin> set (map id_c (parameterCards s))"
    proof
      fix i
      assume a: "i \<in> set (issued_ids es s)" and b: "i \<in> set (map id_c (parameterCards s))"
      from a have "nextCardId s \<le> i" by (rule issued_lower)
      moreover from b assms(1) have "i < nextCardId s" by (auto simp: cards_inv_def)
      ultimately show False by simp
    qed
    then show ?thesis by blast
  qed
  have low: "\<forall>i \<in> set (issued_ids es s). nextCardId s \<le> i"
    by (simp add: issued_lower)
  have add: "cards_inv (handleAddParameterCard render s)"
    using assms by (rule inv_add)
  from assms(1) have rest: "cards_inv (handleRemoveParameterCard cardId s)"
    "cards_inv (handleParameterCardChange cardId pid s)"
    "cards_inv (handleCardSliderChange cardId v s)"
    "cards_inv (run_events es s)"
    by (simp_all add: inv_remove inv_change inv_slider inv_run)
  from add rest disj low ids_run [of es s] show ?thesis
    by (simp add: next_run issued_distinct initial_inv)
qed

theorem card_ids_invariant_witness:
  "cards_inv initial_card_state
   \<and> map id_c (parameterCards (run_events
        [AddParameterCard, AddParameterCard, RemoveParameterCard 2, AddParameterCard,
         CardSliderChange 3 70, ParameterCardChange 1 ''economy''] initial_card_state)) = [1, 3]
   \<and> nextCardId (run_events
        [AddParameterCard, AddParameterCard, RemoveParameterCard 2, AddParameterCard,
         CardSliderChange 3 70, ParameterCardChange 1 ''economy''] initial_card_state) = 4
   \<and> issued_ids
        [AddParameterCard, AddParameterCard, RemoveParameterCard 2, AddParameterCard,
         CardSliderChange 3 70, ParameterCardChange 1 ''economy''] initial_card_state = [1, 2, 3]"
proof -
  have r: "nextCardId initial_card_state = nextCardId initial_card_state" by simp
  show ?thesis
    using card_ids_invariant [OF initial_inv r, of 2 "''economy''" 70 initial_card_state
      "[AddParameterCard, AddParameterCard, RemoveParameterCard 2, AddParameterCard,
        CardSliderChange 3 70, ParameterCardChange 1 ''economy'']"]
    by (simp add: initial_card_state_def handleAddParameterCard_def handleRemoveParameterCard_def
      handleParameterCardChange_def handleCardSliderChange_def Let_def)
qed

text \<open>
  Claim C10. \<^verbatim>\<open>handleRemoveParameterCard(cardId)\<close> removes exactly the cards whose id is
  \<^verbatim>\<open>cardId\<close>: every other card stays, as many times as it occurred and with all four fields
  as they were, the remaining cards keep their relative order, the counter is untouched,
  and the list is unchanged when no card has that id.
\<close>

theorem remove_card_frame:
  "(\<forall>c. count_list (parameterCards (handleRemoveParameterCard cardId s)) c
          = (if id_c c = cardId then 0 else count_list (parameterCards s) c))
   \<and> set (parameterCards (handleRemoveParameterCard cardId s))
       = {c \<in> set (parameterCards s). id_c c \<noteq> cardId}
   \<and> subseq (parameterCards (handleRemoveParameterCard cardId s)) (parameterCards s)
   \<and> nextCardId (handleRemoveParameterCard cardId s) = nextCardId s
   \<and> (cardId \<notin> id_c ` set (parameterCards s)
        \<longrightarrow> handleRemoveParameterCard cardId s = s)"
proof -
  have cnt: "\<And>xs c. count_list (filter (\<lambda>card. id_c card \<noteq> cardId) xs) c
               = (if id_c c = cardId then 0 else count_list xs (c::ParameterCard))"
  proof -
    fix xs and c :: ParameterCard
    show "count_list (filter (\<lambda>card. id_c card \<noteq> cardId) xs) c
               = (if id_c c = cardId then 0 else count_list xs c)"
      by (induction xs) auto
  qed
  have same: "cardId \<notin> id_c ` set (parameterCards s) \<Longrightarrow> handleRemoveParameterCard cardId s = s"
  proof -
    assume "cardId \<notin> id_c ` set (parameterCards s)"
    then have "filter (\<lambda>card. id_c card \<noteq> cardId) (parameterCards s) = parameterCards s"
      by (auto simp: filter_id_conv)
    then show ?thesis by (simp add: handleRemoveParameterCard_def)
  qed
  show ?thesis
    using cnt same by (auto simp: handleRemoveParameterCard_def)
qed

theorem remove_card_frame_witness:
  "parameterCards (handleRemoveParameterCard 2
      \<lparr>parameterCards =
         [\<lparr>id_c = 1, parameterId = ''economy'', value_c = 30, order_c = 0\<rparr>,
          \<lparr>id_c = 2, parameterId = ''population'', value_c = 50, order_c = 1\<rparr>,
          \<lparr>id_c = 3, parameterId = ''health'', value_c = 70, order_c = 2\<rparr>],
       nextCardId = 4\<rparr>)
   = [\<lparr>id_c = 1, parameterId = ''economy'', value_c = 30, order_c = 0\<rparr>,
      \<lparr>id_c = 3, parameterId = ''health'', value_c = 70, order_c = 2\<rparr>]
   \<and> handleRemoveParameterCard 9
      \<lparr>parameterCards =
         [\<lparr>id_c = 1, parameterId = ''economy'', value_c = 30, order_c = 0\<rparr>],
       nextCardId = 4\<rparr>
   = \<lparr>parameterCards =
         [\<lparr>id_c = 1, parameterId = ''economy'', value_c = 30, order_c = 0\<rparr>],
       nextCardId = 4\<rparr>"
  using remove_card_frame [of 9 "\<lparr>parameterCards =
         [\<lparr>id_c = 1, parameterId = ''economy'', value_c = 30, order_c = 0\<rparr>],
       nextCardId = 4\<rparr>"]
  by (simp add: handleRemoveParameterCard_def)


section \<open>Facts read off the two artifacts\<close>

text \<open>Each lemma unfolds one constant of the transcription and evaluates.\<close>

lemma level0_actors: "array_at ''actors'' level0_artifact = [level0_actors_0, level0_actors_1]"
  by (simp add: array_at_def level0_artifact_def)

lemma level0_top_keys: "keys level0_artifact = [''metadata'', ''actors'', ''total_count'']"
  by (simp add: level0_artifact_def)

lemma level0_metadata: "member ''metadata'' level0_artifact = Some level0_metadata"
  by (simp add: level0_artifact_def)

lemma level0_metadata_keys: "keys level0_metadata = [''timestamp'',
     ''run_folder'',
     ''model_provider'',
     ''model_name'',
     ''num_actors_requested'',
     ''num_actors_generated'',
     ''script_version'',
     ''generation_method'',
     ''level'',
     ''cost_tracking'']"
  by (simp add: level0_metadata_def)

lemma level0_actors_0_below: "array_at ''children'' level0_actors_0 = []"
  by (simp add: array_at_def level0_actors_0_def)

lemma level0_actors_1_below: "array_at ''children'' level0_actors_1 = []"
  by (simp add: array_at_def level0_actors_1_def)

lemma level0_actors_0_keys: "keys level0_actors_0 = [''name'', ''description'', ''type'', ''depth'', ''parameters'']"
  by (simp add: level0_actors_0_def)

lemma level0_actors_1_keys: "keys level0_actors_1 = [''name'', ''description'', ''type'', ''depth'', ''parameters'']"
  by (simp add: level0_actors_1_def)

lemma level0_actors_0_depth: "member ''depth'' level0_actors_0 = Some (JInt 1)"
  by (simp add: level0_actors_0_def)

lemma level0_actors_1_depth: "member ''depth'' level0_actors_1 = Some (JInt 1)"
  by (simp add: level0_actors_1_def)

lemmas level0_below = level0_actors_0_below
  level0_actors_1_below

lemmas level0_keys = level0_actors_0_keys
  level0_actors_1_keys

lemmas level0_depth = level0_actors_0_depth
  level0_actors_1_depth

lemma level0_records:
  "actor_records ''children'' level0_artifact =
     [(0, level0_actors_0),
      (0, level0_actors_1)]"
  by (simp add: actor_records_def level0_actors nested.simps level0_below)

lemma level2_actors: "array_at ''actors'' level2_artifact = [level2_actors_0, level2_actors_1]"
  by (simp add: array_at_def level2_artifact_def)

lemma level2_top_keys: "keys level2_artifact = [''metadata'', ''actors'', ''total_main_actors'', ''total_subactors'', ''level'']"
  by (simp add: level2_artifact_def)

lemma level2_metadata: "member ''metadata'' level2_artifact = Some level2_metadata"
  by (simp add: level2_artifact_def)

lemma level2_metadata_keys: "keys level2_metadata = [''timestamp'',
     ''run_folder'',
     ''model_provider'',
     ''model_name'',
     ''script_version'',
     ''level'',
     ''parent_file'',
     ''original_metadata'',
     ''parallelization'',
     ''generation_stats'',
     ''cost_tracking'']"
  by (simp add: level2_metadata_def)

lemma level2_actors_0_below: "array_at ''sub_actors'' level2_actors_0 = [level2_actors_0_sub_actors_0,
     level2_actors_0_sub_actors_1]"
  by (simp add: array_at_def level2_actors_0_def)

lemma level2_actors_0_sub_actors_0_below: "array_at ''sub_actors'' level2_actors_0_sub_actors_0 = [level2_actors_0_sub_actors_0_sub_actors_0,
     level2_actors_0_sub_actors_0_sub_actors_1,
     level2_actors_0_sub_actors_0_sub_actors_2]"
  by (simp add: array_at_def level2_actors_0_sub_actors_0_def)

lemma level2_actors_0_sub_actors_0_sub_actors_0_below: "array_at ''sub_actors'' level2_actors_0_sub_actors_0_sub_actors_0 = []"
  by (simp add: array_at_def level2_actors_0_sub_actors_0_sub_actors_0_def)

lemma level2_actors_0_sub_actors_0_sub_actors_1_below: "array_at ''sub_actors'' level2_actors_0_sub_actors_0_sub_actors_1 = []"
  by (simp add: array_at_def level2_actors_0_sub_actors_0_sub_actors_1_def)

lemma level2_actors_0_sub_actors_0_sub_actors_2_below: "array_at ''sub_actors'' level2_actors_0_sub_actors_0_sub_actors_2 = []"
  by (simp add: array_at_def level2_actors_0_sub_actors_0_sub_actors_2_def)

lemma level2_actors_0_sub_actors_1_below: "array_at ''sub_actors'' level2_actors_0_sub_actors_1 = [level2_actors_0_sub_actors_1_sub_actors_0,
     level2_actors_0_sub_actors_1_sub_actors_1,
     level2_actors_0_sub_actors_1_sub_actors_2]"
  by (simp add: array_at_def level2_actors_0_sub_actors_1_def)

lemma level2_actors_0_sub_actors_1_sub_actors_0_below: "array_at ''sub_actors'' level2_actors_0_sub_actors_1_sub_actors_0 = []"
  by (simp add: array_at_def level2_actors_0_sub_actors_1_sub_actors_0_def)

lemma level2_actors_0_sub_actors_1_sub_actors_1_below: "array_at ''sub_actors'' level2_actors_0_sub_actors_1_sub_actors_1 = []"
  by (simp add: array_at_def level2_actors_0_sub_actors_1_sub_actors_1_def)

lemma level2_actors_0_sub_actors_1_sub_actors_2_below: "array_at ''sub_actors'' level2_actors_0_sub_actors_1_sub_actors_2 = []"
  by (simp add: array_at_def level2_actors_0_sub_actors_1_sub_actors_2_def)

lemma level2_actors_1_below: "array_at ''sub_actors'' level2_actors_1 = [level2_actors_1_sub_actors_0,
     level2_actors_1_sub_actors_1]"
  by (simp add: array_at_def level2_actors_1_def)

lemma level2_actors_1_sub_actors_0_below: "array_at ''sub_actors'' level2_actors_1_sub_actors_0 = [level2_actors_1_sub_actors_0_sub_actors_0,
     level2_actors_1_sub_actors_0_sub_actors_1,
     level2_actors_1_sub_actors_0_sub_actors_2]"
  by (simp add: array_at_def level2_actors_1_sub_actors_0_def)

lemma level2_actors_1_sub_actors_0_sub_actors_0_below: "array_at ''sub_actors'' level2_actors_1_sub_actors_0_sub_actors_0 = []"
  by (simp add: array_at_def level2_actors_1_sub_actors_0_sub_actors_0_def)

lemma level2_actors_1_sub_actors_0_sub_actors_1_below: "array_at ''sub_actors'' level2_actors_1_sub_actors_0_sub_actors_1 = []"
  by (simp add: array_at_def level2_actors_1_sub_actors_0_sub_actors_1_def)

lemma level2_actors_1_sub_actors_0_sub_actors_2_below: "array_at ''sub_actors'' level2_actors_1_sub_actors_0_sub_actors_2 = []"
  by (simp add: array_at_def level2_actors_1_sub_actors_0_sub_actors_2_def)

lemma level2_actors_1_sub_actors_1_below: "array_at ''sub_actors'' level2_actors_1_sub_actors_1 = [level2_actors_1_sub_actors_1_sub_actors_0,
     level2_actors_1_sub_actors_1_sub_actors_1,
     level2_actors_1_sub_actors_1_sub_actors_2]"
  by (simp add: array_at_def level2_actors_1_sub_actors_1_def)

lemma level2_actors_1_sub_actors_1_sub_actors_0_below: "array_at ''sub_actors'' level2_actors_1_sub_actors_1_sub_actors_0 = []"
  by (simp add: array_at_def level2_actors_1_sub_actors_1_sub_actors_0_def)

lemma level2_actors_1_sub_actors_1_sub_actors_1_below: "array_at ''sub_actors'' level2_actors_1_sub_actors_1_sub_actors_1 = []"
  by (simp add: array_at_def level2_actors_1_sub_actors_1_sub_actors_1_def)

lemma level2_actors_1_sub_actors_1_sub_actors_2_below: "array_at ''sub_actors'' level2_actors_1_sub_actors_1_sub_actors_2 = []"
  by (simp add: array_at_def level2_actors_1_sub_actors_1_sub_actors_2_def)

lemma level2_actors_0_keys: "keys level2_actors_0 = [''name'', ''description'', ''type'', ''sub_actors'', ''sub_actors_count'']"
  by (simp add: level2_actors_0_def)

lemma level2_actors_0_sub_actors_0_keys: "keys level2_actors_0_sub_actors_0 = [''name'', ''description'', ''type'', ''parent_actor'', ''sub_actors'', ''sub_actors_count'']"
  by (simp add: level2_actors_0_sub_actors_0_def)

lemma level2_actors_0_sub_actors_0_sub_actors_0_keys: "keys level2_actors_0_sub_actors_0_sub_actors_0 = [''name'', ''description'', ''type'', ''parent_actor'', ''sub_actors'', ''sub_actors_count'']"
  by (simp add: level2_actors_0_sub_actors_0_sub_actors_0_def)

lemma level2_actors_0_sub_actors_0_sub_actors_1_keys: "keys level2_actors_0_sub_actors_0_sub_actors_1 = [''name'', ''description'', ''type'', ''parent_actor'', ''sub_actors'', ''sub_actors_count'']"
  by (simp add: level2_actors_0_sub_actors_0_sub_actors_1_def)

lemma level2_actors_0_sub_actors_0_sub_actors_2_keys: "keys level2_actors_0_sub_actors_0_sub_actors_2 = [''name'', ''description'', ''type'', ''parent_actor'', ''sub_actors'', ''sub_actors_count'']"
  by (simp add: level2_actors_0_sub_actors_0_sub_actors_2_def)

lemma level2_actors_0_sub_actors_1_keys: "keys level2_actors_0_sub_actors_1 = [''name'', ''description'', ''type'', ''parent_actor'', ''sub_actors'', ''sub_actors_count'']"
  by (simp add: level2_actors_0_sub_actors_1_def)

lemma level2_actors_0_sub_actors_1_sub_actors_0_keys: "keys level2_actors_0_sub_actors_1_sub_actors_0 = [''name'', ''description'', ''type'', ''parent_actor'', ''sub_actors'', ''sub_actors_count'']"
  by (simp add: level2_actors_0_sub_actors_1_sub_actors_0_def)

lemma level2_actors_0_sub_actors_1_sub_actors_1_keys: "keys level2_actors_0_sub_actors_1_sub_actors_1 = [''name'', ''description'', ''type'', ''parent_actor'', ''sub_actors'', ''sub_actors_count'']"
  by (simp add: level2_actors_0_sub_actors_1_sub_actors_1_def)

lemma level2_actors_0_sub_actors_1_sub_actors_2_keys: "keys level2_actors_0_sub_actors_1_sub_actors_2 = [''name'', ''description'', ''type'', ''parent_actor'', ''sub_actors'', ''sub_actors_count'']"
  by (simp add: level2_actors_0_sub_actors_1_sub_actors_2_def)

lemma level2_actors_1_keys: "keys level2_actors_1 = [''name'', ''description'', ''type'', ''sub_actors'', ''sub_actors_count'']"
  by (simp add: level2_actors_1_def)

lemma level2_actors_1_sub_actors_0_keys: "keys level2_actors_1_sub_actors_0 = [''name'', ''description'', ''type'', ''parent_actor'', ''sub_actors'', ''sub_actors_count'']"
  by (simp add: level2_actors_1_sub_actors_0_def)

lemma level2_actors_1_sub_actors_0_sub_actors_0_keys: "keys level2_actors_1_sub_actors_0_sub_actors_0 = [''name'', ''description'', ''type'', ''parent_actor'', ''sub_actors'', ''sub_actors_count'']"
  by (simp add: level2_actors_1_sub_actors_0_sub_actors_0_def)

lemma level2_actors_1_sub_actors_0_sub_actors_1_keys: "keys level2_actors_1_sub_actors_0_sub_actors_1 = [''name'', ''description'', ''type'', ''parent_actor'', ''sub_actors'', ''sub_actors_count'']"
  by (simp add: level2_actors_1_sub_actors_0_sub_actors_1_def)

lemma level2_actors_1_sub_actors_0_sub_actors_2_keys: "keys level2_actors_1_sub_actors_0_sub_actors_2 = [''name'', ''description'', ''type'', ''parent_actor'', ''sub_actors'', ''sub_actors_count'']"
  by (simp add: level2_actors_1_sub_actors_0_sub_actors_2_def)

lemma level2_actors_1_sub_actors_1_keys: "keys level2_actors_1_sub_actors_1 = [''name'', ''description'', ''type'', ''parent_actor'', ''sub_actors'', ''sub_actors_count'']"
  by (simp add: level2_actors_1_sub_actors_1_def)

lemma level2_actors_1_sub_actors_1_sub_actors_0_keys: "keys level2_actors_1_sub_actors_1_sub_actors_0 = [''name'', ''description'', ''type'', ''parent_actor'', ''sub_actors'', ''sub_actors_count'']"
  by (simp add: level2_actors_1_sub_actors_1_sub_actors_0_def)

lemma level2_actors_1_sub_actors_1_sub_actors_1_keys: "keys level2_actors_1_sub_actors_1_sub_actors_1 = [''name'', ''description'', ''type'', ''parent_actor'', ''sub_actors'', ''sub_actors_count'']"
  by (simp add: level2_actors_1_sub_actors_1_sub_actors_1_def)

lemma level2_actors_1_sub_actors_1_sub_actors_2_keys: "keys level2_actors_1_sub_actors_1_sub_actors_2 = [''name'', ''description'', ''type'', ''parent_actor'', ''sub_actors'', ''sub_actors_count'']"
  by (simp add: level2_actors_1_sub_actors_1_sub_actors_2_def)

lemma level2_actors_0_depth: "member ''depth'' level2_actors_0 = None"
  by (simp add: level2_actors_0_def)

lemma level2_actors_0_sub_actors_0_depth: "member ''depth'' level2_actors_0_sub_actors_0 = None"
  by (simp add: level2_actors_0_sub_actors_0_def)

lemma level2_actors_0_sub_actors_0_sub_actors_0_depth: "member ''depth'' level2_actors_0_sub_actors_0_sub_actors_0 = None"
  by (simp add: level2_actors_0_sub_actors_0_sub_actors_0_def)

lemma level2_actors_0_sub_actors_0_sub_actors_1_depth: "member ''depth'' level2_actors_0_sub_actors_0_sub_actors_1 = None"
  by (simp add: level2_actors_0_sub_actors_0_sub_actors_1_def)

lemma level2_actors_0_sub_actors_0_sub_actors_2_depth: "member ''depth'' level2_actors_0_sub_actors_0_sub_actors_2 = None"
  by (simp add: level2_actors_0_sub_actors_0_sub_actors_2_def)

lemma level2_actors_0_sub_actors_1_depth: "member ''depth'' level2_actors_0_sub_actors_1 = None"
  by (simp add: level2_actors_0_sub_actors_1_def)

lemma level2_actors_0_sub_actors_1_sub_actors_0_depth: "member ''depth'' level2_actors_0_sub_actors_1_sub_actors_0 = None"
  by (simp add: level2_actors_0_sub_actors_1_sub_actors_0_def)

lemma level2_actors_0_sub_actors_1_sub_actors_1_depth: "member ''depth'' level2_actors_0_sub_actors_1_sub_actors_1 = None"
  by (simp add: level2_actors_0_sub_actors_1_sub_actors_1_def)

lemma level2_actors_0_sub_actors_1_sub_actors_2_depth: "member ''depth'' level2_actors_0_sub_actors_1_sub_actors_2 = None"
  by (simp add: level2_actors_0_sub_actors_1_sub_actors_2_def)

lemma level2_actors_1_depth: "member ''depth'' level2_actors_1 = None"
  by (simp add: level2_actors_1_def)

lemma level2_actors_1_sub_actors_0_depth: "member ''depth'' level2_actors_1_sub_actors_0 = None"
  by (simp add: level2_actors_1_sub_actors_0_def)

lemma level2_actors_1_sub_actors_0_sub_actors_0_depth: "member ''depth'' level2_actors_1_sub_actors_0_sub_actors_0 = None"
  by (simp add: level2_actors_1_sub_actors_0_sub_actors_0_def)

lemma level2_actors_1_sub_actors_0_sub_actors_1_depth: "member ''depth'' level2_actors_1_sub_actors_0_sub_actors_1 = None"
  by (simp add: level2_actors_1_sub_actors_0_sub_actors_1_def)

lemma level2_actors_1_sub_actors_0_sub_actors_2_depth: "member ''depth'' level2_actors_1_sub_actors_0_sub_actors_2 = None"
  by (simp add: level2_actors_1_sub_actors_0_sub_actors_2_def)

lemma level2_actors_1_sub_actors_1_depth: "member ''depth'' level2_actors_1_sub_actors_1 = None"
  by (simp add: level2_actors_1_sub_actors_1_def)

lemma level2_actors_1_sub_actors_1_sub_actors_0_depth: "member ''depth'' level2_actors_1_sub_actors_1_sub_actors_0 = None"
  by (simp add: level2_actors_1_sub_actors_1_sub_actors_0_def)

lemma level2_actors_1_sub_actors_1_sub_actors_1_depth: "member ''depth'' level2_actors_1_sub_actors_1_sub_actors_1 = None"
  by (simp add: level2_actors_1_sub_actors_1_sub_actors_1_def)

lemma level2_actors_1_sub_actors_1_sub_actors_2_depth: "member ''depth'' level2_actors_1_sub_actors_1_sub_actors_2 = None"
  by (simp add: level2_actors_1_sub_actors_1_sub_actors_2_def)

lemmas level2_below = level2_actors_0_below
  level2_actors_0_sub_actors_0_below
  level2_actors_0_sub_actors_0_sub_actors_0_below
  level2_actors_0_sub_actors_0_sub_actors_1_below
  level2_actors_0_sub_actors_0_sub_actors_2_below
  level2_actors_0_sub_actors_1_below
  level2_actors_0_sub_actors_1_sub_actors_0_below
  level2_actors_0_sub_actors_1_sub_actors_1_below
  level2_actors_0_sub_actors_1_sub_actors_2_below
  level2_actors_1_below
  level2_actors_1_sub_actors_0_below
  level2_actors_1_sub_actors_0_sub_actors_0_below
  level2_actors_1_sub_actors_0_sub_actors_1_below
  level2_actors_1_sub_actors_0_sub_actors_2_below
  level2_actors_1_sub_actors_1_below
  level2_actors_1_sub_actors_1_sub_actors_0_below
  level2_actors_1_sub_actors_1_sub_actors_1_below
  level2_actors_1_sub_actors_1_sub_actors_2_below

lemmas level2_keys = level2_actors_0_keys
  level2_actors_0_sub_actors_0_keys
  level2_actors_0_sub_actors_0_sub_actors_0_keys
  level2_actors_0_sub_actors_0_sub_actors_1_keys
  level2_actors_0_sub_actors_0_sub_actors_2_keys
  level2_actors_0_sub_actors_1_keys
  level2_actors_0_sub_actors_1_sub_actors_0_keys
  level2_actors_0_sub_actors_1_sub_actors_1_keys
  level2_actors_0_sub_actors_1_sub_actors_2_keys
  level2_actors_1_keys
  level2_actors_1_sub_actors_0_keys
  level2_actors_1_sub_actors_0_sub_actors_0_keys
  level2_actors_1_sub_actors_0_sub_actors_1_keys
  level2_actors_1_sub_actors_0_sub_actors_2_keys
  level2_actors_1_sub_actors_1_keys
  level2_actors_1_sub_actors_1_sub_actors_0_keys
  level2_actors_1_sub_actors_1_sub_actors_1_keys
  level2_actors_1_sub_actors_1_sub_actors_2_keys

lemmas level2_depth = level2_actors_0_depth
  level2_actors_0_sub_actors_0_depth
  level2_actors_0_sub_actors_0_sub_actors_0_depth
  level2_actors_0_sub_actors_0_sub_actors_1_depth
  level2_actors_0_sub_actors_0_sub_actors_2_depth
  level2_actors_0_sub_actors_1_depth
  level2_actors_0_sub_actors_1_sub_actors_0_depth
  level2_actors_0_sub_actors_1_sub_actors_1_depth
  level2_actors_0_sub_actors_1_sub_actors_2_depth
  level2_actors_1_depth
  level2_actors_1_sub_actors_0_depth
  level2_actors_1_sub_actors_0_sub_actors_0_depth
  level2_actors_1_sub_actors_0_sub_actors_1_depth
  level2_actors_1_sub_actors_0_sub_actors_2_depth
  level2_actors_1_sub_actors_1_depth
  level2_actors_1_sub_actors_1_sub_actors_0_depth
  level2_actors_1_sub_actors_1_sub_actors_1_depth
  level2_actors_1_sub_actors_1_sub_actors_2_depth

lemma level2_records:
  "actor_records ''sub_actors'' level2_artifact =
     [(0, level2_actors_0),
      (1, level2_actors_0_sub_actors_0),
      (2, level2_actors_0_sub_actors_0_sub_actors_0),
      (2, level2_actors_0_sub_actors_0_sub_actors_1),
      (2, level2_actors_0_sub_actors_0_sub_actors_2),
      (1, level2_actors_0_sub_actors_1),
      (2, level2_actors_0_sub_actors_1_sub_actors_0),
      (2, level2_actors_0_sub_actors_1_sub_actors_1),
      (2, level2_actors_0_sub_actors_1_sub_actors_2),
      (0, level2_actors_1),
      (1, level2_actors_1_sub_actors_0),
      (2, level2_actors_1_sub_actors_0_sub_actors_0),
      (2, level2_actors_1_sub_actors_0_sub_actors_1),
      (2, level2_actors_1_sub_actors_0_sub_actors_2),
      (1, level2_actors_1_sub_actors_1),
      (2, level2_actors_1_sub_actors_1_sub_actors_0),
      (2, level2_actors_1_sub_actors_1_sub_actors_1),
      (2, level2_actors_1_sub_actors_1_sub_actors_2)]"
  by (simp add: actor_records_def level2_actors nested.simps level2_below)

section \<open>The layout of the persisted artifacts\<close>

lemma level0_no_stats: "at_path [''metadata'', ''generation_stats''] level0_artifact = None"
  by (simp add: level0_metadata level0_metadata_def)

lemma level2_stats:
  "at_path [''metadata'', ''generation_stats''] level2_artifact = Some level2_metadata_generation_stats"
  by (simp add: level2_metadata level2_metadata_def)

lemma level2_stats_keys:
  "keys level2_metadata_generation_stats =
     [''total_main_actors'', ''total_subactors'', ''actors_with_subactors'',
      ''avg_subactors_per_actor'', ''successful_actors'', ''failed_actors'']"
  by (simp add: level2_metadata_generation_stats_def)

lemma level2_no_children_key:
  "array_at ''children'' level2_actors_0 = []" "array_at ''children'' level2_actors_1 = []"
  "member ''children'' level2_actors_0 = None"
  by (simp_all add: array_at_def level2_actors_0_def level2_actors_1_def)

text \<open>
  Claim C2, as stated, fails on both artifacts of the repository. The level-0 file has no
  \<^verbatim>\<open>generation_stats\<close> and its actors have no \<^verbatim>\<open>children\<close> array; the level-2 file has no
  \<^verbatim>\<open>total_count\<close>, its actors have neither \<^verbatim>\<open>depth\<close> nor \<^verbatim>\<open>parameters\<close> nor \<^verbatim>\<open>children\<close>, and
  the keys of its \<^verbatim>\<open>generation_stats\<close> are six other names.
\<close>

theorem artifacts_not_section6:
  "\<not> conforms_section6 level0_artifact \<and> \<not> conforms_section6 level2_artifact"
proof
  have "\<not> stats_keys_ok level0_artifact"
    unfolding stats_keys_ok_def level0_no_stats by simp
  then show "\<not> conforms_section6 level0_artifact"
    by (simp add: conforms_section6_def)
  have "actor_records ''children'' level2_artifact = [(0, level2_actors_0), (0, level2_actors_1)]"
    by (simp add: actor_records_def level2_actors nested.simps level2_no_children_key)
  then show "\<not> conforms_section6 level2_artifact"
    by (simp add: conforms_section6_def serialized_actor_ok_def is_array_def level2_no_children_key)
qed

text \<open>
  Claim C2, amended: what the two artifacts are. The level-0 artifact has the top-level
  keys \<^verbatim>\<open>metadata\<close>, \<^verbatim>\<open>actors\<close> and the integer \<^verbatim>\<open>total_count\<close> (here 2), no
  \<^verbatim>\<open>generation_stats\<close> in its metadata, and each actor has exactly the fields \<^verbatim>\<open>name\<close>,
  \<^verbatim>\<open>description\<close>, \<^verbatim>\<open>type\<close>, \<^verbatim>\<open>depth\<close>, \<^verbatim>\<open>parameters\<close>. The level-2 artifact has the top-level
  keys \<^verbatim>\<open>metadata\<close>, \<^verbatim>\<open>actors\<close>, \<^verbatim>\<open>total_main_actors\<close>, \<^verbatim>\<open>total_subactors\<close>, \<^verbatim>\<open>level\<close> (the
  count of top-level actors is the integer \<^verbatim>\<open>total_main_actors\<close>, here 2); its
  \<^verbatim>\<open>generation_stats\<close> has exactly the keys \<^verbatim>\<open>total_main_actors\<close>, \<^verbatim>\<open>total_subactors\<close>,
  \<^verbatim>\<open>actors_with_subactors\<close>, \<^verbatim>\<open>avg_subactors_per_actor\<close>, \<^verbatim>\<open>successful_actors\<close>,
  \<^verbatim>\<open>failed_actors\<close>; and each of its 18 actor records, at every nesting depth, has the
  fields \<^verbatim>\<open>name\<close>, \<^verbatim>\<open>description\<close>, \<^verbatim>\<open>type\<close>, the recursive array \<^verbatim>\<open>sub_actors\<close> and
  \<^verbatim>\<open>sub_actors_count\<close>, the nested ones also \<^verbatim>\<open>parent_actor\<close>.
\<close>

theorem artifacts_layout:
  "keys level0_artifact = [''metadata'', ''actors'', ''total_count'']
   \<and> member ''total_count'' level0_artifact = Some (JInt 2)
   \<and> at_path [''metadata'', ''generation_stats''] level0_artifact = None
   \<and> map (\<lambda>(d, a). (d, keys a)) (actor_records ''children'' level0_artifact)
       = replicate 2 (0, [''name'', ''description'', ''type'', ''depth'', ''parameters''])
   \<and> keys level2_artifact
       = [''metadata'', ''actors'', ''total_main_actors'', ''total_subactors'', ''level'']
   \<and> member ''total_main_actors'' level2_artifact = Some (JInt 2)
   \<and> member ''total_count'' level2_artifact = None
   \<and> map_option keys (at_path [''metadata'', ''generation_stats''] level2_artifact)
       = Some [''total_main_actors'', ''total_subactors'', ''actors_with_subactors'',
               ''avg_subactors_per_actor'', ''successful_actors'', ''failed_actors'']
   \<and> length (actor_records ''sub_actors'' level2_artifact) = 18
   \<and> list_all (\<lambda>(d, a).
         keys a = (if d = 0
                   then [''name'', ''description'', ''type'', ''sub_actors'', ''sub_actors_count'']
                   else [''name'', ''description'', ''type'', ''parent_actor'', ''sub_actors'',
                         ''sub_actors_count'']))
       (actor_records ''sub_actors'' level2_artifact)"
proof -
  have a: "member ''total_count'' level0_artifact = Some (JInt 2)"
    by (simp add: level0_artifact_def)
  have b: "map (\<lambda>(d, a). (d, keys a)) (actor_records ''children'' level0_artifact)
       = replicate 2 (0, [''name'', ''description'', ''type'', ''depth'', ''parameters''])"
    by (simp add: level0_records level0_keys numeral_2_eq_2)
  have c: "member ''total_main_actors'' level2_artifact = Some (JInt 2)"
    "member ''total_count'' level2_artifact = None"
    by (simp_all add: level2_artifact_def)
  have d: "map_option keys (at_path [''metadata'', ''generation_stats''] level2_artifact)
       = Some [''total_main_actors'', ''total_subactors'', ''actors_with_subactors'',
               ''avg_subactors_per_actor'', ''successful_actors'', ''failed_actors'']"
    by (simp only: level2_stats level2_stats_keys option.map)
  have e: "length (actor_records ''sub_actors'' level2_artifact) = 18"
    by (simp add: level2_records)
  have f: "list_all (\<lambda>(d, a).
         keys a = (if d = 0
                   then [''name'', ''description'', ''type'', ''sub_actors'', ''sub_actors_count'']
                   else [''name'', ''description'', ''type'', ''parent_actor'', ''sub_actors'',
                         ''sub_actors_count'']))
       (actor_records ''sub_actors'' level2_artifact)"
    by (simp add: level2_records level2_keys)
  from a b c d e f level0_top_keys level0_no_stats level2_top_keys show ?thesis
    by (intro conjI)
qed

section \<open>RetryController under a provider that always truncates\<close>

lemma after_simps [simp]: "fst (after a r) = a # fst r" "snd (after a r) = snd r"
  by (simp_all add: after_def)





lemma length_halvings: "length (halvings n b) \<le> n"
  by (induction n arbitrary: b) auto









section \<open>The cost ledger is additive up to rounding\<close>

subsection \<open>Rounded sums\<close>

lemma factor_facts:
  assumes "0 \<le> u" and "u \<le> (1::rat)"
  shows "0 \<le> (1 - u) ^ n" "(1 - u) ^ n \<le> 1" "1 \<le> (1 + u) ^ n" "0 \<le> (1 + u) ^ n"
proof -
  from assms have a: "0 \<le> 1 - u" "1 - u \<le> 1" "1 \<le> 1 + u" by simp_all
  from a(1) show "0 \<le> (1 - u) ^ n" by (rule zero_le_power)
  from a(1,2) show "(1 - u) ^ n \<le> 1" by (rule power_le_one)
  from a(3) show one: "1 \<le> (1 + u) ^ n" by (rule one_le_power)
  from one show "0 \<le> (1 + u) ^ n" by simp
qed

lemma within_zero: "within_factor u n 0 0"
  by (simp add: within_factor_def)

lemma within_nonneg:
  assumes "0 \<le> u" "u \<le> 1" "0 \<le> X" "within_factor u n X v"
  shows "0 \<le> v"
proof -
  from assms(1-3) have "0 \<le> (1 - u) ^ n * X"
    by (simp add: factor_facts)
  also from assms(4) have "\<dots> \<le> v" by (simp add: within_factor_def)
  finally show ?thesis .
qed

lemma within_step:
  assumes r: "rounds_within u add" and w: "within_factor u n X v" and X: "0 \<le> X" and c: "0 \<le> c"
  shows "within_factor u (Suc n) (X + c) (add v c)"
proof -
  from r have u: "0 \<le> u" "u \<le> 1" by (simp_all add: rounds_within_def)
  note f = factor_facts [OF u, of n]
  from u X w have v: "0 \<le> v" by (rule within_nonneg)
  from r v c have lo: "(1 - u) * (v + c) \<le> add v c" and hi: "add v c \<le> (1 + u) * (v + c)"
    by (simp_all add: rounds_within_def)
  from w have wl: "(1 - u) ^ n * X \<le> v" and wh: "v \<le> (1 + u) ^ n * X"
    by (simp_all add: within_factor_def)
  have "c = 1 * c" by simp
  also from f(3) c have "\<dots> \<le> (1 + u) ^ n * c" by (rule mult_right_mono)
  finally have ch: "c \<le> (1 + u) ^ n * c" .
  from f(2) c have "(1 - u) ^ n * c \<le> 1 * c" by (rule mult_right_mono)
  then have cl: "(1 - u) ^ n * c \<le> c" by simp
  from wh ch have "v + c \<le> (1 + u) ^ n * X + (1 + u) ^ n * c" by simp
  moreover from u have "0 \<le> 1 + u" by simp
  ultimately have "(1 + u) * (v + c) \<le> (1 + u) * ((1 + u) ^ n * X + (1 + u) ^ n * c)"
    by (rule mult_left_mono)
  also have "\<dots> = (1 + u) ^ Suc n * (X + c)" by (simp add: algebra_simps)
  finally have up: "add v c \<le> (1 + u) ^ Suc n * (X + c)" using hi by simp
  from wl cl have "(1 - u) ^ n * X + (1 - u) ^ n * c \<le> v + c" by simp
  moreover from u have "0 \<le> 1 - u" by simp
  ultimately have "(1 - u) * ((1 - u) ^ n * X + (1 - u) ^ n * c) \<le> (1 - u) * (v + c)"
    by (rule mult_left_mono)
  moreover have "(1 - u) * ((1 - u) ^ n * X + (1 - u) ^ n * c) = (1 - u) ^ Suc n * (X + c)"
    by (simp add: algebra_simps)
  ultimately have down: "(1 - u) ^ Suc n * (X + c) \<le> add v c" using lo by simp
  from up down show ?thesis by (simp only: within_factor_def)
qed

lemma within_later:
  assumes u: "0 \<le> u" "u \<le> 1" and X: "0 \<le> X" and w: "within_factor u n X v"
  shows "within_factor u (Suc n) X v"
proof -
  note f = factor_facts [OF u, of n]
  from w have wl: "(1 - u) ^ n * X \<le> v" and wh: "v \<le> (1 + u) ^ n * X"
    by (simp_all add: within_factor_def)
  from f(1) X have lx: "0 \<le> (1 - u) ^ n * X" by simp
  from f(4) X have hx: "0 \<le> (1 + u) ^ n * X" by simp
  from u have "1 - u \<le> 1" by simp
  from this lx have "(1 - u) * ((1 - u) ^ n * X) \<le> 1 * ((1 - u) ^ n * X)" by (rule mult_right_mono)
  with wl have down: "(1 - u) ^ Suc n * X \<le> v" by (simp add: mult.assoc)
  from u have "1 \<le> 1 + u" by simp
  from this hx have "1 * ((1 + u) ^ n * X) \<le> (1 + u) * ((1 + u) ^ n * X)" by (rule mult_right_mono)
  with wh have up: "v \<le> (1 + u) ^ Suc n * X" by (simp add: mult.assoc)
  from up down show ?thesis by (simp only: within_factor_def)
qed

lemma within_apart:
  assumes "within_factor u n X a" and "within_factor u n X b"
  shows "\<bar>a - b\<bar> \<le> tolerance u n X"
proof -
  define lo where "lo = (1 - u) ^ n * X"
  define hi where "hi = (1 + u) ^ n * X"
  from assms have "lo \<le> a" "a \<le> hi" "lo \<le> b" "b \<le> hi"
    by (simp_all add: within_factor_def lo_def hi_def)
  then have "\<bar>a - b\<bar> \<le> hi - lo" by linarith
  then show ?thesis
    by (simp add: tolerance_def lo_def hi_def left_diff_distrib)
qed

lemma tolerance_mono:
  assumes "0 \<le> u" "u \<le> 1" "X \<le> Y"
  shows "tolerance u n X \<le> tolerance u n Y"
proof -
  from factor_facts [OF assms(1,2), of n] have "0 \<le> (1 + u) ^ n - (1 - u) ^ n" by simp
  with assms(3) show ?thesis
    unfolding tolerance_def by (rule mult_left_mono)
qed

lemma tolerance_exact [simp]: "tolerance 0 n X = 0"
  by (simp add: tolerance_def)

lemma within_sum:
  "list_all2 (\<lambda>x y. within_factor u n (g y) (f x)) xs ys
     \<Longrightarrow> within_factor u n (sum_list (map g ys)) (sum_list (map f xs))"
proof (induction rule: list_all2_induct)
  case Nil
  show ?case by (simp add: within_factor_def)
next
  case (Cons x xs y ys)
  then show ?case
    by (simp add: within_factor_def algebra_simps add_mono)
qed

lemma part_le_sum:
  "list_all (\<lambda>y. 0 \<le> g y) ys \<Longrightarrow> y \<in> set ys \<Longrightarrow> g y \<le> (sum_list (map g ys) :: rat)"
proof (induction ys)
  case Nil
  then show ?case by simp
next
  case (Cons z zs)
  from Cons.prems(1) have z: "0 \<le> g z" and zs: "list_all (\<lambda>y. 0 \<le> g y) zs" by simp_all
  from zs have s: "0 \<le> sum_list (map g zs)"
    by (induction zs) simp_all
  show ?case
  proof (cases "y = z")
    case True
    with s show ?thesis by simp
  next
    case False
    with Cons.prems(2) have "y \<in> set zs" by simp
    from Cons.IH [OF zs this] z show ?thesis by simp
  qed
qed

lemma rounds_exact: "rounds_within 0 (+)"
  by (simp add: rounds_within_def)

subsection \<open>The rounding of double addition\<close>

lemma round_half_even_error: "\<bar>of_int (round_half_even m) - m\<bar> \<le> 1 / 2"
proof -
  have "of_int \<lfloor>m\<rfloor> \<le> m" "m < of_int \<lfloor>m\<rfloor> + 1" by linarith+
  then show ?thesis
    by (auto simp: round_half_even_def Let_def)
qed

lemma bitlen_lower: "0 < p \<Longrightarrow> (2::rat) powi (bitlen p - 1) \<le> of_int p"
proof -
  assume p: "0 < p"
  then have b: "2 ^ nat (bitlen p - 1) \<le> p" and b': "p < 2 ^ nat (bitlen p)"
    using bitlen_bounds by blast+
  from p b' have "0 < bitlen p" by (cases "0 < bitlen p") simp_all
  then have "(2::rat) powi (bitlen p - 1) = 2 ^ nat (bitlen p - 1)"
    by (simp add: power_int_def)
  also have "\<dots> = of_int (2 ^ nat (bitlen p - 1))" by simp
  also from b have "\<dots> \<le> of_int p" by (simp only: of_int_le_iff)
  finally show ?thesis .
qed

lemma bitlen_upper: "0 < q \<Longrightarrow> of_int q \<le> (2::rat) powi (bitlen q)"
proof -
  assume q: "0 < q"
  then have b: "q < 2 ^ nat (bitlen q)" using bitlen_bounds by blast
  from q b have "0 < bitlen q" by (cases "0 < bitlen q") simp_all
  then have e: "(2::rat) powi (bitlen q) = 2 ^ nat (bitlen q)"
    by (simp add: power_int_def)
  from b have "(of_int q :: rat) \<le> of_int (2 ^ nat (bitlen q))" by (simp only: of_int_le_iff)
  also have "\<dots> = 2 ^ nat (bitlen q)" by simp
  finally show ?thesis using e by simp
qed

lemma double_exponent_scaled:
  assumes x: "0 < x"
  shows "2 ^ 52 \<le> x / 2 powi double_exponent x"
proof -
  obtain p q where pq: "quotient_of x = (p, q)" by (cases "quotient_of x")
  then have q: "0 < q" by (rule quotient_of_denom_pos)
  from pq have xe: "x = of_int p / of_int q" by (rule quotient_of_div)
  with x q have p: "0 < p" by (simp add: zero_less_divide_iff)
  define e where "e = bitlen p - bitlen q - 53"
  have pos: "\<And>k. (0::rat) < 2 powi k" by (simp add: zero_less_power_int)
  from q have qr: "(0::rat) < of_int q" by simp
  have "e + 52 = bitlen p - 1 - bitlen q" by (simp add: e_def)
  then have "(2::rat) powi (e + 52) = 2 powi (bitlen p - 1 - bitlen q)" by (simp only:)
  also have "\<dots> = 2 powi (bitlen p - 1) / 2 powi bitlen q"
    by (rule power_int_diff) simp
  also have "\<dots> \<le> of_int p / 2 powi bitlen q"
    using bitlen_lower [OF p] pos by (simp add: divide_right_mono)
  also have "\<dots> \<le> of_int p / of_int q"
    using bitlen_upper [OF q] qr p by (simp add: divide_left_mono)
  finally have "(2::rat) powi (e + 52) \<le> x" using xe by simp
  then have "(2::rat) powi e * 2 ^ 52 \<le> x" by (simp add: power_int_add)
  then have base: "2 ^ 52 \<le> x / 2 powi e"
    using pos [of e] by (simp add: pos_le_divide_eq mult.commute)
  show ?thesis
  proof (cases "x / 2 powi e < 2 ^ 53")
    case True
    with pq base show ?thesis by (simp add: double_exponent_def e_def Let_def)
  next
    case False
    then have "2 ^ 52 \<le> x / 2 powi e / 2" by simp
    also have "x / 2 powi e / 2 = x / 2 powi (e + 1)" by (simp add: power_int_add)
    finally show ?thesis using pq False by (simp add: double_exponent_def e_def Let_def)
  qed
qed

lemma double_exponent_normal:
  assumes x: "0 < x"
  shows "x / 2 powi double_exponent x < 2 ^ 53"
proof -
  obtain p q where pq: "quotient_of x = (p, q)" by (cases "quotient_of x")
  then have q: "0 < q" by (rule quotient_of_denom_pos)
  from pq have xe: "x = of_int p / of_int q" by (rule quotient_of_div)
  with x q have p: "0 < p" by (simp add: zero_less_divide_iff)
  define e where "e = bitlen p - bitlen q - 53"
  have pos: "\<And>k. (0::rat) < 2 powi k" by (simp add: zero_less_power_int)
  from p have pr: "(0::rat) < of_int p" by simp
  from p have "p < 2 ^ nat (bitlen p)" using bitlen_bounds by blast
  then have "(of_int p :: rat) < of_int (2 ^ nat (bitlen p))" by (simp only: of_int_less_iff)
  then have pu: "(of_int p :: rat) < 2 ^ nat (bitlen p)" by simp
  have bp: "0 \<le> bitlen p" by (simp add: bitlen_def)
  have pw: "(2::rat) powi bitlen p = 2 ^ nat (bitlen p)"
    using bp by (simp add: power_int_def)
  show ?thesis
  proof (cases "x / 2 powi e < 2 ^ 53")
    case True
    with pq show ?thesis by (simp add: double_exponent_def e_def Let_def)
  next
    case False
    have "x = of_int p / of_int q" by (rule xe)
    also have "\<dots> \<le> of_int p / 2 powi (bitlen q - 1)"
    proof (rule divide_left_mono)
      from bitlen_lower [OF q] show "(2::rat) powi (bitlen q - 1) \<le> of_int q" .
      from pr show "(0::rat) \<le> of_int p" by simp
      from q pos [of "bitlen q - 1"] show "(0::rat) < of_int q * 2 powi (bitlen q - 1)" by simp
    qed
    also have "\<dots> < 2 powi bitlen p / 2 powi (bitlen q - 1)"
      using pu pw pos [of "bitlen q - 1"] by (simp add: divide_strict_right_mono)
    also have "\<dots> = 2 powi (bitlen p - (bitlen q - 1))"
      by (rule power_int_diff [symmetric]) simp
    also have "bitlen p - (bitlen q - 1) = (e + 1) + 53" by (simp add: e_def)
    also have "(2::rat) powi ((e + 1) + 53) = 2 powi (e + 1) * 2 ^ 53"
      by (simp add: power_int_add)
    finally have "x < 2 powi (e + 1) * 2 ^ 53" .
    then have "x / 2 powi (e + 1) < 2 ^ 53"
      using pos [of "e + 1"] by (simp add: pos_divide_less_eq mult.commute)
    with pq False show ?thesis by (simp add: double_exponent_def e_def Let_def)
  qed
qed

lemma to_double_error:
  assumes "0 \<le> x"
  shows "\<bar>to_double x - x\<bar> \<le> x / 2 ^ 53"
proof (cases "x = 0")
  case True
  then show ?thesis by (simp add: to_double_def)
next
  case False
  with assms have x: "0 < x" by simp
  define s where "s = (2::rat) powi double_exponent x"
  define m where "m = x / s"
  have s: "0 < s" by (simp add: s_def zero_less_power_int)
  from double_exponent_scaled [OF x] have m: "2 ^ 52 \<le> m" by (simp add: m_def s_def)
  from s have xm: "x = m * s" by (simp add: m_def)
  from x have f: "to_double x = of_int (round_half_even m) * s"
    by (simp add: to_double_def m_def s_def)
  have "to_double x - x = (of_int (round_half_even m) - m) * s"
    by (simp only: f left_diff_distrib xm [symmetric])
  then have "\<bar>to_double x - x\<bar> = \<bar>of_int (round_half_even m) - m\<bar> * s"
    using s by (simp add: abs_mult)
  also have "\<dots> \<le> 1 / 2 * s"
    using round_half_even_error [of m] s by (simp add: mult_right_mono)
  also have "\<dots> \<le> m / 2 ^ 53 * s"
  proof (rule mult_right_mono)
    from m show "1 / 2 \<le> m / 2 ^ 53" by simp
    from s show "0 \<le> s" by simp
  qed
  also have "\<dots> = x / 2 ^ 53" by (simp add: xm)
  finally show ?thesis .
qed

lemma double_add_rounds: "rounds_within (1 / 2 ^ 53) double_add"
proof -
  have "\<And>x y. 0 \<le> x \<and> 0 \<le> y \<longrightarrow>
          (1 - 1 / 2 ^ 53) * (x + y) \<le> double_add x y
          \<and> double_add x y \<le> (1 + 1 / 2 ^ 53) * (x + y)"
  proof (intro impI)
    fix x y :: rat
    assume "0 \<le> x \<and> 0 \<le> y"
    then have "0 \<le> x + y" by simp
    from to_double_error [OF this]
    have "\<bar>to_double (x + y) - (x + y)\<bar> \<le> (x + y) / 2 ^ 53" .
    then have "(x + y) - (x + y) / 2 ^ 53 \<le> to_double (x + y)"
      "to_double (x + y) \<le> (x + y) + (x + y) / 2 ^ 53"
      by linarith+
    moreover have "(1 - 1 / 2 ^ 53) * (x + y) = (x + y) - (x + y) / 2 ^ 53"
      "(1 + 1 / 2 ^ 53) * (x + y) = (x + y) + (x + y) / 2 ^ 53"
      by (simp_all only: left_diff_distrib distrib_right mult_1 times_divide_eq_left)
    ultimately show "(1 - 1 / 2 ^ 53) * (x + y) \<le> double_add x y
          \<and> double_add x y \<le> (1 + 1 / 2 ^ 53) * (x + y)"
      by (simp only: double_add_def)
  qed
  then show ?thesis by (simp add: rounds_within_def)
qed

text \<open>The doubles 0.1 and 0.2 add up to the double 0.30000000000000004.\<close>

lemma double_add_example:
  "to_double (1 / 10) = 3602879701896397 / 2 ^ 55
   \<and> to_double (2 / 10) = 3602879701896397 / 2 ^ 54
   \<and> double_add (to_double (1 / 10)) (to_double (2 / 10)) = 1351079888211149 / 2 ^ 52
   \<and> to_double (30000000000000004 / 10 ^ 17) = 1351079888211149 / 2 ^ 52"
  by code_simp

subsection \<open>The rounded ledger stays close to the exact one\<close>

lemma upd_entry_rel:
  assumes "list_all2 R xs ys"
    and key: "\<And>x y. R x y \<Longrightarrow> fst x = fst y"
    and hit: "\<And>x y. R x y \<Longrightarrow> R' (fst x, f (snd x)) (fst y, g (snd y))"
    and miss: "\<And>x y. R x y \<Longrightarrow> R' x y"
    and fresh: "R' (k, f d) (k, g e)"
  shows "list_all2 R' (upd_entry k f d xs) (upd_entry k g e ys)"
  using assms(1)
proof (induction rule: list_all2_induct)
  case Nil
  from fresh show ?case by simp
next
  case (Cons x xs y ys)
  obtain kx vx where x: "x = (kx, vx)" by (cases x)
  obtain ky vy where y: "y = (ky, vy)" by (cases y)
  from key [OF Cons.hyps(1)] x y have k: "kx = ky" by simp
  from Cons.hyps(2) miss have rest: "list_all2 R' xs ys"
    by (rule list_all2_mono)
  show ?case
  proof (cases "k = kx")
    case True
    with hit [OF Cons.hyps(1)] x y k rest show ?thesis by simp
  next
    case False
    with miss [OF Cons.hyps(1)] x y k Cons.IH show ?thesis by simp
  qed
qed

lemma model_close_later:
  "0 \<le> u \<Longrightarrow> u \<le> 1 \<Longrightarrow> model_close u n x y \<Longrightarrow> model_close u (Suc n) x y"
  by (simp add: model_close_def within_later)

lemma model_close_billed:
  assumes "rounds_within u add" "0 \<le> dollarCost c" "model_close u n x y"
  shows "model_close u (Suc n) (fst x, bill_model add c (snd x)) (fst y, bill_model (+) c (snd y))"
  using assms by (simp add: model_close_def bill_model_def within_step)

lemma model_close_fresh:
  assumes "rounds_within u add" "0 \<le> dollarCost c"
  shows "model_close u (Suc n)
           (k, bill_model add c \<lparr>m_cost = 0, m_calls = 0, m_tokens = no_tokens\<rparr>)
           (k, bill_model (+) c \<lparr>m_cost = 0, m_calls = 0, m_tokens = no_tokens\<rparr>)"
  using within_step [OF assms(1) within_zero [of u n] order_refl assms(2)] assms(2)
  by (simp add: model_close_def bill_model_def)

lemma models_close_billed:
  assumes r: "rounds_within u add" and c: "0 \<le> dollarCost c"
    and m: "list_all2 (model_close u n) xs ys"
  shows "list_all2 (model_close u (Suc n))
           (upd_entry k (bill_model add c) \<lparr>m_cost = 0, m_calls = 0, m_tokens = no_tokens\<rparr> xs)
           (upd_entry k (bill_model (+) c) \<lparr>m_cost = 0, m_calls = 0, m_tokens = no_tokens\<rparr> ys)"
proof (rule upd_entry_rel [OF m])
  from r have u: "0 \<le> u" "u \<le> 1" by (simp_all add: rounds_within_def)
  fix x y
  assume xy: "model_close u n x y"
  then show "fst x = fst y" by (simp add: model_close_def)
  from r c xy
  show "model_close u (Suc n) (fst x, bill_model add c (snd x)) (fst y, bill_model (+) c (snd y))"
    by (rule model_close_billed)
  from u xy show "model_close u (Suc n) x y" by (rule model_close_later)
next
  from r c
  show "model_close u (Suc n)
           (k, bill_model add c \<lparr>m_cost = 0, m_calls = 0, m_tokens = no_tokens\<rparr>)
           (k, bill_model (+) c \<lparr>m_cost = 0, m_calls = 0, m_tokens = no_tokens\<rparr>)"
    by (rule model_close_fresh)
qed

lemma provider_close_later:
  assumes u: "0 \<le> u" "u \<le> 1" and p: "provider_close u n x y"
  shows "provider_close u (Suc n) x y"
proof -
  from p have "list_all2 (model_close u n) (p_models (snd x)) (p_models (snd y))"
    by (simp add: provider_close_def)
  then have "list_all2 (model_close u (Suc n)) (p_models (snd x)) (p_models (snd y))"
    by (rule list_all2_mono) (rule model_close_later [OF u])
  with u p show ?thesis by (simp add: provider_close_def within_later)
qed

lemma provider_close_billed:
  assumes r: "rounds_within u add" and c: "0 \<le> dollarCost c" and p: "provider_close u n x y"
  shows "provider_close u (Suc n)
           (fst x, bill_provider add c (snd x)) (fst y, bill_provider (+) c (snd y))"
proof -
  from p have "list_all2 (model_close u n) (p_models (snd x)) (p_models (snd y))"
    by (simp add: provider_close_def)
  from models_close_billed [OF r c this] r c p show ?thesis
    by (simp add: provider_close_def bill_provider_def within_step)
qed

lemma provider_close_fresh:
  assumes r: "rounds_within u add" and c: "0 \<le> dollarCost c"
  shows "provider_close u (Suc n)
           (k, bill_provider add c \<lparr>p_cost = 0, p_calls = 0, p_models = []\<rparr>)
           (k, bill_provider (+) c \<lparr>p_cost = 0, p_calls = 0, p_models = []\<rparr>)"
  using within_step [OF r within_zero [of u n] order_refl c] c model_close_fresh [OF r c]
  by (simp add: provider_close_def bill_provider_def)

lemma Record_close:
  assumes r: "rounds_within u add" and c: "0 \<le> dollarCost c" and l: "ledger_close u n s t"
  shows "ledger_close u (Suc n) (Record add c s) (Record (+) c t)"
proof -
  from r have u: "0 \<le> u" "u \<le> 1" by (simp_all add: rounds_within_def)
  from l have ps: "list_all2 (provider_close u n) (providers s) (providers t)"
    by (simp add: ledger_close_def)
  have "list_all2 (provider_close u (Suc n))
          (upd_entry (call_provider c) (bill_provider add c)
             \<lparr>p_cost = 0, p_calls = 0, p_models = []\<rparr> (providers s))
          (upd_entry (call_provider c) (bill_provider (+) c)
             \<lparr>p_cost = 0, p_calls = 0, p_models = []\<rparr> (providers t))"
  proof (rule upd_entry_rel [OF ps])
    fix x y
    assume xy: "provider_close u n x y"
    then show "fst x = fst y" by (simp add: provider_close_def)
    from r c xy
    show "provider_close u (Suc n)
            (fst x, bill_provider add c (snd x)) (fst y, bill_provider (+) c (snd y))"
      by (rule provider_close_billed)
    from u xy show "provider_close u (Suc n) x y" by (rule provider_close_later)
  next
    from r c
    show "provider_close u (Suc n)
            (call_provider c, bill_provider add c \<lparr>p_cost = 0, p_calls = 0, p_models = []\<rparr>)
            (call_provider c, bill_provider (+) c \<lparr>p_cost = 0, p_calls = 0, p_models = []\<rparr>)"
      by (rule provider_close_fresh)
  qed
  with r c l show ?thesis
    by (simp add: ledger_close_def Record_def within_step)
qed

lemma foldl_Record_close:
  assumes r: "rounds_within u add"
  shows "list_all (\<lambda>c. 0 \<le> dollarCost c) calls \<Longrightarrow> ledger_close u n s t
           \<Longrightarrow> ledger_close u (n + length calls)
                 (foldl (\<lambda>s c. Record add c s) s calls) (foldl (\<lambda>s c. Record (+) c s) t calls)"
proof (induction calls arbitrary: n s t)
  case Nil
  then show ?case by simp
next
  case (Cons c calls)
  from Cons.prems(1) have c: "0 \<le> dollarCost c" and cs: "list_all (\<lambda>c. 0 \<le> dollarCost c) calls"
    by simp_all
  from Record_close [OF r c Cons.prems(2)]
  have "ledger_close u (Suc n) (Record add c s) (Record (+) c t)" .
  from Cons.IH [OF cs this] show ?case by simp
qed

lemma ledger_of_close:
  assumes "rounds_within u add" and "list_all (\<lambda>c. 0 \<le> dollarCost c) calls"
  shows "ledger_close u (length calls) (ledger_of add calls) (ledger_of (+) calls)"
proof -
  have "ledger_close u 0 empty_ledger empty_ledger"
    by (simp add: ledger_close_def empty_ledger_def within_factor_def)
  from foldl_Record_close [OF assms this] show ?thesis
    by (simp add: ledger_of_def)
qed

subsection \<open>The exact ledger\<close>

lemma upd_entry_sum:
  fixes g :: "'v \<Rightarrow> 'a::comm_monoid_add"
  assumes "\<And>v. g (f v) = g v + x" and "g d = 0"
  shows "sum_list (map (\<lambda>kv. g (snd kv)) (upd_entry k f d kvs))
           = sum_list (map (\<lambda>kv. g (snd kv)) kvs) + x"
  using assms by (induction kvs) (auto simp: ac_simps)

lemma upd_entry_all:
  assumes "list_all (\<lambda>kv. P (snd kv)) kvs" and "\<And>v. P v \<Longrightarrow> P (f v)" and "P d"
  shows "list_all (\<lambda>kv. P (snd kv)) (upd_entry k f d kvs)"
  using assms by (induction kvs) auto

lemma bill_provider_exact: "usage_within 0 p \<Longrightarrow> usage_within 0 (bill_provider (+) c p)"
proof -
  assume p: "usage_within 0 p"
  have "sum_list (map (\<lambda>km. m_cost (snd km))
          (upd_entry (call_model c) (bill_model (+) c)
             \<lparr>m_cost = 0, m_calls = 0, m_tokens = no_tokens\<rparr> (p_models p)))
        = sum_list (map (\<lambda>km. m_cost (snd km)) (p_models p)) + dollarCost c"
    by (rule upd_entry_sum) (simp_all add: bill_model_def)
  moreover have "sum_list (map (\<lambda>km. m_calls (snd km))
          (upd_entry (call_model c) (bill_model (+) c)
             \<lparr>m_cost = 0, m_calls = 0, m_tokens = no_tokens\<rparr> (p_models p)))
        = sum_list (map (\<lambda>km. m_calls (snd km)) (p_models p)) + 1"
    by (rule upd_entry_sum) (simp_all add: bill_model_def)
  ultimately show ?thesis
    using p by (simp add: usage_within_def bill_provider_def)
qed

lemma fresh_provider_exact: "usage_within 0 \<lparr>p_cost = 0, p_calls = 0, p_models = []\<rparr>"
  by (simp add: usage_within_def)

lemma Record_exact: "ledger_within 0 s \<Longrightarrow> ledger_within 0 (Record (+) c s)"
proof -
  assume s: "ledger_within 0 s"
  let ?ps = "upd_entry (call_provider c) (bill_provider (+) c)
               \<lparr>p_cost = 0, p_calls = 0, p_models = []\<rparr> (providers s)"
  have cost: "sum_list (map (\<lambda>kp. p_cost (snd kp)) ?ps)
                = sum_list (map (\<lambda>kp. p_cost (snd kp)) (providers s)) + dollarCost c"
    by (rule upd_entry_sum) (simp_all add: bill_provider_def)
  have calls: "sum_list (map (\<lambda>kp. p_calls (snd kp)) ?ps)
                = sum_list (map (\<lambda>kp. p_calls (snd kp)) (providers s)) + 1"
    by (rule upd_entry_sum) (simp_all add: bill_provider_def)
  have each: "list_all (\<lambda>kp. usage_within 0 (snd kp)) ?ps"
    using s by (intro upd_entry_all bill_provider_exact fresh_provider_exact)
               (simp_all add: ledger_within_def)
  from s cost calls each show ?thesis
    by (simp add: ledger_within_def Record_def add_tokens_def)
qed

lemma foldl_Record_exact:
  "ledger_within 0 s \<Longrightarrow> ledger_within 0 (foldl (\<lambda>s c. Record (+) c s) s calls)"
  by (induction calls arbitrary: s) (simp_all add: Record_exact)

lemma ledger_of_exact: "ledger_within 0 (ledger_of (+) calls)"
  unfolding ledger_of_def
  by (rule foldl_Record_exact) (simp add: ledger_within_def empty_ledger_def no_tokens_def)

lemma foldl_Record_totals:
  "total_cost (foldl (\<lambda>s c. Record (+) c s) s calls) = total_cost s + sum_list (map dollarCost calls)
   \<and> api_calls (foldl (\<lambda>s c. Record add c s) s calls) = api_calls s + length calls
   \<and> tk_input (tokens_used (foldl (\<lambda>s c. Record add c s) s calls))
       = tk_input (tokens_used s) + sum_list (map inputTokens calls)
   \<and> tk_output (tokens_used (foldl (\<lambda>s c. Record add c s) s calls))
       = tk_output (tokens_used s) + sum_list (map outputTokens calls)
   \<and> tk_total (tokens_used (foldl (\<lambda>s c. Record add c s) s calls))
       = tk_total (tokens_used s) + sum_list (map inputTokens calls) + sum_list (map outputTokens calls)"
  by (induction calls arbitrary: s) (simp_all add: Record_def add_tokens_def)

lemma ledger_totals:
  "total_cost (ledger_of (+) calls) = sum_list (map dollarCost calls)"
  "api_calls (ledger_of add calls) = length calls"
  "tk_input (tokens_used (ledger_of add calls)) = sum_list (map inputTokens calls)"
  "tk_output (tokens_used (ledger_of add calls)) = sum_list (map outputTokens calls)"
  "tk_total (tokens_used (ledger_of add calls))
     = sum_list (map inputTokens calls) + sum_list (map outputTokens calls)"
  using foldl_Record_totals [of empty_ledger calls add]
  by (simp_all add: ledger_of_def empty_ledger_def no_tokens_def)

subsection \<open>From closeness to consistency within the tolerance\<close>

lemma models_sums:
  assumes "list_all2 (model_close u n) xs ys"
  shows "within_factor u n (sum_list (map (\<lambda>km. m_cost (snd km)) ys))
           (sum_list (map (\<lambda>km. m_cost (snd km)) xs))"
    and "sum_list (map (\<lambda>km. m_calls (snd km)) xs) = sum_list (map (\<lambda>km. m_calls (snd km)) ys)"
proof -
  from assms have "list_all2 (\<lambda>x y. within_factor u n (m_cost (snd y)) (m_cost (snd x))) xs ys"
    by (rule list_all2_mono) (simp add: model_close_def)
  then show "within_factor u n (sum_list (map (\<lambda>km. m_cost (snd km)) ys))
           (sum_list (map (\<lambda>km. m_cost (snd km)) xs))"
    by (rule within_sum)
  from assms show "sum_list (map (\<lambda>km. m_calls (snd km)) xs)
      = sum_list (map (\<lambda>km. m_calls (snd km)) ys)"
    by (induction rule: list_all2_induct) (simp_all add: model_close_def)
qed

lemma providers_sums:
  assumes "list_all2 (provider_close u n) xs ys"
  shows "within_factor u n (sum_list (map (\<lambda>kp. p_cost (snd kp)) ys))
           (sum_list (map (\<lambda>kp. p_cost (snd kp)) xs))"
    and "sum_list (map (\<lambda>kp. p_calls (snd kp)) xs) = sum_list (map (\<lambda>kp. p_calls (snd kp)) ys)"
proof -
  from assms have "list_all2 (\<lambda>x y. within_factor u n (p_cost (snd y)) (p_cost (snd x))) xs ys"
    by (rule list_all2_mono) (simp add: provider_close_def)
  then show "within_factor u n (sum_list (map (\<lambda>kp. p_cost (snd kp)) ys))
           (sum_list (map (\<lambda>kp. p_cost (snd kp)) xs))"
    by (rule within_sum)
  from assms show "sum_list (map (\<lambda>kp. p_calls (snd kp)) xs)
      = sum_list (map (\<lambda>kp. p_calls (snd kp)) ys)"
    by (induction rule: list_all2_induct) (simp_all add: provider_close_def)
qed

lemma list_all2_left:
  "list_all2 R xs ys \<Longrightarrow> (\<And>x y. R x y \<Longrightarrow> y \<in> set ys \<Longrightarrow> Q x) \<Longrightarrow> list_all Q xs"
  by (induction rule: list_all2_induct) auto

lemma close_within:
  assumes u: "0 \<le> u" "u \<le> 1"
    and close: "ledger_close u n s t" and exact: "ledger_within 0 t"
  shows "ledger_within (tolerance u n (total_cost t)) s"
proof -
  from close have tot: "within_factor u n (total_cost t) (total_cost s)"
    and ps: "list_all2 (provider_close u n) (providers s) (providers t)"
    and calls: "api_calls s = api_calls t" and tok: "tokens_used s = tokens_used t"
    by (simp_all add: ledger_close_def)
  from exact have et: "total_cost t = sum_list (map (\<lambda>kp. p_cost (snd kp)) (providers t))"
    and ec: "api_calls t = sum_list (map (\<lambda>kp. p_calls (snd kp)) (providers t))"
    and ep: "list_all (\<lambda>kp. usage_within 0 (snd kp)) (providers t)"
    and ek: "tk_total (tokens_used t) = tk_input (tokens_used t) + tk_output (tokens_used t)"
    by (simp_all add: ledger_within_def)
  from providers_sums(1) [OF ps] et
  have "within_factor u n (total_cost t) (sum_list (map (\<lambda>kp. p_cost (snd kp)) (providers s)))"
    by simp
  with tot have a: "\<bar>total_cost s - sum_list (map (\<lambda>kp. p_cost (snd kp)) (providers s))\<bar>
      \<le> tolerance u n (total_cost t)"
    by (rule within_apart)
  from providers_sums(2) [OF ps] calls ec
  have b: "api_calls s = sum_list (map (\<lambda>kp. p_calls (snd kp)) (providers s))" by simp
  from ps have nonneg: "list_all (\<lambda>kp. 0 \<le> p_cost (snd kp)) (providers t)"
    by (induction rule: list_all2_induct) (simp_all add: provider_close_def)
  have c: "list_all (\<lambda>kp. usage_within (tolerance u n (total_cost t)) (snd kp)) (providers s)"
  proof (rule list_all2_left [OF ps])
    fix x y
    assume xy: "provider_close u n x y" and y: "y \<in> set (providers t)"
    from xy have pc: "within_factor u n (p_cost (snd y)) (p_cost (snd x))"
      and ms: "list_all2 (model_close u n) (p_models (snd x)) (p_models (snd y))"
      and pk: "p_calls (snd x) = p_calls (snd y)"
      by (simp_all add: provider_close_def)
    from ep y have ey: "usage_within 0 (snd y)" by (simp add: list_all_iff)
    then have yc: "p_cost (snd y) = sum_list (map (\<lambda>km. m_cost (snd km)) (p_models (snd y)))"
      and yk: "p_calls (snd y) = sum_list (map (\<lambda>km. m_calls (snd km)) (p_models (snd y)))"
      by (simp_all add: usage_within_def)
    from models_sums(1) [OF ms] yc
    have "within_factor u n (p_cost (snd y))
            (sum_list (map (\<lambda>km. m_cost (snd km)) (p_models (snd x))))" by simp
    with pc have "\<bar>p_cost (snd x) - sum_list (map (\<lambda>km. m_cost (snd km)) (p_models (snd x)))\<bar>
        \<le> tolerance u n (p_cost (snd y))"
      by (rule within_apart)
    also have "\<dots> \<le> tolerance u n (total_cost t)"
    proof (rule tolerance_mono [OF u])
      from part_le_sum [OF nonneg y] et show "p_cost (snd y) \<le> total_cost t" by simp
    qed
    finally have d: "\<bar>p_cost (snd x) - sum_list (map (\<lambda>km. m_cost (snd km)) (p_models (snd x)))\<bar>
        \<le> tolerance u n (total_cost t)" .
    from models_sums(2) [OF ms] pk yk
    have "p_calls (snd x) = sum_list (map (\<lambda>km. m_calls (snd km)) (p_models (snd x)))" by simp
    with d show "usage_within (tolerance u n (total_cost t)) (snd x)"
      by (simp add: usage_within_def)
  qed
  from tok ek have e: "tk_total (tokens_used s) = tk_input (tokens_used s) + tk_output (tokens_used s)"
    by simp
  from a b c e show ?thesis by (simp add: ledger_within_def)
qed

subsection \<open>The persisted block\<close>

lemma those_Some: "those (map (\<lambda>x. Some (h x)) xs) = Some (map h xs)"
  by (induction xs) simp_all

lemma sum_list_of_nat:
  "sum_list (map (\<lambda>x. (of_nat (h x) :: rat)) xs) = of_nat (sum_list (map h xs))"
  by (induction xs) simp_all

lemma sum_field_encoded:
  assumes "\<And>v. field_num k (enc v) = Some (g v)"
  shows "sum_field k (map snd (map (\<lambda>kv. (fst kv, enc (snd kv))) kvs))
           = Some (sum_list (map (\<lambda>kv. g (snd kv)) kvs))"
proof -
  have "map (field_num k) (map snd (map (\<lambda>kv. (fst kv, enc (snd kv))) kvs))
          = map (\<lambda>kv. Some (g (snd kv))) kvs"
    by (simp add: assms)
  then show ?thesis
    by (simp only: sum_field_def those_Some option.map)
qed

lemma sum_field_cost_models:
  "sum_field ''cost'' (map snd (map (\<lambda>km. (fst km, model_json (snd km))) ms))
     = Some (sum_list (map (\<lambda>km. m_cost (snd km)) ms))"
  by (rule sum_field_encoded) (simp add: field_num_def model_json_def)

lemma sum_field_calls_models:
  "sum_field ''calls'' (map snd (map (\<lambda>km. (fst km, model_json (snd km))) ms))
     = Some (of_nat (sum_list (map (\<lambda>km. m_calls (snd km)) ms)))"
proof -
  have "sum_field ''calls'' (map snd (map (\<lambda>km. (fst km, model_json (snd km))) ms))
     = Some (sum_list (map (\<lambda>km. of_nat (m_calls (snd km))) ms))"
    by (rule sum_field_encoded) (simp add: field_num_def model_json_def)
  then show ?thesis by (simp only: sum_list_of_nat)
qed

lemma sum_field_cost_providers:
  "sum_field ''cost'' (map snd (map (\<lambda>kp. (fst kp, provider_json (snd kp))) ps))
     = Some (sum_list (map (\<lambda>kp. p_cost (snd kp)) ps))"
  by (rule sum_field_encoded) (simp add: field_num_def provider_json_def)

lemma sum_field_calls_providers:
  "sum_field ''calls'' (map snd (map (\<lambda>kp. (fst kp, provider_json (snd kp))) ps))
     = Some (of_nat (sum_list (map (\<lambda>kp. p_calls (snd kp)) ps)))"
proof -
  have "sum_field ''calls'' (map snd (map (\<lambda>kp. (fst kp, provider_json (snd kp))) ps))
     = Some (sum_list (map (\<lambda>kp. of_nat (p_calls (snd kp))) ps))"
    by (rule sum_field_encoded) (simp add: field_num_def provider_json_def)
  then show ?thesis by (simp only: sum_list_of_nat)
qed

lemma provider_json_within: "usage_within tol p \<Longrightarrow> provider_within tol (provider_json p)"
proof -
  assume p: "usage_within tol p"
  have e: "entries ''models'' (provider_json p)
             = map snd (map (\<lambda>km. (fst km, model_json (snd km))) (p_models p))"
    by (simp add: entries_def provider_json_def)
  have c: "field_num ''cost'' (provider_json p) = Some (p_cost p)"
    "field_num ''calls'' (provider_json p) = Some (of_nat (p_calls p))"
    by (simp_all add: field_num_def provider_json_def)
  from p show ?thesis
    unfolding provider_within_def e c sum_field_cost_models sum_field_calls_models
    by (simp add: is_sum_of_def is_within_def usage_within_def)
qed

lemma cost_tracking_json_within:
  "ledger_within tol s \<Longrightarrow> cost_tracking_within tol (cost_tracking_json duration s)"
proof -
  assume s: "ledger_within tol s"
  let ?ct = "cost_tracking_json duration s"
  have e: "entries ''providers'' ?ct
             = map snd (map (\<lambda>kp. (fst kp, provider_json (snd kp))) (providers s))"
    by (simp add: entries_def cost_tracking_json_def)
  have c: "field_num ''total_cost'' ?ct = Some (total_cost s)"
    "field_num ''api_calls'' ?ct = Some (of_nat (api_calls s))"
    by (simp_all add: field_num_def cost_tracking_json_def)
  have t: "tokens_consistent ?ct"
    using s by (simp add: tokens_consistent_def cost_tracking_json_def field_num_def
        is_sum_of_def opt_add_def ledger_within_def)
  have each: "list_all (provider_within tol)
                (map snd (map (\<lambda>kp. (fst kp, provider_json (snd kp))) (providers s)))"
    using s by (auto simp: ledger_within_def list_all_iff provider_json_within)
  from s t each show ?thesis
    unfolding cost_tracking_within_def e c sum_field_cost_providers sum_field_calls_providers
    by (simp add: is_sum_of_def is_within_def ledger_within_def)
qed

lemma within_self:
  assumes "0 \<le> u" "u \<le> 1" "0 \<le> X"
  shows "within_factor u n X X"
proof -
  note f = factor_facts [OF assms(1,2), of n]
  from f(2) assms(3) have "(1 - u) ^ n * X \<le> 1 * X" by (rule mult_right_mono)
  moreover from f(3) assms(3) have "1 * X \<le> (1 + u) ^ n * X" by (rule mult_right_mono)
  ultimately show ?thesis by (simp add: within_factor_def)
qed

lemma costs_nonneg: "list_all (\<lambda>c. 0 \<le> dollarCost c) calls \<Longrightarrow> 0 \<le> sum_list (map dollarCost calls)"
  by (induction calls) simp_all

text \<open>
  The ledger kept with an addition that rounds within \<open>u\<close>: its snapshot is additively
  consistent within the tolerance of its calls, its total is within the same tolerance of
  the exact sum of the costs of the calls, and its counts are exact.
\<close>

lemma rounded_ledger_additive:
  assumes r: "rounds_within u add" and c: "list_all (\<lambda>c. 0 \<le> dollarCost c) calls"
  shows "cost_tracking_within (tolerance u (length calls) (sum_list (map dollarCost calls)))
           (cost_tracking_json duration (ledger_of add calls))"
    and "\<bar>total_cost (ledger_of add calls) - sum_list (map dollarCost calls)\<bar>
           \<le> tolerance u (length calls) (sum_list (map dollarCost calls))"
proof -
  from r have u: "0 \<le> u" "u \<le> 1" by (simp_all add: rounds_within_def)
  let ?X = "sum_list (map dollarCost calls)"
  from ledger_of_close [OF r c]
  have close: "ledger_close u (length calls) (ledger_of add calls) (ledger_of (+) calls)" .
  from close_within [OF u close ledger_of_exact]
  have "ledger_within (tolerance u (length calls) ?X) (ledger_of add calls)"
    by (simp only: ledger_totals)
  then show "cost_tracking_within (tolerance u (length calls) ?X)
           (cost_tracking_json duration (ledger_of add calls))"
    by (rule cost_tracking_json_within)
  from close have "within_factor u (length calls) ?X (total_cost (ledger_of add calls))"
    by (simp add: ledger_close_def ledger_totals)
  moreover from u costs_nonneg [OF c] have "within_factor u (length calls) ?X ?X"
    by (rule within_self)
  ultimately show "\<bar>total_cost (ledger_of add calls) - ?X\<bar> \<le> tolerance u (length calls) ?X"
    by (rule within_apart)
qed

text \<open>
  With exact addition the tolerance is 0: the snapshot is additively consistent exactly.
\<close>

lemma exact_ledger_additive:
  "cost_tracking_within 0 (cost_tracking_json duration (ledger_of (+) calls))"
  using ledger_of_exact by (rule cost_tracking_json_within)

text \<open>
  The ledger of the three calls, kept in doubles, as it is persisted: the total is the
  double 0.6000000000000001, the providers hold the doubles 0.4 and 0.2, whose sum is
  \<open>2\<^sup>-\<^sup>5\<^sup>4\<close> below the total. The block is not additively consistent exactly.
\<close>

lemma three_calls_block:
  "cost_tracking_json 5 (ledger_of double_add three_calls)
   = JObj
      [(''total_cost'', JReal (1351079888211149 / 2 ^ 51)),
       (''api_calls'', JInt 3),
       (''tokens_used'',
          JObj [(''input_tokens'', JInt 600), (''output_tokens'', JInt 250),
                (''total_tokens'', JInt 850)]),
       (''session_duration_seconds'', JReal 5),
       (''providers'',
          JObj
           [(''anthropic'',
               JObj [(''cost'', JReal (3602879701896397 / 2 ^ 53)), (''calls'', JInt 2),
                     (''models'',
                        JObj [(''claude-3-5-sonnet-latest'',
                                 JObj [(''cost'', JReal (3602879701896397 / 2 ^ 53)),
                                       (''calls'', JInt 2),
                                       (''tokens'',
                                          JObj [(''input'', JInt 500), (''output'', JInt 200),
                                                (''total'', JInt 700)])])])]),
            (''openai'',
               JObj [(''cost'', JReal (3602879701896397 / 2 ^ 54)), (''calls'', JInt 1),
                     (''models'',
                        JObj [(''gpt-4o'',
                                 JObj [(''cost'', JReal (3602879701896397 / 2 ^ 54)),
                                       (''calls'', JInt 1),
                                       (''tokens'',
                                          JObj [(''input'', JInt 100), (''output'', JInt 50),
                                                (''total'', JInt 150)])])])])])]"
  by code_simp

lemma three_calls_not_exact:
  "cost_tracking_within 0 (cost_tracking_json 5 (ledger_of double_add three_calls)) = False"
  by code_simp

text \<open>
  The \<^verbatim>\<open>cost_tracking\<close> blocks of the two artifacts of the repository, and the level-0 block
  embedded in the level-2 artifact, are additively consistent, their decimal literals
  taken exactly. Each of them has one provider with one model, so each of their sums has
  one term: they show the layout of the block, not the rounding of its sums.
\<close>

lemma artifact_cost_tracking:
  "at_path [''metadata'', ''cost_tracking''] level0_artifact = Some level0_metadata_cost_tracking"
  "at_path [''metadata'', ''cost_tracking''] level2_artifact = Some level2_metadata_cost_tracking"
  by (simp_all add: level0_metadata level2_metadata level0_metadata_def level2_metadata_def)

lemma level0_cost_consistent: "cost_tracking_within 0 level0_metadata_cost_tracking"
  by (simp add: cost_tracking_within_def provider_within_def tokens_consistent_def
      is_sum_of_def is_within_def opt_add_def sum_field_def field_num_def entries_def
      level0_metadata_cost_tracking_def)

lemma level2_cost_consistent: "cost_tracking_within 0 level2_metadata_cost_tracking"
  by (simp add: cost_tracking_within_def provider_within_def tokens_consistent_def
      is_sum_of_def is_within_def opt_add_def sum_field_def field_num_def entries_def
      level2_metadata_cost_tracking_def)

lemma level2_original_cost_consistent:
  "map_option (cost_tracking_within 0)
     (at_path [''metadata'', ''original_metadata'', ''cost_tracking''] level2_artifact) = Some True"
  by (simp add: level2_metadata level2_metadata_def level2_metadata_original_metadata_def
      cost_tracking_within_def provider_within_def tokens_consistent_def
      is_sum_of_def is_within_def opt_add_def sum_field_def field_num_def entries_def)

text \<open>
  Claim C4. For every run, that is for every list of billed calls recorded in the ledger
  of the run, none of them with a negative cost, the persisted \<^verbatim>\<open>cost_tracking\<close> block of
  the ledger kept in doubles is additively consistent up to the floating-point tolerance
  \<open>((1 + u)\<^sup>n - (1 - u)\<^sup>n) X\<close>, where \<open>u = 2\<^sup>-\<^sup>5\<^sup>3\<close> is the unit roundoff of doubles, \<open>n\<close> the
  number of calls and \<open>X\<close> the exact sum of their costs: \<^verbatim>\<open>total_cost\<close> differs by no more
  than the tolerance from the sum of the providers' costs, each provider's cost by no
  more than the tolerance from the sum of its models' costs, and \<^verbatim>\<open>total_cost\<close> by no more
  than the tolerance from the sum of the costs of the recorded calls. The integer fields
  are exact: \<^verbatim>\<open>api_calls\<close> is the sum of the providers' call counts, each of which is the
  sum of its models' call counts, and it is the number of recorded calls;
  \<^verbatim>\<open>total_tokens\<close> is \<^verbatim>\<open>input_tokens + output_tokens\<close> and the sum of the tokens of the calls.
\<close>

theorem cost_tracking_additive:
  assumes "list_all (\<lambda>c. 0 \<le> dollarCost c) calls"
  shows "cost_tracking_within (tolerance (1 / 2 ^ 53) (length calls) (sum_list (map dollarCost calls)))
           (cost_tracking_json duration (ledger_of double_add calls))
   \<and> is_within (tolerance (1 / 2 ^ 53) (length calls) (sum_list (map dollarCost calls)))
        (field_num ''total_cost'' (cost_tracking_json duration (ledger_of double_add calls)))
        (Some (sum_list (map dollarCost calls)))
   \<and> field_num ''api_calls'' (cost_tracking_json duration (ledger_of double_add calls))
       = Some (of_nat (length calls))
   \<and> tk_total (tokens_used (ledger_of double_add calls))
       = sum_list (map inputTokens calls) + sum_list (map outputTokens calls)"
proof -
  note r = rounded_ledger_additive [OF double_add_rounds assms]
  have t: "field_num ''total_cost'' (cost_tracking_json duration (ledger_of double_add calls))
             = Some (total_cost (ledger_of double_add calls))"
    by (simp add: field_num_def cost_tracking_json_def)
  have i: "is_within (tolerance (1 / 2 ^ 53) (length calls) (sum_list (map dollarCost calls)))
        (field_num ''total_cost'' (cost_tracking_json duration (ledger_of double_add calls)))
        (Some (sum_list (map dollarCost calls)))"
    unfolding t using r(2) by (simp only: is_within_def option.case)
  have c: "field_num ''api_calls'' (cost_tracking_json duration (ledger_of double_add calls))
       = Some (of_nat (length calls))"
    by (simp add: field_num_def cost_tracking_json_def ledger_totals)
  have k: "tk_total (tokens_used (ledger_of double_add calls))
       = sum_list (map inputTokens calls) + sum_list (map outputTokens calls)"
    by (simp only: ledger_totals)
  from r(1) i c k show ?thesis by (intro conjI)
qed

theorem cost_tracking_additive_witness:
  "list_all (\<lambda>c. 0 \<le> dollarCost c) three_calls
   \<and> cost_tracking_within (tolerance (1 / 2 ^ 53) 3 (to_double (1 / 10) + to_double (2 / 10) + to_double (3 / 10)))
        (cost_tracking_json 5 (ledger_of double_add three_calls))
   \<and> is_within (tolerance (1 / 2 ^ 53) 3 (to_double (1 / 10) + to_double (2 / 10) + to_double (3 / 10)))
        (field_num ''total_cost'' (cost_tracking_json 5 (ledger_of double_add three_calls)))
        (Some (to_double (1 / 10) + to_double (2 / 10) + to_double (3 / 10)))
   \<and> field_num ''api_calls'' (cost_tracking_json 5 (ledger_of double_add three_calls)) = Some 3
   \<and> tk_total (tokens_used (ledger_of double_add three_calls)) = 850"
proof -
  have h: "list_all (\<lambda>c. 0 \<le> dollarCost c) three_calls"
    by code_simp
  have n: "length three_calls = 3"
    "sum_list (map dollarCost three_calls)
       = to_double (1 / 10) + to_double (2 / 10) + to_double (3 / 10)"
    "sum_list (map inputTokens three_calls) + sum_list (map outputTokens three_calls) = 850"
    by (simp_all add: three_calls_def)
  from h cost_tracking_additive [OF h, of 5] show ?thesis
    by (simp add: n)
qed

section \<open>Run folders\<close>

lemma digit_val_char: "d < 10 \<Longrightarrow> digit_val (digit_char d) = d"
proof -
  assume "d < 10"
  then have "d \<in> {0, 1, 2, 3, 4, 5, 6, 7, 8, 9}" by auto
  then show ?thesis
    by (auto simp: digit_val_def digit_char_def)
qed

lemma read_nat_snoc: "read_nat (s @ [c]) = 10 * read_nat s + digit_val c"
  by (simp add: read_nat_def)

lemma read_show_nat: "read_nat (show_nat n) = n"
proof (induction n rule: show_nat.induct)
  case (1 n)
  show ?case
  proof (cases "n < 10")
    case True
    then have "show_nat n = [digit_char n]" by (simp add: show_nat.simps)
    with True show ?thesis by (simp add: read_nat_def digit_val_char)
  next
    case False
    then have s: "show_nat n = show_nat (n div 10) @ [digit_char (n mod 10)]"
      by (subst show_nat.simps) simp
    have "read_nat (show_nat n) = 10 * read_nat (show_nat (n div 10)) + digit_val (digit_char (n mod 10))"
      by (simp only: s read_nat_snoc)
    also have "\<dots> = 10 * (n div 10) + n mod 10"
      using False by (simp add: "1.IH" digit_val_char)
    also have "\<dots> = n" by simp
    finally show ?thesis .
  qed
qed

lemma show_nat_inject: "show_nat m = show_nat n \<Longrightarrow> m = n"
proof -
  assume e: "show_nat m = show_nat n"
  have "m = read_nat (show_nat m)" by (simp only: read_show_nat)
  also have "\<dots> = read_nat (show_nat n)" by (simp only: e)
  also have "\<dots> = n" by (simp only: read_show_nat)
  finally show ?thesis .
qed

lemma run_folder_name_inject: "run_folder_name d m = run_folder_name d n \<Longrightarrow> m = n"
  by (simp add: run_folder_name_def show_nat_inject)

lemma allocate_times_names:
  "fst (allocate_times n d st) = map (run_folder_name d) [last_run st d + 1 ..< last_run st d + 1 + n]
   \<and> last_run (snd (allocate_times n d st)) d = last_run st d + n
   \<and> files (snd (allocate_times n d st)) = files st"
proof (induction n arbitrary: st)
  case 0
  show ?case by simp
next
  case (Suc n)
  let ?st = "st\<lparr>last_run := (last_run st)(d := last_run st d + 1)\<rparr>"
  have "[last_run st d + 1 ..< last_run st d + 1 + Suc n]
          = (last_run st d + 1) # [last_run ?st d + 1 ..< last_run ?st d + 1 + n]"
    by (simp add: upt_rec)
  with Suc.IH [of ?st] show ?case
    by (simp add: AllocateRunFolder_def split_beta)
qed

lemma allocate_times_distinct: "distinct (fst (allocate_times n d st))"
proof -
  have "inj_on (run_folder_name d) (set [last_run st d + 1 ..< last_run st d + 1 + n])"
    by (rule inj_onI) (rule run_folder_name_inject)
  then show ?thesis
    by (simp add: allocate_times_names distinct_map)
qed

lemma length_show_nat_le: "n < 10 ^ k \<Longrightarrow> 0 < k \<Longrightarrow> length (show_nat n) \<le> k"
proof (induction n arbitrary: k rule: show_nat.induct)
  case (1 n)
  show ?case
  proof (cases "n < 10")
    case True
    with "1.prems" show ?thesis by (simp add: show_nat.simps)
  next
    case False
    with "1.prems" obtain j where k: "k = Suc j" and j: "0 < j"
      by (cases k; cases "k - 1") auto
    from "1.prems" k have "n div 10 < 10 ^ j"
      by (simp add: less_mult_imp_div_less mult.commute)
    with False j have "length (show_nat (n div 10)) \<le> j" by (intro "1.IH") simp_all
    moreover from False have "show_nat n = show_nat (n div 10) @ [digit_char (n mod 10)]"
      by (subst show_nat.simps) simp
    ultimately show ?thesis using k by simp
  qed
qed

lemma length_pad: "length s \<le> w \<Longrightarrow> length (pad w s) = w"
  by (simp add: pad_def)

lemma length_iso_date:
  "year d < 10000 \<Longrightarrow> month d < 100 \<Longrightarrow> day d < 100 \<Longrightarrow> length (iso_date d) = 10"
proof -
  assume "year d < 10000" "month d < 100" "day d < 100"
  then have "length (show_nat (year d)) \<le> 4" "length (show_nat (month d)) \<le> 2"
    "length (show_nat (day d)) \<le> 2"
    using length_show_nat_le [of "year d" 4] length_show_nat_le [of "month d" 2]
      length_show_nat_le [of "day d" 2] by simp_all
  then show ?thesis by (simp add: iso_date_def length_pad)
qed

lemma run_2025_07_16:
  "run_folder_name \<lparr>year = 2025, month = 7, day = 16\<rparr> 18 = ''run_2025-07-16_18''"
  "run_folder_name \<lparr>year = 2025, month = 7, day = 16\<rparr> 16 = ''run_2025-07-16_16''"
  by (simp_all add: run_folder_name_def iso_date_def pad_def show_nat.simps digit_char_def)

lemma artifact_run_folders:
  "at_path [''metadata'', ''run_folder''] level0_artifact = Some (JStr ''run_2025-07-16_18'')"
  "at_path [''metadata'', ''run_folder''] level2_artifact = Some (JStr ''run_2025-07-16_16'')"
  by (simp_all add: level0_metadata level2_metadata level0_metadata_def level2_metadata_def)

lemma SaveLevel_keeps:
  "SaveLevel folder i actors metadata st = Inr st' \<Longrightarrow> files st key = Some doc
     \<Longrightarrow> files st' key = Some doc"
  by (auto simp: SaveLevel_def split: option.splits)

text \<open>
  Claim C5. A run folder is named \<^verbatim>\<open>run_<YYYY-MM-DD>_<N>\<close>: the text \<^verbatim>\<open>run_\<close>, the date in ten
  characters, an underscore and the decimal numeral of the per-day counter \<open>N\<close>. \<open>N\<close> calls
  of \<^verbatim>\<open>AllocateRunFolder\<close> on one date, from any state of the store, return the names for
  the \<open>N\<close> counter values that follow the last one used on that date, in increasing order;
  these names are pairwise distinct, the counter of the date ends \<open>N\<close> higher, so no number
  is used again, and no artifact is touched. The decimal numeral determines the number.
  An artifact that has been written stays as it is through every later \<^verbatim>\<open>SaveLevel\<close>. The
  run folders named in the two artifacts of the repository have this form.
\<close>

theorem run_folders_distinct:
  "distinct (fst (allocate_times n d st))
   \<and> length (fst (allocate_times n d st)) = n
   \<and> fst (allocate_times n d st)
       = map (\<lambda>k. ''run_'' @ iso_date d @ ''_'' @ show_nat k)
           [last_run st d + 1 ..< last_run st d + 1 + n]
   \<and> last_run (snd (allocate_times n d st)) d = last_run st d + n
   \<and> files (snd (allocate_times n d st)) = files st
   \<and> fst (AllocateRunFolder d st)
       \<notin> set (fst (allocate_times n d (snd (AllocateRunFolder d st))))
   \<and> read_nat (show_nat k) = k
   \<and> (\<forall>st'. SaveLevel folder i actors metadata st = Inr st' \<longrightarrow>
          (\<forall>key doc. files st key = Some doc \<longrightarrow> files st' key = Some doc))
   \<and> (year d < 10000 \<and> month d < 100 \<and> day d < 100 \<longrightarrow> length (iso_date d) = 10)
   \<and> at_path [''metadata'', ''run_folder''] level0_artifact
       = Some (JStr (run_folder_name \<lparr>year = 2025, month = 7, day = 16\<rparr> 18))
   \<and> at_path [''metadata'', ''run_folder''] level2_artifact
       = Some (JStr (run_folder_name \<lparr>year = 2025, month = 7, day = 16\<rparr> 16))"
proof -
  have names: "fst (allocate_times n d st)
       = map (\<lambda>k. ''run_'' @ iso_date d @ ''_'' @ show_nat k)
           [last_run st d + 1 ..< last_run st d + 1 + n]"
    using allocate_times_names [of n d st] by (simp add: run_folder_name_def [abs_def])
  have len: "length (fst (allocate_times n d st)) = n"
    by (simp add: allocate_times_names)
  have fresh: "fst (AllocateRunFolder d st)
       \<notin> set (fst (allocate_times n d (snd (AllocateRunFolder d st))))"
  proof -
    have "distinct (fst (allocate_times (Suc n) d st))" by (rule allocate_times_distinct)
    then show ?thesis by (simp add: split_beta)
  qed
  have iso: "year d < 10000 \<and> month d < 100 \<and> day d < 100 \<longrightarrow> length (iso_date d) = 10"
    by (simp add: length_iso_date)
  have a: "at_path [''metadata'', ''run_folder''] level0_artifact
       = Some (JStr (run_folder_name \<lparr>year = 2025, month = 7, day = 16\<rparr> 18))"
    "at_path [''metadata'', ''run_folder''] level2_artifact
       = Some (JStr (run_folder_name \<lparr>year = 2025, month = 7, day = 16\<rparr> 16))"
    by (simp_all only: artifact_run_folders run_2025_07_16)
  have keep: "\<forall>st'. SaveLevel folder i actors metadata st = Inr st' \<longrightarrow>
          (\<forall>key doc. files st key = Some doc \<longrightarrow> files st' key = Some doc)"
    using SaveLevel_keeps by blast
  from names len fresh iso a keep allocate_times_distinct [of n d st]
    allocate_times_names [of n d st] read_show_nat [of k]
  show ?thesis by (intro conjI) simp_all
qed

theorem run_folders_distinct_witness:
  "fst (allocate_times 3 \<lparr>year = 2025, month = 7, day = 16\<rparr>
          (empty_store\<lparr>last_run := (\<lambda>d. 15)\<rparr>))
     = [''run_2025-07-16_16'', ''run_2025-07-16_17'', ''run_2025-07-16_18'']
   \<and> length (iso_date \<lparr>year = 2025, month = 7, day = 16\<rparr>) = 10"
proof -
  have u: "[Suc 15 ..< Suc (15 + 3)] = [16, 17, 18]"
    by (simp add: upt_rec)
  show ?thesis
    using run_folders_distinct [of 3 "\<lparr>year = 2025, month = 7, day = 16\<rparr>"
        "empty_store\<lparr>last_run := (\<lambda>d. 15)\<rparr>" 0]
    by (simp add: u iso_date_def pad_def show_nat.simps digit_char_def)
qed

section \<open>Saving a level and loading it again\<close>

lemma value_type_roundtrip: "value_type_named (value_type_name v) = Some v"
  by (cases v) (simp_all add: value_type_named_def value_type_name_def)

lemma parameter_roundtrip: "parameter_of_json (parameter_to_json p) = Some p"
  by (simp add: parameter_of_json_def parameter_to_json_def string_at_def value_type_roundtrip)

lemma those_roundtrip:
  "(\<And>x. x \<in> set xs \<Longrightarrow> f (g x) = Some x) \<Longrightarrow> those (map f (map g xs)) = Some xs"
  by (induction xs) simp_all

lemma actor_json_members:
  "string_at ''name'' (actor_to_json a) = Some (name a)"
  "string_at ''description'' (actor_to_json a) = Some (description a)"
  "string_at ''type'' (actor_to_json a) = Some (type_of a)"
  "nat_at ''depth'' (actor_to_json a) = Some (depth a)"
  "member ''depth'' (actor_to_json a) = Some (JInt (int (depth a)))"
  "array_at ''parameters'' (actor_to_json a) = map parameter_to_json (parameters a)"
  "array_at ''children'' (actor_to_json a) = map actor_to_json (children a)"
  "is_array (member ''children'' (actor_to_json a))"
  "member ''error_flag'' (actor_to_json a) = (if error_flag a then Some (JBool True) else None)"
  by (cases a; simp add: string_at_def nat_at_def array_at_def is_array_def)+

lemma actor_roundtrip: "actor_of_json (actor_to_json a) = Some a"
proof (induction a)
  case (Actor n d t dp ps cs ef)
  let ?a = "Actor n d t dp ps cs ef"
  have kids: "those (map actor_of_json (map actor_to_json cs)) = Some cs"
    by (rule those_roundtrip) (rule Actor.IH)
  have pars: "those (map parameter_of_json (map parameter_to_json ps)) = Some ps"
    by (rule those_roundtrip) (rule parameter_roundtrip)
  have "actor_of_json (actor_to_json ?a)
          = Some (Actor n d t dp ps cs (member ''error_flag'' (actor_to_json ?a) = Some (JBool True)))"
    using kids pars
    by (subst actor_of_json.simps) (simp add: actor_json_members del: actor_to_json.simps)
  then show ?case by (simp add: actor_json_members del: actor_to_json.simps)
qed

lemma level_artifact_actors:
  "array_at ''actors'' (level_artifact metadata actors) = map actor_to_json actors"
  "is_array (member ''actors'' (level_artifact metadata actors))"
  by (simp_all add: level_artifact_def array_at_def is_array_def)

lemma load_saved:
  "files st (runFolder, levelIndex) = Some (level_artifact metadata actors)
     \<Longrightarrow> LoadLevel runFolder levelIndex st = Inr actors"
proof -
  assume f: "files st (runFolder, levelIndex) = Some (level_artifact metadata actors)"
  have "those (map actor_of_json (map actor_to_json actors)) = Some actors"
    by (rule those_roundtrip) (rule actor_roundtrip)
  with f show ?thesis
    by (simp add: LoadLevel_def level_artifact_actors)
qed

text \<open>
  Claim C7. Where no artifact has been written yet, \<^verbatim>\<open>SaveLevel\<close> succeeds, and
  \<^verbatim>\<open>LoadLevel\<close> of the same run folder and level then returns the very trees that were
  saved; so whatever it returns has the same node count, the same node names, the same
  node depths and the same parent/child edges.
\<close>

theorem save_load_roundtrip:
  assumes "files st (runFolder, levelIndex) = None"
  shows "\<exists>st'. SaveLevel runFolder levelIndex actors metadata st = Inr st'
           \<and> LoadLevel runFolder levelIndex st' = Inr actors
           \<and> (\<forall>loaded. LoadLevel runFolder levelIndex st' = Inr loaded \<longrightarrow>
                 node_count loaded = node_count actors
                 \<and> node_names loaded = node_names actors
                 \<and> node_depths loaded = node_depths actors
                 \<and> tree_edges loaded = tree_edges actors)"
proof -
  let ?st = "st\<lparr>files := (files st)((runFolder, levelIndex) \<mapsto> level_artifact metadata actors)\<rparr>"
  from assms have s: "SaveLevel runFolder levelIndex actors metadata st = Inr ?st"
    by (simp add: SaveLevel_def)
  have l: "LoadLevel runFolder levelIndex ?st = Inr actors"
    by (rule load_saved [of _ _ _ metadata]) simp
  from s l show ?thesis by simp
qed

theorem save_load_roundtrip_witness:
  "LoadLevel ''run_2025-07-16_18'' 1
     (projr (SaveLevel ''run_2025-07-16_18'' 1
        [Actor ''A'' ''first root'' ''country'' 0 []
           [Actor ''A1'' ''a child'' ''institution'' 1
              [\<lparr>code_name = ''budget'', display_name = ''Budget'', description_of = ''Annual budget'',
                value_type_of = VFloat, expected_value_range = ''1-2 billion USD''\<rparr>] [] False,
            Actor ''A2'' ''a skipped child'' ''corporation'' 1 [] [] True] False,
         Actor ''B'' ''second root'' ''corporation'' 0 [] [] False]
        JNull empty_store))
   = Inr [Actor ''A'' ''first root'' ''country'' 0 []
           [Actor ''A1'' ''a child'' ''institution'' 1
              [\<lparr>code_name = ''budget'', display_name = ''Budget'', description_of = ''Annual budget'',
                value_type_of = VFloat, expected_value_range = ''1-2 billion USD''\<rparr>] [] False,
            Actor ''A2'' ''a skipped child'' ''corporation'' 1 [] [] True] False,
         Actor ''B'' ''second root'' ''corporation'' 0 [] [] False]
   \<and> files empty_store (''run_2025-07-16_18'', 1) = None"
proof -
  have e: "files empty_store (''run_2025-07-16_18'', 1) = None"
    by (simp add: empty_store_def)
  from save_load_roundtrip [OF e, of
        "[Actor ''A'' ''first root'' ''country'' 0 []
           [Actor ''A1'' ''a child'' ''institution'' 1
              [\<lparr>code_name = ''budget'', display_name = ''Budget'', description_of = ''Annual budget'',
                value_type_of = VFloat, expected_value_range = ''1-2 billion USD''\<rparr>] [] False,
            Actor ''A2'' ''a skipped child'' ''corporation'' 1 [] [] True] False,
         Actor ''B'' ''second root'' ''corporation'' 0 [] [] False]" JNull]
  show ?thesis using e by auto
qed

section \<open>Depths in generated trees\<close>

lemma all_or_abort_Inr: "all_or_abort (map f xs) = Inr ys \<Longrightarrow> list_all2 (\<lambda>x y. f x = Inr y) xs ys"
proof (induction xs arbitrary: ys)
  case Nil
  then show ?case by simp
next
  case (Cons x xs)
  from Cons.prems obtain v vs where v: "f x = Inr v" and vs: "all_or_abort (map f xs) = Inr vs"
    and ys: "ys = v # vs"
    by (auto split: sum.splits)
  from Cons.IH [OF vs] v ys show ?case by simp
qed

lemma list_all2_transfer:
  "list_all2 R xs ys \<Longrightarrow> list_all P xs \<Longrightarrow> (\<And>x y. R x y \<Longrightarrow> P x \<Longrightarrow> Q y) \<Longrightarrow> list_all Q ys"
  by (induction rule: list_all2_induct) auto

lemma list_all_concat: "list_all P (concat xss) = list_all (list_all P) xss"
  by (induction xss) simp_all

lemma depths_ok_children:
  "depths_ok a \<longleftrightarrow> list_all (\<lambda>c. depth c = depth a + 1 \<and> depths_ok c) (children a)"
  by (cases a) simp

lemma nodes_children: "nodes a = a # concat (map nodes (children a))"
  by (cases a) simp

lemma with_children_sel [simp]:
  "name (with_children a cs) = name a" "depth (with_children a cs) = depth a"
  "children (with_children a cs) = cs" "error_flag (with_children a cs) = error_flag a"
  by (simp_all add: with_children_def)

lemma skipped_sel [simp]:
  "name (skipped a) = name a" "depth (skipped a) = depth a"
  "children (skipped a) = []" "error_flag (skipped a)"
  by (simp_all add: skipped_def)

lemma child_of_sel [simp]:
  "depth (child_of a d) = depth a + 1" "children (child_of a d) = []"
  "name (child_of a d) = draft_name d" "\<not> error_flag (child_of a d)"
  by (simp_all add: child_of_def)

text \<open>A tree within the bound \<open>M\<close>: the depth invariant holds and no node is deeper than \<open>M\<close>.\<close>

lemma leaf_ok: "children a = [] \<Longrightarrow> depths_ok a"
  by (simp add: depths_ok_children [of a])

lemma leaf_nodes: "children a = [] \<Longrightarrow> nodes a = [a]"
  by (simp add: nodes_children [of a])

lemma leaf_within:
  "children a = [] \<Longrightarrow> depth a \<le> M \<Longrightarrow> depths_ok a \<and> list_all (\<lambda>n. depth n \<le> M) (nodes a)"
  by (simp add: leaf_ok leaf_nodes)

lemma within_mono:
  "list_all (\<lambda>n. depth n \<le> M) ns \<Longrightarrow> M \<le> M' \<Longrightarrow> list_all (\<lambda>n. depth n \<le> M') ns"
  by (induction ns) auto

lemma expand_node_within:
  assumes "expand_node call pol cfg a = Inr a'" and "depth a \<le> M"
  shows "depths_ok a' \<and> list_all (\<lambda>n. depth n \<le> Suc M) (nodes a') \<and> depth a' = depth a"
proof (cases "snd (RetryController (call a) pol (attempt_budget pol) (first_attempt cfg))")
  case (Expanded ds)
  with assms(1) have a': "a' = with_children a (map (child_of a) ds)"
    by (simp add: expand_node_def)
  have kids: "list_all (\<lambda>c. depth c = depth a + 1 \<and> depths_ok c
                 \<and> list_all (\<lambda>n. depth n \<le> Suc M) (nodes c)) (map (child_of a) ds)"
    using assms(2) by (induction ds) (simp_all add: leaf_ok leaf_nodes)
  then have "list_all (\<lambda>c. depth c = depth a' + 1 \<and> depths_ok c) (children a')"
    and "list_all (list_all (\<lambda>n. depth n \<le> Suc M)) (map nodes (children a'))"
    unfolding a' by (simp_all add: list_all_iff)
  moreover have "depth a' = depth a" by (simp add: a')
  ultimately show ?thesis
    using assms(2)
    by (simp add: depths_ok_children [of a'] nodes_children [of a'] list_all_concat)
next
  case NodeExhaustedError
  with assms(1) have "a' = skipped a"
    by (simp add: expand_node_def split: if_splits)
  with assms(2) show ?thesis
    by (simp add: leaf_within le_SucI)
next
  case (Fatal k)
  with assms(1) show ?thesis by (simp add: expand_node_def)
qed

lemma expand_at_within:
  "expand_at call pol cfg k a = Inr a' \<Longrightarrow> depths_ok a \<Longrightarrow> list_all (\<lambda>n. depth n \<le> M) (nodes a)
     \<Longrightarrow> depths_ok a' \<and> list_all (\<lambda>n. depth n \<le> Suc M) (nodes a') \<and> depth a' = depth a"
proof (induction k arbitrary: a a')
  case 0
  from "0.prems"(3) have "depth a \<le> M" by (simp add: nodes_children [of a])
  with "0.prems"(1) show ?case by (simp add: expand_node_within)
next
  case (Suc k)
  from Suc.prems(1) obtain cs
    where seq: "all_or_abort (map (expand_at call pol cfg k) (children a)) = Inr cs"
      and a': "a' = with_children a cs"
    by (auto split: sum.splits)
  from seq have rel: "list_all2 (\<lambda>c c'. expand_at call pol cfg k c = Inr c') (children a) cs"
    by (rule all_or_abort_Inr)
  from Suc.prems(2) have ok: "list_all (\<lambda>c. depth c = depth a + 1 \<and> depths_ok c) (children a)"
    by (simp add: depths_ok_children [of a])
  from Suc.prems(3) have top: "depth a \<le> M"
    and below: "list_all (\<lambda>c. list_all (\<lambda>n. depth n \<le> M) (nodes c)) (children a)"
    by (simp_all add: nodes_children [of a] list_all_concat list_all_iff)
  from ok below have both: "list_all (\<lambda>c. (depth c = depth a + 1 \<and> depths_ok c)
        \<and> list_all (\<lambda>n. depth n \<le> M) (nodes c)) (children a)"
    by (simp add: list_all_iff)
  have new: "list_all (\<lambda>c'. (depth c' = depth a + 1 \<and> depths_ok c')
        \<and> list_all (\<lambda>n. depth n \<le> Suc M) (nodes c')) cs"
  proof (rule list_all2_transfer [OF rel both])
    fix c c'
    assume e: "expand_at call pol cfg k c = Inr c'"
      and c: "(depth c = depth a + 1 \<and> depths_ok c) \<and> list_all (\<lambda>n. depth n \<le> M) (nodes c)"
    from c have ok: "depths_ok c" and bd: "list_all (\<lambda>n. depth n \<le> M) (nodes c)"
      by simp_all
    from Suc.IH [OF e ok bd] c
    show "(depth c' = depth a + 1 \<and> depths_ok c') \<and> list_all (\<lambda>n. depth n \<le> Suc M) (nodes c')"
      by simp
  qed
  then have "list_all (\<lambda>c. depth c = depth a' + 1 \<and> depths_ok c) (children a')"
    and "list_all (list_all (\<lambda>n. depth n \<le> Suc M)) (map nodes (children a'))"
    unfolding a' by (simp_all add: list_all_iff)
  moreover have "depth a' = depth a" by (simp add: a')
  ultimately show ?case
    using top
    by (simp add: depths_ok_children [of a'] nodes_children [of a'] list_all_concat)
qed

text \<open>The trees of a level: all roots at depth \<open>d0\<close>, the invariant, and the bound \<open>M\<close>.\<close>

definition level_within :: "nat \<Rightarrow> nat \<Rightarrow> actor list \<Rightarrow> bool" where
  "level_within d0 M trees =
     list_all (\<lambda>t. depth t = d0 \<and> depths_ok t \<and> list_all (\<lambda>n. depth n \<le> M) (nodes t)) trees"

lemma level_within_mono: "level_within d0 M trees \<Longrightarrow> M \<le> M' \<Longrightarrow> level_within d0 M' trees"
  unfolding level_within_def
  by (induction trees) (auto intro: within_mono)

lemma GenerateLevel_within:
  assumes "GenerateLevel call pol cfg prev levelIndex = Inr (new, stats)"
    and "level_within d0 M prev"
  shows "level_within d0 (Suc M) new"
proof -
  from assms(1) have "all_or_abort (map (expand_at call pol cfg (levelIndex - 1)) prev) = Inr new"
    by (auto simp: GenerateLevel_def split: sum.splits)
  then have rel: "list_all2 (\<lambda>t t'. expand_at call pol cfg (levelIndex - 1) t = Inr t') prev new"
    by (rule all_or_abort_Inr)
  show ?thesis
    unfolding level_within_def
  proof (rule list_all2_transfer [OF rel assms(2) [unfolded level_within_def]])
    fix t t'
    assume e: "expand_at call pol cfg (levelIndex - 1) t = Inr t'"
      and t: "depth t = d0 \<and> depths_ok t \<and> list_all (\<lambda>n. depth n \<le> M) (nodes t)"
    from t have ok: "depths_ok t" and bd: "list_all (\<lambda>n. depth n \<le> M) (nodes t)"
      by simp_all
    from expand_at_within [OF e ok bd] t
    show "depth t' = d0 \<and> depths_ok t' \<and> list_all (\<lambda>n. depth n \<le> Suc M) (nodes t')"
      by simp
  qed
qed

lemma run_levels_within:
  "level_within d0 M prev
     \<Longrightarrow> list_all (\<lambda>l. level_within d0 (M + n) (fst l)) completed
     \<Longrightarrow> list_all (\<lambda>l. level_within d0 (M + n) (fst l))
           (levels (run_levels call pol cfg levelIndex n prev completed))"
proof (induction n arbitrary: levelIndex prev completed M)
  case 0
  then show ?case by simp
next
  case (Suc n)
  show ?case
  proof (cases "GenerateLevel call pol cfg prev levelIndex")
    case (Inl e)
    with Suc.prems(2) show ?thesis by simp
  next
    case (Inr r)
    obtain new stats where r: "r = (new, stats)" by (cases r)
    from Inr r Suc.prems(1) have new: "level_within d0 (Suc M) new"
      by (auto intro: GenerateLevel_within)
    then have "level_within d0 (Suc M + n) new"
      by (rule level_within_mono) simp
    with Suc.prems(2) have "list_all (\<lambda>l. level_within d0 (Suc M + n) (fst l)) (completed @ [(new, stats)])"
      by simp
    from Suc.IH [OF new this] Inr r show ?thesis by simp
  qed
qed

lemma nested_json_depths:
  "depths_ok a \<Longrightarrow> depth a = d0 + d
     \<Longrightarrow> list_all (\<lambda>(d', j). member ''depth'' j = Some (JInt (int (d0 + d'))))
           (nested ''children'' d (actor_to_json a))"
proof (induction a arbitrary: d)
  case (Actor n ds t dp ps cs ef)
  let ?a = "Actor n ds t dp ps cs ef"
  have "list_all (list_all (\<lambda>(d', j). member ''depth'' j = Some (JInt (int (d0 + d')))))
          (map (nested ''children'' (Suc d)) (map actor_to_json cs))"
    unfolding list_all_iff
  proof
    fix l
    assume "l \<in> set (map (nested ''children'' (Suc d)) (map actor_to_json cs))"
    then obtain c where c: "c \<in> set cs" and l: "l = nested ''children'' (Suc d) (actor_to_json c)"
      by auto
    from Actor.prems c have "depths_ok c" "depth c = d0 + Suc d"
      by (auto simp: list_all_iff)
    from Actor.IH [OF c this] l
    show "\<forall>x \<in> set l. case x of (d', j) \<Rightarrow> member ''depth'' j = Some (JInt (int (d0 + d')))"
      by (simp add: list_all_iff)
  qed
  moreover have "member ''depth'' (actor_to_json ?a) = Some (JInt (int (d0 + d)))"
    using Actor.prems(2) by simp
  moreover have "array_at ''children'' (actor_to_json ?a) = map actor_to_json cs"
    by (simp add: array_at_def)
  ultimately show ?case
    by (subst nested.simps) (simp add: list_all_concat del: actor_to_json.simps)
qed

lemma level_artifact_depths:
  "level_within d0 M trees \<Longrightarrow> carries_depths ''children'' d0 (level_artifact metadata trees)"
proof -
  assume w: "level_within d0 M trees"
  have "list_all (list_all (\<lambda>(d', j). member ''depth'' j = Some (JInt (int (d0 + d')))))
          (map (nested ''children'' 0) (map actor_to_json trees))"
    unfolding list_all_iff
  proof
    fix l
    assume "l \<in> set (map (nested ''children'' 0) (map actor_to_json trees))"
    then obtain t where t: "t \<in> set trees" and l: "l = nested ''children'' 0 (actor_to_json t)"
      by auto
    from w t have "depths_ok t" "depth t = d0 + 0"
      by (auto simp: level_within_def list_all_iff)
    from nested_json_depths [OF this] l
    show "\<forall>x \<in> set l. case x of (d', j) \<Rightarrow> member ''depth'' j = Some (JInt (int (d0 + d')))"
      by (simp add: list_all_iff)
  qed
  then show ?thesis
    by (simp add: carries_depths_def actor_records_def level_artifact_actors list_all_concat)
qed

lemma level0_level: "at_path [''metadata'', ''level''] level0_artifact = Some (JInt 0)"
  by (simp add: level0_metadata level0_metadata_def)

lemma level2_level: "at_path [''metadata'', ''level''] level2_artifact = Some (JInt 2)"
  by (simp add: level2_metadata level2_metadata_def)

lemma level2_records_children:
  "actor_records ''children'' level2_artifact = [(0, level2_actors_0), (0, level2_actors_1)]"
  by (simp add: actor_records_def level2_actors nested.simps level2_no_children_key)

text \<open>
  Claim C1, as stated, fails on the artifacts of the repository. The artifact of level 0
  gives both of its root actors the depth 1, not 0; and no actor record of the level-2
  artifact carries a \<^verbatim>\<open>depth\<close> field, whether its nesting is read under \<^verbatim>\<open>sub_actors\<close> (the key
  the file uses) or under \<^verbatim>\<open>children\<close>.
\<close>

theorem artifact_depths_differ:
  "at_path [''metadata'', ''level''] level0_artifact = Some (JInt 0)
   \<and> map (\<lambda>(d, a). member ''depth'' a) (actor_records ''children'' level0_artifact)
       = [Some (JInt 1), Some (JInt 1)]
   \<and> \<not> carries_depths ''children'' 0 level0_artifact
   \<and> member ''depth'' level2_actors_0 = None
   \<and> \<not> carries_depths ''sub_actors'' 0 level2_artifact
   \<and> \<not> carries_depths ''children'' 0 level2_artifact"
  by (simp add: level0_level carries_depths_def level0_records level2_records
      level2_records_children level0_depth level2_depth del: at_path.simps)

text \<open>
  Claim C1, amended. In every tree generated from roots that are leaves at one depth
  \<open>d0\<close>, in every completed level of the run: each root is still at depth \<open>d0\<close>, every
  child's depth is its parent's depth plus one, no node is deeper than
  \<open>d0 + target_depth\<close> (that is \<open>target_depth\<close> for roots at depth 0), and in the level
  artifact written for these trees every actor record carries the integer \<^verbatim>\<open>depth\<close> field
  that is \<open>d0\<close> plus its nesting depth. Depths are natural numbers. In the artifacts of the
  repository the root actors of level 0 carry the depth 1, and the 18 actor records of the
  level-2 artifact carry no \<^verbatim>\<open>depth\<close> field; their nesting under \<^verbatim>\<open>sub_actors\<close> is at most 2
  deep, the level of the artifact.
\<close>

theorem generated_depths:
  assumes "list_all (\<lambda>r. depth r = d0 \<and> children r = []) roots"
  shows "list_all
           (\<lambda>l. list_all (\<lambda>t. depth t = d0 \<and> depths_ok t
                              \<and> list_all (\<lambda>n. depth n \<le> d0 + target_depth cfg) (nodes t)) (fst l)
                \<and> carries_depths ''children'' d0 (level_artifact metadata (fst l)))
           (levels (StartGeneration call pol cfg roots))
       \<and> carries_depths ''children'' 1 level0_artifact
       \<and> at_path [''metadata'', ''level''] level0_artifact = Some (JInt 0)
       \<and> list_all (\<lambda>(d, a). member ''depth'' a = None \<and> d \<le> 2)
           (actor_records ''sub_actors'' level2_artifact)
       \<and> at_path [''metadata'', ''level''] level2_artifact = Some (JInt 2)"
proof -
  from assms have "level_within d0 d0 roots"
    unfolding level_within_def by (induction roots) (simp_all add: leaf_ok leaf_nodes)
  then have "list_all (\<lambda>l. level_within d0 (d0 + target_depth cfg) (fst l))
               (levels (run_levels call pol cfg 1 (target_depth cfg) roots []))"
    by (rule run_levels_within) simp
  then have gen: "list_all
           (\<lambda>l. list_all (\<lambda>t. depth t = d0 \<and> depths_ok t
                              \<and> list_all (\<lambda>n. depth n \<le> d0 + target_depth cfg) (nodes t)) (fst l)
                \<and> carries_depths ''children'' d0 (level_artifact metadata (fst l)))
           (levels (StartGeneration call pol cfg roots))"
    unfolding StartGeneration_def list_all_iff
    by (auto simp: level_within_def [unfolded list_all_iff] intro: level_artifact_depths
        [unfolded level_within_def list_all_iff])
  have a0: "carries_depths ''children'' 1 level0_artifact"
    by (simp add: carries_depths_def level0_records level0_depth)
  have a2: "list_all (\<lambda>(d, a). member ''depth'' a = None \<and> d \<le> 2)
           (actor_records ''sub_actors'' level2_artifact)"
    by (simp add: level2_records level2_depth)
  from gen a0 a2 level0_level level2_level show ?thesis
    by (intro conjI)
qed

theorem generated_depths_witness:
  "list_all (\<lambda>r. depth r = 0 \<and> children r = []) scenario_roots
   \<and> map (\<lambda>l. node_depths (fst l))
        (levels (StartGeneration exactly_as_requested \<lparr>attempt_budget = 3, fallback = None\<rparr>
           \<lparr>provider = ''stub'', model = ''stub'', num_actors = 2, num_subactors = 2,
            target_depth = 2, skip_on_error = True\<rparr> scenario_roots))
       = [[0, 1, 1, 0, 1, 1], [0, 1, 2, 2, 1, 2, 2, 0, 1, 2, 2, 1, 2, 2]]"
proof -
  have h: "list_all (\<lambda>r. depth r = 0 \<and> children r = []) scenario_roots"
    by (simp add: scenario_roots_def root_actor_def)
  have e: "map (\<lambda>l. node_depths (fst l))
        (levels (StartGeneration exactly_as_requested \<lparr>attempt_budget = 3, fallback = None\<rparr>
           \<lparr>provider = ''stub'', model = ''stub'', num_actors = 2, num_subactors = 2,
            target_depth = 2, skip_on_error = True\<rparr> scenario_roots))
       = [[0, 1, 1, 0, 1, 1], [0, 1, 2, 2, 1, 2, 2, 0, 1, 2, 2, 1, 2, 2]]"
    by code_simp
  from generated_depths [OF h, of "\<lparr>provider = ''stub'', model = ''stub'', num_actors = 2,
        num_subactors = 2, target_depth = 2, skip_on_error = True\<rparr>" JNull exactly_as_requested
        "\<lparr>attempt_budget = 3, fallback = None\<rparr>"] h e
  show ?thesis by blast
qed

section \<open>Nodes that fail and are skipped\<close>



lemma scenario_three_children:
  "StartGeneration exactly_as_requested \<lparr>attempt_budget = 3, fallback = None\<rparr>
     (scenario_config True) scenario_roots
   = \<lparr>run_status = Completed,
      levels =
        [([Actor ''A'' [] [] 0 []
             [Actor ''A.1'' [] ''institution'' 1 [] [] False,
              Actor ''A.2'' [] ''institution'' 1 [] [] False,
              Actor ''A.3'' [] ''institution'' 1 [] [] False] False,
           Actor ''B'' [] [] 0 []
             [Actor ''B.1'' [] ''institution'' 1 [] [] False,
              Actor ''B.2'' [] ''institution'' 1 [] [] False,
              Actor ''B.3'' [] ''institution'' 1 [] [] False] False],
          \<lparr>total_actors = 2, total_children = 6, actors_with_children = 2,
           avg_children_per_actor = 3, successful = 2, failed = 0\<rparr>)]\<rparr>"
  by code_simp


end
